(* ===== verification/Prelude.thy ===== *)
theory Prelude
  imports Complex_Main
begin

text \<open>
  Shared vocabulary of the development: the Python built-ins the planner relies on
  (\<open>int()\<close> on a float, \<open>list.index\<close>, the lookup of the first list element with a
  given key), the error type every fallible step returns, and the generic lemmas on
  sums over lists that the mass-balance and conservation proofs share.
\<close>

named_theorems model_simps "equations that evaluate the planner model on concrete data"

section \<open>Errors\<close>

text \<open>
  Every exception the planner can raise is a constructor; a fallible step returns
  \<open>error + 'a\<close> with \<open>Inl\<close> the exception.
\<close>

datatype error =
    ValueError        \<comment> \<open>\<open>list.index\<close> of a missing element, \<open>int()\<close> of a non-integer text\<close>
  | KeyError          \<comment> \<open>a missing dictionary key\<close>
  | NotANumber        \<comment> \<open>\<open>None\<close> or a non-numeric text used as a number in a solver expression\<close>
  | TypeError         \<comment> \<open>unpacking \<open>None\<close> where a tuple is expected\<close>

text \<open>Sequencing of fallible steps: the first exception propagates.\<close>

definition bind_err :: "error + 'a \<Rightarrow> ('a \<Rightarrow> error + 'b) \<Rightarrow> error + 'b" where
  "bind_err m f = (case m of Inl e \<Rightarrow> Inl e | Inr x \<Rightarrow> f x)"

lemma bind_err_simps [simp]:
  "bind_err (Inl e) f = Inl e"
  "bind_err (Inr x) f = f x"
  by (simp_all add: bind_err_def)

lemma bind_err_eq_Inr: "bind_err m f = Inr y \<longleftrightarrow> (\<exists>x. m = Inr x \<and> f x = Inr y)"
  by (cases m) auto

text \<open>A loop whose body may raise: the state is threaded, the first exception ends it.\<close>

fun fold_err :: "('s \<Rightarrow> 'a \<Rightarrow> error + 's) \<Rightarrow> 'a list \<Rightarrow> 's \<Rightarrow> error + 's" where
  "fold_err f [] s = Inr s"
| "fold_err f (x # xs) s = bind_err (f s x) (fold_err f xs)"

lemma fold_err_append:
  "fold_err f (xs @ ys) s = bind_err (fold_err f xs s) (fold_err f ys)"
  by (induction xs arbitrary: s) (auto simp: bind_err_def split: sum.splits)

text \<open>Evaluating a list of fallible expressions in order.\<close>

fun sequence_err :: "(error + 'a) list \<Rightarrow> error + 'a list" where
  "sequence_err [] = Inr []"
| "sequence_err (x # xs) = bind_err x (\<lambda>a. bind_err (sequence_err xs) (\<lambda>as. Inr (a # as)))"

lemma sequence_err_Inr: "sequence_err xs = Inr ys \<longleftrightarrow> xs = map Inr ys"
proof (induction xs arbitrary: ys)
  case Nil
  then show ?case by auto
next
  case (Cons x xs)
  then show ?case by (cases ys) (auto simp: bind_err_eq_Inr)
qed

text \<open>What a successful sequence yields, and that it succeeds when every element does.\<close>

lemma sequence_err_set:
  "sequence_err (map f zs) = Inr ys \<Longrightarrow> y \<in> set ys \<longleftrightarrow> (\<exists>z\<in>set zs. f z = Inr y)"
  unfolding sequence_err_Inr by (metis (no_types, lifting) image_iff inj_Inr inj_image_mem_iff list.set_map)

lemma sequence_err_all_Inr:
  "(\<And>z. z \<in> set zs \<Longrightarrow> \<exists>y. f z = Inr y) \<Longrightarrow> \<exists>ys. sequence_err (map f zs) = Inr ys"
  by (induction zs) (auto simp: bind_err_eq_Inr)

lemma sequence_err_keyed:
  "(\<And>z. z \<in> set zs \<Longrightarrow> \<exists>w. f z = Inr (fst z, w)) \<Longrightarrow>
     \<exists>ys. sequence_err (map f zs) = Inr ys \<and> map fst ys = map fst zs"
proof (induction zs)
  case Nil
  then show ?case by simp
next
  case (Cons z zs)
  from Cons.prems obtain w where "f z = Inr (fst z, w)" by fastforce
  moreover from Cons.IH Cons.prems obtain ys where "sequence_err (map f zs) = Inr ys" "map fst ys = map fst zs"
    by fastforce
  ultimately show ?case by (intro exI [of _ "(fst z, w) # ys"]) simp
qed

text \<open>A sequence of fallible items whose every failure is the same exception fails with it.\<close>

lemma sequence_err_Inl:
  assumes "Inl E \<in> set xs" and "\<forall>e. Inl e \<in> set xs \<longrightarrow> e = E"
  shows "sequence_err xs = Inl E"
  using assms
proof (induction xs)
  case Nil
  then show ?case by simp
next
  case (Cons y ys)
  show ?case
  proof (cases y)
    case (Inl e)
    have "Inl e \<in> set (y # ys)" using Inl by simp
    with Cons.prems(2) have "e = E" by blast
    with Inl show ?thesis by simp
  next
    case (Inr a)
    have "Inl E \<in> set ys" using Cons.prems(1) Inr by auto
    moreover have "\<forall>e. Inl e \<in> set ys \<longrightarrow> e = E" using Cons.prems(2) by simp
    ultimately have "sequence_err ys = Inl E" by (rule Cons.IH)
    with Inr show ?thesis by simp
  qed
qed

lemma sequence_err_append:
  "sequence_err (xs @ ys) = bind_err (sequence_err xs) (\<lambda>as. bind_err (sequence_err ys) (\<lambda>bs. Inr (as @ bs)))"
  by (induction xs) (auto simp: bind_err_def split: sum.splits)

text \<open>An invariant of every iteration of a loop holds when the loop returns.\<close>

lemma fold_err_invariant:
  assumes "fold_err f xs s = Inr s'" and "P s"
    and "\<And>s x t. x \<in> set xs \<Longrightarrow> P s \<Longrightarrow> f s x = Inr t \<Longrightarrow> P t"
  shows "P s'"
  using assms by (induction xs arbitrary: s) (auto simp: bind_err_eq_Inr)

text \<open>A loop returns when every iteration does from every state of an invariant.\<close>

lemma fold_err_Inr:
  assumes "P s" and "\<And>s x. x \<in> set xs \<Longrightarrow> P s \<Longrightarrow> \<exists>t. f s x = Inr t \<and> P t"
  shows "\<exists>s'. fold_err f xs s = Inr s' \<and> P s'"
  using assms by (induction xs arbitrary: s) (fastforce simp: bind_err_eq_Inr)+

lemma fold_err_split:
  "fold_err f (pre @ x # post) s = Inr s' \<Longrightarrow>
     \<exists>s1 s2. fold_err f pre s = Inr s1 \<and> f s1 x = Inr s2 \<and> fold_err f post s2 = Inr s'"
  by (auto simp: fold_err_append bind_err_eq_Inr)

lemma enumerate_split_at:
  assumes "i < length xs"
  shows "enumerate n xs = enumerate n (take i xs) @ (n + i, xs ! i) # enumerate (Suc (n + i)) (drop (Suc i) xs)"
proof -
  from id_take_nth_drop [OF assms]
  have "enumerate n xs = enumerate n (take i xs @ xs ! i # drop (Suc i) xs)" by (rule arg_cong)
  also have "\<dots> = enumerate n (take i xs) @ (n + i, xs ! i) # enumerate (Suc (n + i)) (drop (Suc i) xs)"
    using assms by (simp add: enumerate_append_eq)
  finally show ?thesis .
qed

lemma distinct_nth_not_in_take_drop:
  assumes "distinct xs" and "i < length xs"
  shows "xs ! i \<notin> set (take i xs)" and "xs ! i \<notin> set (drop (Suc i) xs)"
proof -
  have d: "drop i xs = xs ! i # drop (Suc i) xs" using assms(2) by (rule Cons_nth_drop_Suc [symmetric])
  then have "xs ! i \<in> set (drop i xs)" by simp
  with set_take_disj_set_drop_if_distinct [OF assms(1), of i i] show "xs ! i \<notin> set (take i xs)" by blast
  from distinct_drop [OF assms(1), of i] d show "xs ! i \<notin> set (drop (Suc i) xs)" by simp
qed

section \<open>Python built-ins\<close>

text \<open>\<open>int(x)\<close> on a float truncates towards zero.\<close>

definition py_int :: "rat \<Rightarrow> int" where
  "py_int x = (if 0 \<le> x then \<lfloor>x\<rfloor> else \<lceil>x\<rceil>)"

lemma py_int_nonneg [simp]: "0 \<le> x \<Longrightarrow> py_int x = \<lfloor>x\<rfloor>"
  by (simp add: py_int_def)

text \<open>
  \<open>int(s)\<close> on a numeric cell: succeeds when the cell holds an integer, else ValueError.
  A cell is the number its text denotes, so the model reads an integral value written
  with a fraction or an exponent (\<open>'100.0'\<close>, \<open>'1e2'\<close>) as that integer where Python's
  \<open>int\<close> raises: it accepts those texts, and its ValueError paths are those of
  non-integral numbers only. Every success is therefore claimed for tables whose
  integer columns hold integer literals, as the input templates do.
\<close>

definition parse_int :: "rat \<Rightarrow> error + int" where
  "parse_int q = (if q = of_int \<lfloor>q\<rfloor> then Inr \<lfloor>q\<rfloor> else Inl ValueError)"

lemma parse_int_of_int [simp]: "parse_int (of_int k) = Inr k"
  by (simp add: parse_int_def)

text \<open>\<open>xs.index(a)\<close>: position of the first occurrence, ValueError when absent.\<close>

fun index_of :: "'a list \<Rightarrow> 'a \<Rightarrow> nat option" where
  "index_of [] a = None"
| "index_of (x # xs) a = (if x = a then Some 0 else map_option Suc (index_of xs a))"

lemma index_of_Some: "index_of xs a = Some i \<Longrightarrow> i < length xs \<and> xs ! i = a"
  by (induction xs arbitrary: i) (auto split: if_splits)

lemma index_of_None [simp]: "index_of xs a = None \<longleftrightarrow> a \<notin> set xs"
  by (induction xs) auto

lemma index_of_distinct: "distinct xs \<Longrightarrow> i < length xs \<Longrightarrow> index_of xs (xs ! i) = Some i"
proof (induction xs arbitrary: i)
  case Nil
  then show ?case by simp
next
  case (Cons x xs)
  then show ?case by (cases i) (auto simp: nth_mem)
qed

section \<open>Sums over lists\<close>

lemma sum_list_zero_on: "(\<forall>x\<in>set xs. f x = 0) \<Longrightarrow> (\<Sum>x\<leftarrow>xs. f x) = (0::'a::comm_monoid_add)"
  by (induction xs) auto

text \<open>
  A sum over the elements of a list with a distinct key, of a term that is non-zero
  only where the key matches one given value, is that term.
\<close>

lemma sum_list_unique_key:
  assumes "distinct (map g ns)" and "k \<in> g ` set ns"
  shows "(\<Sum>n\<leftarrow>ns. if k = g n then c else 0) = (c::'a::comm_monoid_add)"
  using assms
proof (induction ns)
  case Nil
  then show ?case by simp
next
  case (Cons n ns)
  show ?case
  proof (cases "g n = k")
    case True
    have "g n \<notin> g ` set ns" using Cons.prems(1) by simp
    with True have "\<forall>m\<in>set ns. k \<noteq> g m" by (metis image_eqI)
    then have "(\<Sum>m\<leftarrow>ns. if k = g m then c else 0) = 0"
      by (intro sum_list_zero_on) auto
    with True show ?thesis by simp
  next
    case False
    with Cons show ?thesis by auto
  qed
qed

lemma sum_list_map_filter_Cons:
  "(\<Sum>x\<leftarrow>filter P (y # ys). f x) = (if P y then f y else 0) + (\<Sum>x\<leftarrow>filter P ys. (f x::'a::comm_monoid_add))"
  by simp

text \<open>
  Summing, over a list of nodes with distinct identities, the sub-sums of the edges
  whose endpoint is that node counts every edge once, when every endpoint is a node.
\<close>

lemma sum_list_group_by_key:
  assumes "distinct (map g ns)" and "\<forall>e\<in>set es. h e \<in> g ` set ns"
  shows "(\<Sum>n\<leftarrow>ns. \<Sum>e\<leftarrow>filter (\<lambda>e. h e = g n) es. f e) = (\<Sum>e\<leftarrow>es. (f e::'a::comm_monoid_add))"
  using assms(2)
proof (induction es)
  case Nil
  then show ?case by (simp add: sum_list_zero_on)
next
  case (Cons e es)
  have split: "(\<Sum>n\<leftarrow>ns. \<Sum>e'\<leftarrow>filter (\<lambda>e'. h e' = g n) (e # es). f e')
      = (\<Sum>n\<leftarrow>ns. if h e = g n then f e else 0)
        + (\<Sum>n\<leftarrow>ns. \<Sum>e'\<leftarrow>filter (\<lambda>e'. h e' = g n) es. f e')"
    by (simp only: sum_list_map_filter_Cons sum_list_addf)
  have "(\<Sum>n\<leftarrow>ns. if h e = g n then f e else 0) = f e"
    using Cons.prems assms(1) by (intro sum_list_unique_key) auto
  with split Cons show ?case by simp
qed

lemma of_int_sum_list: "(of_int (\<Sum>y\<leftarrow>ys. f y) :: 'a::ring_1) = (\<Sum>y\<leftarrow>ys. of_int (f y))"
  by (induction ys) simp_all

lemma sum_group_enum:
  assumes "distinct (map g ns)" and "\<forall>e\<in>set es. h e \<in> g ` set ns"
  shows "(\<Sum>n\<leftarrow>ns. \<Sum>(i, e)\<leftarrow>filter (\<lambda>(i, e). h e = g n) (enumerate k es). f i)
           = (\<Sum>(i, e)\<leftarrow>enumerate k es. (f i::'a::comm_monoid_add))"
proof -
  have eq: "(\<lambda>(i, e). h e = g n) = (\<lambda>ie. (h \<circ> snd) ie = g n)" for n by auto
  have f: "(\<lambda>(i, e). f i) = (\<lambda>ie. (f \<circ> fst) ie)" by auto
  have "\<forall>ie\<in>set (enumerate k es). (h \<circ> snd) ie \<in> g ` set ns"
    using assms(2) by (auto simp: in_set_enumerate_eq)
  from sum_list_group_by_key [OF assms(1) this, of "f \<circ> fst"]
  show ?thesis unfolding eq f .
qed

lemma sum_enumerate_fst:
  "(\<Sum>(i, e)\<leftarrow>enumerate n xs. f i) = (\<Sum>i\<leftarrow>[n..<n + length xs]. (f i::'a::comm_monoid_add))"
proof (induction xs arbitrary: n)
  case Nil
  then show ?case by simp
next
  case (Cons x xs)
  have "[n..<n + length (x # xs)] = n # [Suc n..<Suc n + length xs]"
    by (simp add: upt_conv_Cons del: upt_Suc)
  then show ?case using Cons.IH [of "Suc n"] by simp
qed

lemma sum_list_swap_weighted:
  "(\<Sum>p\<leftarrow>ps. c p * (\<Sum>i\<leftarrow>is. d i p)) = (\<Sum>i\<leftarrow>is. \<Sum>p\<leftarrow>ps. (c p::'a::comm_ring) * d i p)"
proof (induction ps)
  case Nil
  then show ?case by (simp add: sum_list_zero_on)
next
  case (Cons p ps)
  then show ?case by (simp add: sum_list_addf sum_list_const_mult)
qed

end
