(* ===== verification/DataModel.thy ===== *)
theory DataModel
  imports Prelude
begin

text \<open>
  The data model of \<open>src/calc.py\<close>: the module-level configuration lists, the
  product, sign, role and facility-kind vocabularies (strings in the source, one
  constructor each here), the classes \<open>Node\<close>, \<open>Transportation_Edge\<close>,
  \<open>Production_Edge\<close> and \<open>Storage_Edge\<close> as records, and the rows of the two
  input tables after CSV decoding.
\<close>

section \<open>Configuration\<close>

text \<open>The month label of calendar month \<open>n\<close> (the digits followed by the month kanji) is \<open>Month n\<close>; the aggregate demand node uses month 10000.\<close>

datatype month = Month nat

definition layer_network_list :: "month list" where
  "layer_network_list = map Month [11, 12, 1, 2, 3, 4, 5, 6, 7, 8, 9, 10]"

text \<open>
  The digits of a month label, \<open>str(n)\<close>: the label of \<open>Month n\<close> is these digits and
  the month kanji, so \<open>f"{c}\<close>\<dots>\<open>"\<close> for a cell text \<open>c\<close> is a label of the list
  exactly when \<open>c\<close> is the digits of one of its months (no sign, no leading zero).
\<close>

fun nat_digits :: "nat \<Rightarrow> string" where
  "nat_digits n = (if n < 10 then [''0123456789'' ! n] else nat_digits (n div 10) @ [''0123456789'' ! (n mod 10)])"

declare nat_digits.simps [simp del]

definition month_digits :: "month \<Rightarrow> string" where
  "month_digits m = (case m of Month n \<Rightarrow> nat_digits n)"

definition aggregate_month :: month where
  "aggregate_month = Month 10000"

text \<open>
  \<open>num_product_list\<close>: steel, module, half body 1, half body 3, floating foundation,
  turbine, installed turbine, vessel.
\<close>

datatype product = Steel | Module | HalfBody1 | HalfBody3 | Foundation | Turbine
  | TurbineInstalled | Vessel

definition num_product_list :: "product list" where
  "num_product_list = [Steel, Module, HalfBody1, HalfBody3, Foundation, Turbine,
     TurbineInstalled, Vessel]"

datatype sign = SignPlus | SignMinus

definition sign_list :: "sign list" where
  "sign_list = [SignPlus, SignMinus]"

text \<open>
  The keys of \<open>Node.role\<close>, in the order of the dictionary literal of line 186:
  module fabrication, half body 1 and 3 fabrication, foundation fabrication (on shore
  and at sea), turbine assembly, turbine installation, wet storage.
\<close>

datatype task = ModuleFab | HalfBody1Fab | HalfBody3Fab | FoundationFab
  | FoundationFabAtSea | TurbineAssembly | TurbineInstall | WetStorage

definition role_keys :: "task list" where
  "role_keys = [ModuleFab, HalfBody1Fab, HalfBody3Fab, FoundationFab, FoundationFabAtSea,
     TurbineAssembly, TurbineInstall, WetStorage]"

text \<open>\<open>list(node.role.items())[:-1]\<close>: every role but wet storage.\<close>

definition role_tasks :: "task list" where
  "role_tasks = butlast role_keys"

text \<open>Facility kinds (column 3): three shipyard sizes, base port, installation area, other.\<close>

datatype kind = SmallShipyard | MediumShipyard | LargeShipyard | BasePort | InstallArea
  | OtherKind string

text \<open>Day rates of the vessels (lines 16 and 19).\<close>

definition ship_installation_cost :: int where
  "ship_installation_cost = 10100000"

definition ship_foundation_cost :: int where
  "ship_foundation_cost = 2 * 1487000"

section \<open>Nodes and edges\<close>

text \<open>
  \<open>Node\<close>: a location at a month. Dictionary fields are total functions; a key the
  source never stores is never read. \<open>calc_supply_demand\<close> is a function of the
  node and is defined with the builder.
\<close>

record node =
  node_name :: string
  node_month :: month
  lat :: rat
  lon :: rat
  kind :: kind
  role :: "task \<Rightarrow> bool"
  cost :: "task \<Rightarrow> rat option"
  capacity :: "task \<Rightarrow> int"
  wet_storage_capacity :: "int option"
  wet_storage_cost :: "rat option"
  steel :: int
  turbine :: int

text \<open>\<open>node_id\<close>, the string \<open>"(name_month)"\<close>, identifies a node by its two parts.\<close>

definition node_id :: "node \<Rightarrow> string \<times> month" where
  "node_id n = (node_name n, node_month n)"

text \<open>
  \<open>Transportation_Edge\<close>; its \<open>function\<close> is always the transport label and is
  left out. The month is \<open>None\<close> on the demand-collection edges, which never set it.
\<close>

record transportation_edge =
  te_source :: node
  te_target :: node
  te_month :: "month option"
  te_cost :: "product \<Rightarrow> int"
  te_capacity :: "product \<Rightarrow> rat option"

record production_edge =
  pe_source :: node
  pe_target :: node
  pe_function :: task
  pe_cost :: "rat option"
  pe_capacity :: int

text \<open>\<open>Storage_Edge\<close>; its \<open>function\<close> is always the wet-storage role label.\<close>

record storage_edge =
  se_source :: node
  se_target :: node
  se_month :: month
  se_cost :: "rat option"
  se_capacity :: "int option"

text \<open>The four lists \<open>optimize\<close> builds and returns.\<close>

record network =
  node_list :: "node list"
  transportation_list :: "transportation_edge list"
  production_list :: "production_edge list"
  storage_list :: "storage_edge list"

section \<open>Input rows\<close>

text \<open>
  A facility-table row after CSV decoding: name (column 0), coordinates (1, 2), kind (3),
  the wet-storage flag (\<open>row[4] == "TRUE"\<close>), the at-sea foundation flag
  (\<open>row[7] == "TRUE"\<close>), the first month of installation (31) as the cell's text and the numeric
  cells by column, \<open>None\<close> for an empty cell.
\<close>

record facility_row =
  fr_name :: string
  fr_lat :: rat
  fr_lon :: rat
  fr_kind :: kind
  fr_wet :: bool
  fr_at_sea :: bool
  fr_cell :: "nat \<Rightarrow> rat option"
  fr_install_from :: string

text \<open>A route-table row: source (0), target (1), distance (3), vessel capacity (4).\<close>

record route_row =
  rr_source :: string
  rr_target :: string
  rr_distance :: "rat option"
  rr_capacity :: "rat option"

end
