(* ===== verification/Capacity.thy ===== *)
theory Capacity
  imports DataModel
begin

text \<open>
  How \<open>optimize\<close> (src/calc.py, lines 185--281) derives the attributes of one node
  from a facility row: the roles unlocked by the facility kind and the two flag
  columns, the wet-storage cost and capacity, the monthly capacity of every role with
  the fractional carry-over kept in the dictionary \<open>sss\<close>, the installation gate,
  the unit costs and the steel supply. The carry-over is compared with the rule the
  specification states (\<open>carry_over\<close>, theory CapacityRefinement). Cell values are
  exact rationals here, where the program adds Python floats: both take the same steps,
  but a float sum can land just below an integer the exact sum reaches (a monthly value
  of 0.3333333333333333 three times is 1.0 in floats and just under 1 in rationals), so
  the truncations of the two may differ by one unit.
\<close>

section \<open>Roles\<close>

text \<open>Lines 186--207: the roles a facility kind unlocks.\<close>

definition kind_role :: "kind \<Rightarrow> task \<Rightarrow> bool" where
  "kind_role k t = (case k of
      SmallShipyard \<Rightarrow> t \<in> {ModuleFab, HalfBody1Fab}
    | MediumShipyard \<Rightarrow> t \<in> {ModuleFab, HalfBody1Fab, HalfBody3Fab}
    | LargeShipyard \<Rightarrow> t \<in> {ModuleFab, HalfBody1Fab, HalfBody3Fab, FoundationFab}
    | BasePort \<Rightarrow> t = TurbineAssembly
    | InstallArea \<Rightarrow> t = TurbineInstall
    | OtherKind _ \<Rightarrow> False)"

text \<open>Lines 210--225: wet storage and at-sea foundation fabrication come from their own columns.\<close>

definition node_role :: "facility_row \<Rightarrow> task \<Rightarrow> bool" where
  "node_role r = (kind_role (fr_kind r))(WetStorage := fr_wet r, FoundationFabAtSea := fr_at_sea r)"

text \<open>
  Lines 211--220: with the flag set, cost \<open>float(row[5])\<close> and capacity
  \<open>int(row[6])\<close>, \<open>None\<close> for an empty cell; without it, both 0.
  Result: (cost, capacity).
\<close>

definition wet_storage_fields :: "facility_row \<Rightarrow> error + rat option \<times> int option" where
  "wet_storage_fields r =
     (if fr_wet r then
        (case fr_cell r 6 of
           None \<Rightarrow> Inr (fr_cell r 5, None)
         | Some q \<Rightarrow> bind_err (parse_int q) (\<lambda>k. Inr (fr_cell r 5, Some k)))
      else Inr (Some 0, Some 0))"

section \<open>Fractional carry-over\<close>

text \<open>
  Lines 230--238: in the first month \<open>sss\<close> gets a zero entry for every active role
  but wet storage; in later months it carries the remainders of the previous month.
\<close>

definition init_sss :: "(task \<Rightarrow> bool) \<Rightarrow> task \<rightharpoonup> rat" where
  "init_sss rl = (\<lambda>t. if t \<in> set role_tasks \<and> rl t then Some 0 else None)"

text \<open>
  \<open>sss[task] = sss[task] + float(cell) if cell else 0\<close>: an empty cell resets the
  remainder to 0; a non-empty one reads \<open>sss[task]\<close>, a KeyError when absent.
\<close>

definition accumulate :: "(task \<rightharpoonup> rat) \<Rightarrow> task \<Rightarrow> rat option \<Rightarrow> error + rat" where
  "accumulate sss t c =
     (case c of
        None \<Rightarrow> Inr 0
      | Some v \<Rightarrow> (case sss t of None \<Rightarrow> Inl KeyError | Some a \<Rightarrow> Inr (a + v)))"

type_synonym carry_state = "(task \<rightharpoonup> rat) \<times> (task \<Rightarrow> int)"

text \<open>
  One iteration of the loop of lines 241--257, for the role at position \<open>i\<close>, whose
  nominal capacity is column \<open>10 + 3 i\<close>. Module fabrication is handled whether or
  not the role is active, in units of four; every other role only when active.
\<close>

fun capacity_step :: "facility_row \<Rightarrow> (task \<Rightarrow> bool) \<Rightarrow> carry_state \<Rightarrow> nat \<times> task \<Rightarrow> error + carry_state" where
  "capacity_step r rl (sss, cap) (i, t) =
     (if t = ModuleFab then
        bind_err (accumulate sss t (fr_cell r (10 + 3 * i))) (\<lambda>acc.
          let c = 4 * py_int acc in Inr (sss(t \<mapsto> acc - of_int c / 4), cap(t := c)))
      else if rl t then
        bind_err (accumulate sss t (fr_cell r (10 + 3 * i))) (\<lambda>acc.
          let c = py_int acc in Inr (sss(t \<mapsto> acc - of_int c), cap(t := c)))
      else Inr (sss, cap))"

text \<open>The whole loop for one month, starting from an empty \<open>node.capacity\<close>.\<close>

definition month_capacity :: "facility_row \<Rightarrow> (task \<Rightarrow> bool) \<Rightarrow> nat \<Rightarrow> (task \<rightharpoonup> rat) \<Rightarrow> error + carry_state" where
  "month_capacity r rl idx sss =
     fold_err (capacity_step r rl) (enumerate 0 role_tasks)
       (if idx = 0 then init_sss rl else sss, \<lambda>_. 0)"

section \<open>Installation gate, costs, steel\<close>

text \<open>
  Lines 268--275: at an installation area the capacity of installation is
  \<open>int(row[28])\<close> from the month \<open>row[31]\<close> on and 0 before; the month of the node
  and the threshold label \<open>f"{row[31]}\<close>\<dots>\<open>"\<close> are both looked up in
  \<open>layer_network_list\<close>, ValueError when absent: the cell text must be the digits of a
  month, so \<open>'06'\<close>, \<open>'6.0'\<close> or an empty cell raise.
\<close>

definition install_capacity :: "facility_row \<Rightarrow> (task \<Rightarrow> bool) \<Rightarrow> month \<Rightarrow> (task \<Rightarrow> int) \<Rightarrow> error + (task \<Rightarrow> int)" where
  "install_capacity r rl m cap =
     (if rl TurbineInstall then
        (case (index_of layer_network_list m, index_of (map month_digits layer_network_list) (fr_install_from r)) of
           (Some im, Some thr) \<Rightarrow>
             if thr \<le> im then
               (case fr_cell r 28 of
                  None \<Rightarrow> Inr (cap(TurbineInstall := 0))
                | Some q \<Rightarrow> bind_err (parse_int q) (\<lambda>k. Inr (cap(TurbineInstall := k))))
             else Inr (cap(TurbineInstall := 0))
         | _ \<Rightarrow> Inl ValueError)
      else Inr cap)"

text \<open>Lines 262--265: the unit cost of an active role is column \<open>9 + 3 i\<close>.\<close>

definition node_cost :: "facility_row \<Rightarrow> (task \<Rightarrow> bool) \<Rightarrow> task \<Rightarrow> rat option" where
  "node_cost r rl t =
     (case index_of role_tasks t of
        Some i \<Rightarrow> if rl t then fr_cell r (9 + 3 * i) else None
      | None \<Rightarrow> None)"

text \<open>Line 279: \<open>int(row[29]) if row[29] else 0\<close>.\<close>

definition steel_supply :: "facility_row \<Rightarrow> error + int" where
  "steel_supply r = (case fr_cell r 29 of None \<Rightarrow> Inr 0 | Some q \<Rightarrow> parse_int q)"

text \<open>Line 356, for the aggregate node of an installation area: \<open>int(row[30]) if row[30] else 0\<close>.\<close>

definition turbine_demand :: "facility_row \<Rightarrow> error + int" where
  "turbine_demand r = (case fr_cell r 30 of None \<Rightarrow> Inr 0 | Some q \<Rightarrow> parse_int q)"

section \<open>The carry-over rule of the specification\<close>

text \<open>
  Specification, section 4.1: add the nominal value to the running remainder, truncate
  for this month's capacity, keep the rest. Result: the capacities and the last remainder.
\<close>

fun carry_over :: "rat \<Rightarrow> rat list \<Rightarrow> int list \<times> rat" where
  "carry_over a [] = ([], a)"
| "carry_over a (v # vs) =
     (let s = a + v; c = py_int s; (cs, a') = carry_over (s - of_int c) vs in (c # cs, a'))"

section \<open>Lemmas: one month\<close>

text \<open>
  Within one month, the loop over the roles touches the entries of a role only in that
  role's own iteration: every other iteration leaves them alone.
\<close>

lemma capacity_step_other:
  "capacity_step r rl (sss, cap) (i, t') = Inr (sss', cap') \<Longrightarrow> t' \<noteq> t \<Longrightarrow> sss' t = sss t \<and> cap' t = cap t"
  by (auto simp: Let_def bind_err_eq_Inr split: if_splits)

lemma fold_capacity_other:
  "fold_err (capacity_step r rl) xs (sss, cap) = Inr (sss', cap') \<Longrightarrow> t \<notin> snd ` set xs \<Longrightarrow>
     sss' t = sss t \<and> cap' t = cap t"
proof (induction xs arbitrary: sss cap)
  case Nil
  then show ?case by simp
next
  case (Cons x xs)
  obtain i t' where x: "x = (i, t')" by (cases x)
  from Cons.prems(1) obtain s1 c1 where
    step: "capacity_step r rl (sss, cap) (i, t') = Inr (s1, c1)" and
    rest: "fold_err (capacity_step r rl) xs (s1, c1) = Inr (sss', cap')"
    by (auto simp: x bind_err_eq_Inr)
  from Cons.prems(2) x have "t' \<noteq> t" and "t \<notin> snd ` set xs" by auto
  with step rest Cons.IH show ?case by (metis capacity_step_other)
qed

lemma distinct_role_tasks: "distinct role_tasks"
  by (simp add: role_tasks_def role_keys_def)

lemma month_capacity_at:
  assumes mc: "month_capacity r rl idx sss = Inr (sss', cap')"
    and it: "index_of role_tasks t = Some i"
  defines "s0 \<equiv> if idx = 0 then init_sss rl else sss"
  shows "\<exists>s1 c1 s2 c2. capacity_step r rl (s1, c1) (i, t) = Inr (s2, c2) \<and> s1 t = s0 t \<and> c1 t = 0
           \<and> sss' t = s2 t \<and> cap' t = c2 t"
proof -
  from index_of_Some [OF it] have i: "i < length role_tasks" and t: "role_tasks ! i = t" by auto
  let ?pre = "enumerate 0 (take i role_tasks)" and ?post = "enumerate (Suc i) (drop (Suc i) role_tasks)"
  have split: "enumerate 0 role_tasks = ?pre @ (i, t) # ?post"
    using enumerate_split_at [OF i, of 0] t by simp
  from mc obtain s1 c1 s2 c2 where
      pre: "fold_err (capacity_step r rl) ?pre (s0, \<lambda>_. 0) = Inr (s1, c1)" and
      step: "capacity_step r rl (s1, c1) (i, t) = Inr (s2, c2)" and
      post: "fold_err (capacity_step r rl) ?post (s2, c2) = Inr (sss', cap')"
    unfolding month_capacity_def s0_def split by (fastforce dest: fold_err_split)
  have nt: "t \<notin> snd ` set ?pre" "t \<notin> snd ` set ?post"
    using distinct_nth_not_in_take_drop [OF distinct_role_tasks i] t
    by (simp_all flip: list.set_map add: map_snd_enumerate)
  from fold_capacity_other [OF pre nt(1)] have "s1 t = s0 t" "c1 t = 0" by auto
  moreover from fold_capacity_other [OF post nt(2)] have "sss' t = s2 t" "cap' t = c2 t" by auto
  ultimately show ?thesis using step by blast
qed

end
