(* ===== verification/Builder.thy ===== *)
theory Builder
  imports Capacity
begin

text \<open>
  The network builder of \<open>optimize\<close> (src/calc.py, lines 155--445): the facility
  table gives twelve nodes per location (one per month of \<open>layer_network_list\<close>),
  a production self-loop per active role and month, a storage edge from every month
  to the next, and for an installation area an aggregate demand node with a
  collection edge from every month; the route table gives one transportation edge per
  route and month. Node look-ups by \<open>node_id\<close> go through \<open>list.index\<close> and fail
  with ValueError; the vessel cost of a route follows lines 421--428.
\<close>

section \<open>Nodes\<close>

text \<open>Lines 171--284: one node of a facility row, for month \<open>m\<close> at position \<open>idx\<close>.\<close>

definition make_node :: "facility_row \<Rightarrow> nat \<Rightarrow> month \<Rightarrow> (task \<rightharpoonup> rat) \<Rightarrow> error + node \<times> (task \<rightharpoonup> rat)" where
  "make_node r idx m sss =
     (let rl = node_role r in
      bind_err (wet_storage_fields r) (\<lambda>(wc, wcap).
      bind_err (month_capacity r rl idx sss) (\<lambda>(sss', cap).
      bind_err (install_capacity r rl m cap) (\<lambda>cap'.
      bind_err (steel_supply r) (\<lambda>st.
        Inr (\<lparr>node_name = fr_name r, node_month = m, lat = fr_lat r, lon = fr_lon r,
              kind = fr_kind r, role = rl, cost = node_cost r rl, capacity = cap',
              wet_storage_capacity = wcap, wet_storage_cost = wc, steel = st, turbine = 0\<rparr>,
             sss'))))))"

text \<open>\<open>node_list[[x.node_id for x in node_list].index(k)]\<close>: the first node with that id.\<close>

definition find_node :: "node list \<Rightarrow> string \<times> month \<Rightarrow> error + node" where
  "find_node ns k = (case List.find (\<lambda>n. node_id n = k) ns of None \<Rightarrow> Inl ValueError | Some n \<Rightarrow> Inr n)"

section \<open>Production and storage edges\<close>

text \<open>Lines 291--307: a self-loop on the node for every active role but wet storage.\<close>

definition production_edges_of :: "node list \<Rightarrow> node \<Rightarrow> error + production_edge list" where
  "production_edges_of ns n =
     fold_err (\<lambda>acc t.
        if role n t then
          bind_err (find_node ns (node_name n, node_month n)) (\<lambda>ny.
            Inr (acc @ [\<lparr>pe_source = ny, pe_target = ny, pe_function = t,
                         pe_cost = cost n t, pe_capacity = capacity n t\<rparr>]))
        else Inr acc)
       role_tasks []"

text \<open>Lines 315--333: from the second month on, an edge from the previous month's node.\<close>

definition storage_edge_of :: "node list \<Rightarrow> node \<Rightarrow> nat \<Rightarrow> month \<Rightarrow> error + storage_edge" where
  "storage_edge_of ns n idx m =
     bind_err (find_node ns (node_name n, layer_network_list ! (idx - 1))) (\<lambda>nf.
     bind_err (find_node ns (node_name n, m)) (\<lambda>nt.
       Inr \<lparr>se_source = nf, se_target = nt, se_month = layer_network_list ! (idx - 1),
            se_cost = wet_storage_cost n, se_capacity = wet_storage_capacity n\<rparr>))"

text \<open>One iteration of the month loop of lines 169--336; the state is \<open>sss\<close> and the lists.\<close>

fun month_step :: "facility_row \<Rightarrow> (task \<rightharpoonup> rat) \<times> network \<Rightarrow> nat \<times> month \<Rightarrow> error + (task \<rightharpoonup> rat) \<times> network" where
  "month_step r (sss, net) (idx, m) =
     bind_err (make_node r idx m sss) (\<lambda>(n, sss').
     let ns = node_list net @ [n] in
     bind_err (production_edges_of ns n) (\<lambda>pes.
     bind_err (if idx \<noteq> 0 then bind_err (storage_edge_of ns n idx m) (\<lambda>se. Inr [se]) else Inr []) (\<lambda>ses.
       Inr (sss', net\<lparr>node_list := ns, production_list := production_list net @ pes,
                     storage_list := storage_list net @ ses\<rparr>))))"

section \<open>Demand aggregation\<close>

text \<open>Lines 340--362: the aggregate node of an installation area, month 10000, with the demand.\<close>

definition aggregate_node :: "facility_row \<Rightarrow> error + node" where
  "aggregate_node r =
     bind_err (turbine_demand r) (\<lambda>k.
       Inr \<lparr>node_name = fr_name r, node_month = aggregate_month, lat = fr_lat r, lon = fr_lon r,
            kind = fr_kind r, role = (\<lambda>t. t = TurbineInstall), cost = (\<lambda>_. None),
            capacity = (\<lambda>_. 0), wet_storage_capacity = None, wet_storage_cost = None,
            steel = 0, turbine = k\<rparr>)"

text \<open>Lines 365--377: a collection edge from every month, cost 0 and capacity 10000.\<close>

definition sink_edges :: "node list \<Rightarrow> node \<Rightarrow> error + transportation_edge list" where
  "sink_edges ns a =
     fold_err (\<lambda>acc m.
        bind_err (find_node ns (node_name a, m)) (\<lambda>n1.
          Inr (acc @ [\<lparr>te_source = n1, te_target = a, te_month = None,
                       te_cost = (\<lambda>_. 0), te_capacity = (\<lambda>_. Some 10000)\<rparr>])))
       layer_network_list []"

text \<open>Lines 165--377: one facility row; a row with an empty name is skipped.\<close>

definition add_facility_row :: "network \<Rightarrow> facility_row \<Rightarrow> error + network" where
  "add_facility_row net r =
     (if fr_name r = [] then Inr net
      else bind_err (fold_err (month_step r) (enumerate 0 layer_network_list) (Map.empty, net)) (\<lambda>(_, net1).
        if fr_kind r = InstallArea then
          bind_err (aggregate_node r) (\<lambda>a.
          let ns = node_list net1 @ [a] in
          bind_err (sink_edges ns a) (\<lambda>tes.
            Inr (net1\<lparr>node_list := ns, transportation_list := transportation_list net1 @ tes\<rparr>)))
        else Inr net1))"

section \<open>Routes\<close>

text \<open>
  Lines 423--428: twice the day rate times the days of the trip, plus the distance; the
  trip from a base port to an installation area uses the installation vessel at 10
  knots, every other trip two standard vessels at 5 knots (1 knot = 1.852 km/h).
\<close>

definition vessel_cost :: "kind \<Rightarrow> kind \<Rightarrow> int \<Rightarrow> int" where
  "vessel_cost ks kt d =
     (if ks = BasePort \<and> kt = InstallArea
      then 2 * ship_installation_cost * \<lceil>of_int d / (24 * 10 * (1852 / 1000) :: rat)\<rceil> + d
      else 2 * ship_foundation_cost * \<lceil>of_int d / (24 * 5 * (1852 / 1000) :: rat)\<rceil> + d)"

text \<open>
  Lines 398--432: the edge of a route in month \<open>m\<close>; zero cost and capacity 1000 for
  every product but the vessel, whose capacity is the raw cell \<open>row[4]\<close>.
\<close>

definition route_edge :: "node list \<Rightarrow> route_row \<Rightarrow> month \<Rightarrow> error + transportation_edge" where
  "route_edge ns rr m =
     bind_err (find_node ns (rr_source rr, m)) (\<lambda>src.
     bind_err (find_node ns (rr_target rr, m)) (\<lambda>tgt.
     bind_err (case rr_distance rr of None \<Rightarrow> Inl ValueError | Some q \<Rightarrow> parse_int q) (\<lambda>d.
       Inr \<lparr>te_source = src, te_target = tgt, te_month = Some m,
            te_cost = (\<lambda>p. if p = Vessel then vessel_cost (kind src) (kind tgt) d else 0),
            te_capacity = (\<lambda>p. if p = Vessel then rr_capacity rr else Some 1000)\<rparr>)))"

definition add_route_row :: "network \<Rightarrow> route_row \<Rightarrow> error + network" where
  "add_route_row net rr =
     (if rr_source rr = [] then Inr net
      else fold_err (\<lambda>net' m. bind_err (route_edge (node_list net') rr m) (\<lambda>te.
               Inr (net'\<lparr>transportation_list := transportation_list net' @ [te]\<rparr>)))
             layer_network_list net)"

section \<open>The whole network\<close>

definition empty_network :: network where
  "empty_network = \<lparr>node_list = [], transportation_list = [], production_list = [], storage_list = []\<rparr>"

definition build_network :: "facility_row list \<Rightarrow> route_row list \<Rightarrow> error + network" where
  "build_network rows routes =
     bind_err (fold_err add_facility_row rows empty_network) (fold_err add_route_row routes)"

text \<open>Lines 435--445: steel supply, turbine demand (negative), zero for the other products.\<close>

definition calc_supply_demand :: "node \<Rightarrow> product \<Rightarrow> int" where
  "calc_supply_demand n p =
     (if p = Steel then steel n else if p = TurbineInstalled then - turbine n else 0)"

section \<open>Well-formed networks\<close>

text \<open>
  Node identities are distinct and every edge starts and ends at a node of the list:
  what the mass balance needs to count every edge once at each end.
\<close>

definition wf_network :: "network \<Rightarrow> bool" where
  "wf_network net =
     (let ids = map node_id (node_list net) in
      distinct ids
      \<and> list_all (\<lambda>e. node_id (te_source e) \<in> set ids \<and> node_id (te_target e) \<in> set ids) (transportation_list net)
      \<and> list_all (\<lambda>e. node_id (pe_source e) \<in> set ids \<and> node_id (pe_target e) \<in> set ids) (production_list net)
      \<and> list_all (\<lambda>e. node_id (se_source e) \<in> set ids \<and> node_id (se_target e) \<in> set ids) (storage_list net))"

lemma wf_networkD:
  assumes "wf_network net"
  shows "distinct (map node_id (node_list net))"
    and "\<forall>e\<in>set (transportation_list net). node_id (te_source e) \<in> node_id ` set (node_list net) \<and> node_id (te_target e) \<in> node_id ` set (node_list net)"
    and "\<forall>e\<in>set (production_list net). node_id (pe_source e) \<in> node_id ` set (node_list net) \<and> node_id (pe_target e) \<in> node_id ` set (node_list net)"
    and "\<forall>e\<in>set (storage_list net). node_id (se_source e) \<in> node_id ` set (node_list net) \<and> node_id (se_target e) \<in> node_id ` set (node_list net)"
  using assms by (auto simp: wf_network_def Let_def list_all_iff)

text \<open>A look-up succeeds exactly when some node of the list has the id.\<close>

lemma find_node_missing: "k \<notin> node_id ` set ns \<Longrightarrow> find_node ns k = Inl ValueError"
proof -
  assume k: "k \<notin> node_id ` set ns"
  have "List.find (\<lambda>n. node_id n = k) ns = None"
    unfolding find_None_iff using k by blast
  then show ?thesis by (simp add: find_node_def)
qed

lemma find_node_present: "k \<in> node_id ` set ns \<Longrightarrow> \<exists>n. find_node ns k = Inr n"
proof -
  assume k: "k \<in> node_id ` set ns"
  have "List.find (\<lambda>n. node_id n = k) ns \<noteq> None"
    unfolding find_None_iff using k by blast
  then show ?thesis by (auto simp: find_node_def)
qed

end
