(* ===== verification/IPModel.thy ===== *)
theory IPModel
  imports DataModel
begin

text \<open>
  The integer program \<open>optimize\<close> hands to the solver (pyscipopt's \<open>Model\<close>):
  integer variables with lower bound 0 (\<open>addVar(..., vtype='I')\<close>), linear
  constraints (\<open>addCons\<close>) and a linear objective (\<open>setObjective\<close>). A variable is
  the flow of one edge object (its position in its list) for a product and a sign, or
  the reporting copy \<open>flow_value\<close> of a transportation or storage edge. An assignment
  gives every variable an integer; it is feasible when every registered variable is
  non-negative and every constraint holds. The solver itself is not modelled.
\<close>

datatype edge_kind = TransportKind | ProductionKind | StorageKind

datatype var =
    Flow edge_kind nat product sign
  | FlowValue edge_kind nat product sign

type_synonym linexpr = "(rat \<times> var) list"

datatype relop = LeOp | EqOp | GeOp

text \<open>\<open>lhs relop rhs\<close>; pyscipopt moves every variable to the left-hand side.\<close>

datatype constr = Constr linexpr relop rat

record ip_model =
  model_vars :: "var list"
  model_conss :: "constr list"
  model_objective :: linexpr

type_synonym assignment = "var \<Rightarrow> int"

definition lin_eval :: "assignment \<Rightarrow> linexpr \<Rightarrow> rat" where
  "lin_eval x l = (\<Sum>(c, v)\<leftarrow>l. c * of_int (x v))"

fun holds :: "assignment \<Rightarrow> constr \<Rightarrow> bool" where
  "holds x (Constr l LeOp b) = (lin_eval x l \<le> b)"
| "holds x (Constr l EqOp b) = (lin_eval x l = b)"
| "holds x (Constr l GeOp b) = (b \<le> lin_eval x l)"

definition feasible :: "ip_model \<Rightarrow> assignment \<Rightarrow> bool" where
  "feasible m x = (list_all (\<lambda>v. 0 \<le> x v) (model_vars m) \<and> list_all (holds x) (model_conss m))"

definition objective_value :: "ip_model \<Rightarrow> assignment \<Rightarrow> rat" where
  "objective_value m x = lin_eval x (model_objective m)"

section \<open>The expressions the source writes\<close>

text \<open>\<open>v <= b\<close>\<close>

definition var_le :: "var \<Rightarrow> rat \<Rightarrow> constr" where
  "var_le v b = Constr [(1, v)] LeOp b"

text \<open>\<open>v == b\<close> for a constant \<open>b\<close>\<close>

definition var_eq_const :: "var \<Rightarrow> rat \<Rightarrow> constr" where
  "var_eq_const v b = Constr [(1, v)] EqOp b"

text \<open>\<open>a * v == b * w\<close>\<close>

definition scaled_eq :: "rat \<Rightarrow> var \<Rightarrow> rat \<Rightarrow> var \<Rightarrow> constr" where
  "scaled_eq a v b w = Constr [(a, v), (- b, w)] EqOp 0"

abbreviation var_eq :: "var \<Rightarrow> var \<Rightarrow> constr" where
  "var_eq v w \<equiv> scaled_eq 1 v 1 w"

section \<open>Evaluation lemmas\<close>

lemma lin_eval_simps [simp]:
  "lin_eval x [] = 0"
  "lin_eval x ((c, v) # l) = c * of_int (x v) + lin_eval x l"
  "lin_eval x (l1 @ l2) = lin_eval x l1 + lin_eval x l2"
  by (simp_all add: lin_eval_def)

lemma holds_var_le [simp]: "holds x (var_le v b) \<longleftrightarrow> of_int (x v) \<le> b"
  by (simp add: var_le_def)

lemma holds_var_eq_const [simp]: "holds x (var_eq_const v b) \<longleftrightarrow> of_int (x v) = b"
  by (simp add: var_eq_const_def)

lemma holds_scaled_eq [simp]: "holds x (scaled_eq a v b w) \<longleftrightarrow> a * of_int (x v) = b * of_int (x w)"
  by (simp add: scaled_eq_def)

lemma feasible_holds: "feasible m x \<Longrightarrow> c \<in> set (model_conss m) \<Longrightarrow> holds x c"
  by (simp add: feasible_def list_all_iff)

lemma feasible_nonneg: "feasible m x \<Longrightarrow> v \<in> set (model_vars m) \<Longrightarrow> 0 \<le> x v"
  by (simp add: feasible_def list_all_iff)

end
