(* ===== verification/Constraints.thy ===== *)
theory Constraints
  imports Builder IPModel
begin

text \<open>
  The constraint generator of \<open>optimize\<close> (src/calc.py, lines 447--691), block by
  block in the order of the source: the variables and their reporting copies, the
  calculated costs and capacities, the capacity bounds, the vessel coupling on
  transportation edges, the zero vessel flow on production and storage edges, the two
  hard-coded demand routes whose vessel flow is fixed to zero, flow conservation along
  transportation and storage edges, the bill of materials of production edges, the
  mass balance of every node and product but the vessel, and the objective. A \<open>None\<close>
  (or non-numeric) capacity or cost raises when it meets a variable; the whole model is
  \<open>error + ip_model\<close>.
\<close>

section \<open>Iteration over edges, products and signs\<close>

text \<open>\<open>for edge ...: for product_id in num_product_list: for sign_id in sign:\<close>\<close>

definition each_ips :: "nat \<Rightarrow> (nat \<Rightarrow> product \<Rightarrow> sign \<Rightarrow> 'a list) \<Rightarrow> 'a list" where
  "each_ips n f =
     concat (map (\<lambda>i. concat (map (\<lambda>p. concat (map (\<lambda>s. f i p s) sign_list)) num_product_list)) [0..<n])"

text \<open>\<open>for edge ...: for product_id in num_product_list:\<close>\<close>

definition each_ip :: "nat \<Rightarrow> (nat \<Rightarrow> product \<Rightarrow> 'a list) \<Rightarrow> 'a list" where
  "each_ip n f = concat (map (\<lambda>i. concat (map (\<lambda>p. f i p) num_product_list)) [0..<n])"

text \<open>A number where pyscipopt expects one: \<open>None\<close> raises.\<close>

definition num_operand :: "rat option \<Rightarrow> error + rat" where
  "num_operand q = (case q of None \<Rightarrow> Inl NotANumber | Some c \<Rightarrow> Inr c)"

section \<open>Variables\<close>

text \<open>Lines 448--461, 525--528, 531--550: flow variables, and reporting copies on transport and storage edges.\<close>

definition model_variables :: "network \<Rightarrow> var list" where
  "model_variables net =
     each_ips (length (transportation_list net)) (\<lambda>i p s. [Flow TransportKind i p s, FlowValue TransportKind i p s])
     @ each_ips (length (production_list net)) (\<lambda>i p s. [Flow ProductionKind i p s])
     @ each_ips (length (storage_list net)) (\<lambda>i p s. [Flow StorageKind i p s, FlowValue StorageKind i p s])"

text \<open>Lines 461 and 550: each reporting copy equals its flow.\<close>

definition mirror_conss :: "network \<Rightarrow> constr list" where
  "mirror_conss net =
     each_ips (length (transportation_list net)) (\<lambda>i p s. [var_eq (Flow TransportKind i p s) (FlowValue TransportKind i p s)])
     @ each_ips (length (storage_list net)) (\<lambda>i p s. [var_eq (Flow StorageKind i p s) (FlowValue StorageKind i p s)])"

section \<open>Calculated costs and capacities\<close>

text \<open>Lines 465--473: the product a role produces, whose outflow carries the unit cost.\<close>

definition cost_mapping :: "task \<Rightarrow> product option" where
  "cost_mapping t = (case t of
      ModuleFab \<Rightarrow> Some Module | HalfBody1Fab \<Rightarrow> Some HalfBody1 | HalfBody3Fab \<Rightarrow> Some HalfBody3
    | FoundationFab \<Rightarrow> Some Foundation | FoundationFabAtSea \<Rightarrow> Some Foundation
    | TurbineAssembly \<Rightarrow> Some Turbine | TurbineInstall \<Rightarrow> Some TurbineInstalled
    | WetStorage \<Rightarrow> None)"

text \<open>Lines 475--481.\<close>

definition prod_calc_cost :: "production_edge \<Rightarrow> product \<Rightarrow> rat option" where
  "prod_calc_cost e p = (if cost_mapping (pe_function e) = Some p then pe_cost e else Some 0)"

text \<open>
  Lines 485--522: the capacity of a (product, sign) pair of a production edge with
  capacity \<open>c\<close>. The final \<open>else\<close> stores no entry for the pairs, so reading one
  (line 561) is a KeyError: \<open>None\<close> here.
\<close>

fun prod_calc_capacity :: "task \<Rightarrow> product \<Rightarrow> sign \<Rightarrow> int \<Rightarrow> int option" where
  "prod_calc_capacity ModuleFab p s c =
     Some (if (p = Steel \<and> s = SignPlus) \<or> (p = Module \<and> s = SignMinus) then c else 0)"
| "prod_calc_capacity HalfBody1Fab p s c =
     Some (if (p = Module \<and> s = SignPlus) \<or> (p = HalfBody1 \<and> s = SignMinus) then c else 0)"
| "prod_calc_capacity HalfBody3Fab p s c =
     Some (if p = Module \<and> s = SignPlus then 3 * c else if p = HalfBody3 \<and> s = SignMinus then c else 0)"
| "prod_calc_capacity FoundationFab p s c =
     Some (if (p = HalfBody1 \<and> s = SignPlus) \<or> (p = HalfBody3 \<and> s = SignPlus) \<or> (p = Foundation \<and> s = SignMinus) then c else 0)"
| "prod_calc_capacity FoundationFabAtSea p s c =
     Some (if (p = HalfBody1 \<and> s = SignPlus) \<or> (p = HalfBody3 \<and> s = SignPlus) \<or> (p = Foundation \<and> s = SignMinus) then c else 0)"
| "prod_calc_capacity TurbineAssembly p s c =
     Some (if (p = Foundation \<and> s = SignPlus) \<or> (p = Turbine \<and> s = SignMinus) then c else 0)"
| "prod_calc_capacity TurbineInstall p s c =
     Some (if (p = Turbine \<and> s = SignPlus) \<or> (p = TurbineInstalled \<and> s = SignMinus) then c else 0)"
| "prod_calc_capacity WetStorage p s c = None"

text \<open>Lines 531--545: only the foundation carries the storage cost and capacity.\<close>

definition stor_calc_cost :: "storage_edge \<Rightarrow> product \<Rightarrow> rat option" where
  "stor_calc_cost e p = (if p = Foundation then se_cost e else Some 0)"

definition stor_calc_capacity :: "storage_edge \<Rightarrow> product \<Rightarrow> int option" where
  "stor_calc_capacity e p = (if p = Foundation then se_capacity e else Some 0)"

section \<open>Capacity bounds\<close>

text \<open>Lines 553--566: every flow is bounded by its calculated capacity.\<close>

definition transport_cap_items :: "network \<Rightarrow> (error + constr) list" where
  "transport_cap_items net =
     (let tl = transportation_list net in
      each_ips (length tl) (\<lambda>i p s.
        [bind_err (num_operand (te_capacity (tl ! i) p)) (\<lambda>c. Inr (var_le (Flow TransportKind i p s) c))]))"

definition production_cap_items :: "network \<Rightarrow> (error + constr) list" where
  "production_cap_items net =
     (let pl = production_list net in
      each_ips (length pl) (\<lambda>i p s.
        [case prod_calc_capacity (pe_function (pl ! i)) p s (pe_capacity (pl ! i)) of
           None \<Rightarrow> Inl KeyError
         | Some c \<Rightarrow> Inr (var_le (Flow ProductionKind i p s) (of_int c))]))"

definition storage_cap_items :: "network \<Rightarrow> (error + constr) list" where
  "storage_cap_items net =
     (let sl = storage_list net in
      each_ips (length sl) (\<lambda>i p s.
        [bind_err (num_operand (map_option of_int (stor_calc_capacity (sl ! i) p))) (\<lambda>c.
           Inr (var_le (Flow StorageKind i p s) c))]))"

definition capacity_conss :: "network \<Rightarrow> error + constr list" where
  "capacity_conss net =
     sequence_err (transport_cap_items net @ production_cap_items net @ storage_cap_items net)"

section \<open>Vessels\<close>

text \<open>
  Lines 570--579: on a transportation edge, for both signs, the vessel flow is at least
  the vessel-equivalents of the goods: 1/12 per module, 1/10 per half body 1, 2/5 per
  half body 3, 1/2 per foundation, 1 per steel unit and per turbine.
\<close>

definition vessel_coupling :: "nat \<Rightarrow> sign \<Rightarrow> constr" where
  "vessel_coupling i s =
     Constr [(1, Flow TransportKind i Vessel s), (- 1/12, Flow TransportKind i Module s),
             (- 1/10, Flow TransportKind i HalfBody1 s), (- 2/5, Flow TransportKind i HalfBody3 s),
             (- 1/2, Flow TransportKind i Foundation s), (- 1, Flow TransportKind i Steel s),
             (- 1, Flow TransportKind i Turbine s)] GeOp 0"

definition vessel_conss :: "network \<Rightarrow> constr list" where
  "vessel_conss net =
     concat (map (\<lambda>i. map (vessel_coupling i) sign_list) [0..<length (transportation_list net)])"

text \<open>Lines 581--588: no vessel flow on production edges, no outgoing vessel flow on storage edges.\<close>

definition no_vessel_conss :: "network \<Rightarrow> constr list" where
  "no_vessel_conss net =
     each_ip (length (production_list net)) (\<lambda>i p.
       map (\<lambda>s. var_eq_const (Flow ProductionKind i Vessel s) 0) sign_list)
     @ each_ip (length (storage_list net)) (\<lambda>i p.
       [var_eq_const (Flow StorageKind i Vessel SignMinus) 0])"

text \<open>
  The two location names the source compares with (Noshiro-oki 6 and Noshiro-oki),
  as the UTF-8 bytes of the source text.
\<close>

definition noshiro_oki :: string where
  "noshiro_oki = [CHR 0xE8, CHR 0x83, CHR 0xBD, CHR 0xE4, CHR 0xBB, CHR 0xA3, CHR 0xE6, CHR 0xB2, CHR 0x96]"

definition noshiro_oki_6 :: string where
  "noshiro_oki_6 = noshiro_oki @ ''6''"

text \<open>
  Lines 591--593 and 608--610: on the collection edges into the aggregate node of
  either location the outgoing vessel flow is fixed to 0.
\<close>

definition fixed_route_conss :: "string \<Rightarrow> network \<Rightarrow> constr list" where
  "fixed_route_conss name net =
     concat (map (\<lambda>(i, e). if node_id (te_target e) = (name, aggregate_month)
                           then [var_eq_const (Flow TransportKind i Vessel SignMinus) 0] else [])
       (enumerate 0 (transportation_list net)))"

section \<open>Conservation along edges and the bill of materials\<close>

text \<open>Lines 598--605: what enters a transportation or storage edge leaves it.\<close>

definition through_conss :: "network \<Rightarrow> constr list" where
  "through_conss net =
     each_ip (length (transportation_list net)) (\<lambda>i p.
       [var_eq (Flow TransportKind i p SignPlus) (Flow TransportKind i p SignMinus)])
     @ each_ip (length (storage_list net)) (\<lambda>i p.
       [var_eq (Flow StorageKind i p SignPlus) (Flow StorageKind i p SignMinus)])"

text \<open>
  Lines 617--647: the B-matrix rows of one production edge. Two rows depend on the role;
  the other five are added to every production edge whatever its role.
\<close>

definition bom_conss :: "nat \<Rightarrow> production_edge \<Rightarrow> constr list" where
  "bom_conss i e =
     (let f = \<lambda>p s. Flow ProductionKind i p s in
      [var_eq (f Steel SignPlus) (f Module SignMinus)]
      @ (if pe_function e = HalfBody1Fab then [var_eq (f Module SignPlus) (f HalfBody1 SignMinus)] else [])
      @ (if pe_function e = HalfBody3Fab then [scaled_eq 1 (f Module SignPlus) 3 (f HalfBody3 SignMinus)] else [])
      @ [var_eq (f HalfBody1 SignPlus) (f HalfBody3 SignPlus),
         Constr [(1/2, f HalfBody1 SignPlus), (1/2, f HalfBody3 SignPlus), (- 1, f Foundation SignMinus)] EqOp 0,
         var_eq (f Foundation SignPlus) (f Turbine SignMinus),
         var_eq (f Turbine SignPlus) (f TurbineInstalled SignMinus)])"

definition bmatrix_conss :: "network \<Rightarrow> constr list" where
  "bmatrix_conss net = concat (map (\<lambda>(i, e). bom_conss i e) (enumerate 0 (production_list net)))"

section \<open>Mass balance\<close>

text \<open>
  Lines 656--670: for a node and a product, the flows that leave it (the \<open>plus\<close> side of
  the edges whose source is the node) minus the flows that reach it (the \<open>minus\<close> side of
  the edges whose target is the node) are at most its supply.
\<close>

definition out_terms :: "network \<Rightarrow> node \<Rightarrow> product \<Rightarrow> var list" where
  "out_terms net n p =
     map (\<lambda>(i, e). Flow TransportKind i p SignPlus)
       (filter (\<lambda>(i, e). node_id (te_source e) = node_id n) (enumerate 0 (transportation_list net)))
     @ map (\<lambda>(i, e). Flow ProductionKind i p SignPlus)
       (filter (\<lambda>(i, e). node_id (pe_source e) = node_id n) (enumerate 0 (production_list net)))
     @ map (\<lambda>(i, e). Flow StorageKind i p SignPlus)
       (filter (\<lambda>(i, e). node_id (se_source e) = node_id n) (enumerate 0 (storage_list net)))"

definition in_terms :: "network \<Rightarrow> node \<Rightarrow> product \<Rightarrow> var list" where
  "in_terms net n p =
     map (\<lambda>(i, e). Flow TransportKind i p SignMinus)
       (filter (\<lambda>(i, e). node_id (te_target e) = node_id n) (enumerate 0 (transportation_list net)))
     @ map (\<lambda>(i, e). Flow ProductionKind i p SignMinus)
       (filter (\<lambda>(i, e). node_id (pe_target e) = node_id n) (enumerate 0 (production_list net)))
     @ map (\<lambda>(i, e). Flow StorageKind i p SignMinus)
       (filter (\<lambda>(i, e). node_id (se_target e) = node_id n) (enumerate 0 (storage_list net)))"

definition balance_constr :: "network \<Rightarrow> node \<Rightarrow> product \<Rightarrow> constr" where
  "balance_constr net n p =
     Constr (map (\<lambda>v. (1, v)) (out_terms net n p) @ map (\<lambda>v. (- 1, v)) (in_terms net n p))
       LeOp (of_int (calc_supply_demand n p))"

definition balance_conss :: "network \<Rightarrow> constr list" where
  "balance_conss net =
     concat (map (\<lambda>n. map (balance_constr net n) (butlast num_product_list)) (node_list net))"

section \<open>Objective\<close>

text \<open>Lines 673--691: unit cost times outflow, summed over every edge and product.\<close>

definition objective_terms :: "network \<Rightarrow> error + linexpr" where
  "objective_terms net =
     (let tl = transportation_list net; pl = production_list net; sl = storage_list net in
      sequence_err
        (each_ip (length tl) (\<lambda>i p. [Inr (of_int (te_cost (tl ! i) p), Flow TransportKind i p SignMinus)])
         @ each_ip (length pl) (\<lambda>i p.
             [bind_err (num_operand (prod_calc_cost (pl ! i) p)) (\<lambda>c. Inr (c, Flow ProductionKind i p SignMinus))])
         @ each_ip (length sl) (\<lambda>i p.
             [bind_err (num_operand (stor_calc_cost (sl ! i) p)) (\<lambda>c. Inr (c, Flow StorageKind i p SignMinus))])))"

section \<open>The model\<close>

definition build_model :: "network \<Rightarrow> error + ip_model" where
  "build_model net =
     bind_err (capacity_conss net) (\<lambda>cap.
     bind_err (objective_terms net) (\<lambda>obj.
       Inr \<lparr>model_vars = model_variables net,
            model_conss = mirror_conss net @ cap @ vessel_conss net @ no_vessel_conss net
              @ fixed_route_conss noshiro_oki_6 net @ through_conss net
              @ fixed_route_conss noshiro_oki net @ bmatrix_conss net @ balance_conss net,
            model_objective = obj\<rparr>))"

section \<open>Lemmas: where the constraints are\<close>

text \<open>
  Every product and sign is iterated over; a constraint built for an edge index below the
  length of its list is in the model; a feasible assignment satisfies it and keeps
  every flow of an existing edge non-negative.
\<close>

lemma product_in_list [simp]: "p \<in> set num_product_list"
  by (cases p) (simp_all add: num_product_list_def)

lemma sign_in_list [simp]: "s \<in> set sign_list"
  by (cases s) (simp_all add: sign_list_def)

lemma set_each_ips [simp]: "a \<in> set (each_ips n f) \<longleftrightarrow> (\<exists>i<n. \<exists>p s. a \<in> set (f i p s))"
proof
  assume "a \<in> set (each_ips n f)"
  then show "\<exists>i<n. \<exists>p s. a \<in> set (f i p s)" unfolding each_ips_def by auto blast
next
  assume "\<exists>i<n. \<exists>p s. a \<in> set (f i p s)"
  then obtain i p s where "i < n" "a \<in> set (f i p s)" by blast
  then show "a \<in> set (each_ips n f)" unfolding each_ips_def set_concat set_map
    using product_in_list [of p] sign_in_list [of s] by fastforce
qed

lemma set_each_ip [simp]: "a \<in> set (each_ip n f) \<longleftrightarrow> (\<exists>i<n. \<exists>p. a \<in> set (f i p))"
proof
  assume "a \<in> set (each_ip n f)"
  then show "\<exists>i<n. \<exists>p. a \<in> set (f i p)" unfolding each_ip_def by auto
next
  assume "\<exists>i<n. \<exists>p. a \<in> set (f i p)"
  then obtain i p where "i < n" "a \<in> set (f i p)" by blast
  then show "a \<in> set (each_ip n f)" unfolding each_ip_def set_concat set_map
    using product_in_list [of p] by fastforce
qed

lemma sequence_err_mem: "sequence_err xs = Inr ys \<Longrightarrow> Inr c \<in> set xs \<Longrightarrow> c \<in> set ys"
  by (auto simp: sequence_err_Inr)

lemma sequence_err_no_Inl: "sequence_err xs = Inr ys \<Longrightarrow> Inl e \<notin> set xs"
  by (auto simp: sequence_err_Inr)

lemma capacity_conss_transport:
  assumes "capacity_conss net = Inr cap" and "i < length (transportation_list net)"
    and "te_capacity (transportation_list net ! i) p = Some c"
  shows "var_le (Flow TransportKind i p s) c \<in> set cap"
proof -
  have "Inr (var_le (Flow TransportKind i p s) c) \<in> set (transport_cap_items net)"
    using assms(2,3) unfolding transport_cap_items_def Let_def set_each_ips
    by (intro exI [of _ i] conjI exI [of _ p] exI [of _ s]) (auto simp: num_operand_def)
  with assms(1) show ?thesis unfolding capacity_conss_def by (auto intro: sequence_err_mem)
qed

lemma capacity_conss_production:
  assumes "capacity_conss net = Inr cap" and "i < length (production_list net)"
    and "prod_calc_capacity (pe_function (production_list net ! i)) p s (pe_capacity (production_list net ! i)) = Some k"
  shows "var_le (Flow ProductionKind i p s) (of_int k) \<in> set cap"
proof -
  have "Inr (var_le (Flow ProductionKind i p s) (of_int k)) \<in> set (production_cap_items net)"
    using assms(2,3) unfolding production_cap_items_def Let_def set_each_ips
    by (intro exI [of _ i] conjI exI [of _ p] exI [of _ s]) auto
  with assms(1) show ?thesis unfolding capacity_conss_def by (auto intro: sequence_err_mem)
qed

lemma capacity_conss_storage:
  assumes "capacity_conss net = Inr cap" and "i < length (storage_list net)"
    and "stor_calc_capacity (storage_list net ! i) p = Some k"
  shows "var_le (Flow StorageKind i p s) (of_int k) \<in> set cap"
proof -
  have "Inr (var_le (Flow StorageKind i p s) (of_int k)) \<in> set (storage_cap_items net)"
    using assms(2,3) unfolding storage_cap_items_def Let_def set_each_ips
    by (intro exI [of _ i] conjI exI [of _ p] exI [of _ s]) (auto simp: num_operand_def)
  with assms(1) show ?thesis unfolding capacity_conss_def by (auto intro: sequence_err_mem)
qed

lemma capacity_conss_production_defined:
  assumes "capacity_conss net = Inr cap" and "i < length (production_list net)"
  shows "pe_function (production_list net ! i) \<noteq> WetStorage"
proof
  assume w: "pe_function (production_list net ! i) = WetStorage"
  have "Inl KeyError \<in> set (production_cap_items net)"
    using assms(2) w unfolding production_cap_items_def Let_def set_each_ips
    by (intro exI [of _ i] conjI exI [of _ Steel] exI [of _ SignPlus]) auto
  with assms(1) show False unfolding capacity_conss_def
    using sequence_err_no_Inl by fastforce
qed

lemma build_model_Inr:
  assumes "build_model net = Inr m"
  obtains cap obj where "capacity_conss net = Inr cap" and "objective_terms net = Inr obj"
    and "model_vars m = model_variables net"
    and "model_conss m = mirror_conss net @ cap @ vessel_conss net @ no_vessel_conss net
              @ fixed_route_conss noshiro_oki_6 net @ through_conss net
              @ fixed_route_conss noshiro_oki net @ bmatrix_conss net @ balance_conss net"
  using assms by (auto simp: build_model_def bind_err_eq_Inr)

lemma each_ips_memI: "i < n \<Longrightarrow> a \<in> set (f i p s) \<Longrightarrow> a \<in> set (each_ips n f)"
  unfolding set_each_ips by blast

lemma each_ip_memI: "i < n \<Longrightarrow> a \<in> set (f i p) \<Longrightarrow> a \<in> set (each_ip n f)"
  unfolding set_each_ip by blast

lemma feasible_flow_nonneg:
  assumes "build_model net = Inr m" and "feasible m x"
  shows "i < length (transportation_list net) \<Longrightarrow> 0 \<le> x (Flow TransportKind i p s)"
    and "i < length (production_list net) \<Longrightarrow> 0 \<le> x (Flow ProductionKind i p s)"
    and "i < length (storage_list net) \<Longrightarrow> 0 \<le> x (Flow StorageKind i p s)"
proof -
  from assms(1) obtain cap obj where vars: "model_vars m = model_variables net" by (rule build_model_Inr)
  show "i < length (transportation_list net) \<Longrightarrow> 0 \<le> x (Flow TransportKind i p s)"
    using feasible_nonneg [OF assms(2)] by (auto simp: vars model_variables_def)
  show "i < length (production_list net) \<Longrightarrow> 0 \<le> x (Flow ProductionKind i p s)"
    using feasible_nonneg [OF assms(2)] by (auto simp: vars model_variables_def)
  show "i < length (storage_list net) \<Longrightarrow> 0 \<le> x (Flow StorageKind i p s)"
    using feasible_nonneg [OF assms(2)] by (auto simp: vars model_variables_def)
qed

lemma enumerate_mem: "i < length xs \<Longrightarrow> (i, xs ! i) \<in> set (enumerate 0 xs)"
  by (simp add: in_set_enumerate_eq)

section \<open>Lemmas: the mass balance of a feasible assignment\<close>

definition flow_sum :: "assignment \<Rightarrow> var list \<Rightarrow> rat" where
  "flow_sum x vs = (\<Sum>v\<leftarrow>vs. of_int (x v))"

lemma holds_balance:
  "holds x (balance_constr net n p) \<longleftrightarrow>
     flow_sum x (out_terms net n p) - flow_sum x (in_terms net n p) \<le> of_int (calc_supply_demand n p)"
proof -
  have "lin_eval x (map (\<lambda>v. (1, v)) vs) = flow_sum x vs" for vs
    by (induction vs) (simp_all add: flow_sum_def)
  moreover have "lin_eval x (map (\<lambda>v. (- 1, v)) vs) = - flow_sum x vs" for vs
    by (induction vs) (simp_all add: flow_sum_def)
  ultimately show ?thesis by (simp add: balance_constr_def)
qed

lemma flow_sum_append [simp]: "flow_sum x (vs @ ws) = flow_sum x vs + flow_sum x ws"
  by (simp add: flow_sum_def)

lemma flow_sum_map_enum: "flow_sum x (map (\<lambda>(i, e). V i) ys) = (\<Sum>(i, e)\<leftarrow>ys. of_int (x (V i)))"
  by (induction ys) (auto simp: flow_sum_def)

lemma feasible_through:
  assumes bm: "build_model net = Inr m" and fe: "feasible m x"
  shows "i < length (transportation_list net) \<Longrightarrow> x (Flow TransportKind i p SignPlus) = x (Flow TransportKind i p SignMinus)"
    and "i < length (storage_list net) \<Longrightarrow> x (Flow StorageKind i p SignPlus) = x (Flow StorageKind i p SignMinus)"
proof -
  from bm obtain cap obj where conss: "model_conss m = mirror_conss net @ cap @ vessel_conss net @ no_vessel_conss net
              @ fixed_route_conss noshiro_oki_6 net @ through_conss net
              @ fixed_route_conss noshiro_oki net @ bmatrix_conss net @ balance_conss net"
    by (rule build_model_Inr)
  have hold: "c \<in> set (through_conss net) \<Longrightarrow> holds x c" for c
    using feasible_holds [OF fe] by (simp add: conss)
  show "i < length (transportation_list net) \<Longrightarrow> x (Flow TransportKind i p SignPlus) = x (Flow TransportKind i p SignMinus)"
  proof -
    assume i: "i < length (transportation_list net)"
    have "var_eq (Flow TransportKind i p SignPlus) (Flow TransportKind i p SignMinus) \<in> set (through_conss net)"
      unfolding through_conss_def set_append by (rule UnI1, rule each_ip_memI [where i = i and p = p, OF i]) simp
    from hold [OF this] show ?thesis by simp
  qed
  show "i < length (storage_list net) \<Longrightarrow> x (Flow StorageKind i p SignPlus) = x (Flow StorageKind i p SignMinus)"
  proof -
    assume i: "i < length (storage_list net)"
    have "var_eq (Flow StorageKind i p SignPlus) (Flow StorageKind i p SignMinus) \<in> set (through_conss net)"
      unfolding through_conss_def set_append by (rule UnI2, rule each_ip_memI [where i = i and p = p, OF i]) simp
    from hold [OF this] show ?thesis by simp
  qed
qed

lemma feasible_balance:
  assumes bm: "build_model net = Inr m" and fe: "feasible m x"
    and n: "n \<in> set (node_list net)" and p: "p \<in> set (butlast num_product_list)"
  shows "flow_sum x (out_terms net n p) - flow_sum x (in_terms net n p) \<le> of_int (calc_supply_demand n p)"
proof -
  from bm obtain cap obj where conss: "model_conss m = mirror_conss net @ cap @ vessel_conss net @ no_vessel_conss net
              @ fixed_route_conss noshiro_oki_6 net @ through_conss net
              @ fixed_route_conss noshiro_oki net @ bmatrix_conss net @ balance_conss net"
    by (rule build_model_Inr)
  have "balance_constr net n p \<in> set (balance_conss net)"
    using n p by (auto simp: balance_conss_def)
  then have "holds x (balance_constr net n p)" using feasible_holds [OF fe] by (simp add: conss)
  then show ?thesis by (simp add: holds_balance)
qed

end
