(* ===== verification/Conversion.thy ===== *)
theory Conversion
  imports Constraints
begin

text \<open>
  The bill of materials as the specification states it (section 4.2) and as its design
  notes ask for it (section 9): a declarative table giving, for every role, the
  (product, sign) pairs a production edge may carry, with their multipliers of the
  edge capacity, and the conversion equalities of the role. The source instead adds five
  of the seven B-matrix rows to every production edge whatever its role, and relies on
  the zero capacities of the other pairs. \<open>edge_code_table\<close> shows the two agree on
  non-negative flows; \<open>feasible_production_edge\<close> shows a feasible assignment
  satisfies the source's constraints of every production edge.
\<close>

fun bom_holds :: "task \<Rightarrow> (product \<Rightarrow> sign \<Rightarrow> int) \<Rightarrow> bool" where
  "bom_holds ModuleFab fl = (fl Steel SignPlus = fl Module SignMinus)"
| "bom_holds HalfBody1Fab fl = (fl Module SignPlus = fl HalfBody1 SignMinus)"
| "bom_holds HalfBody3Fab fl = (fl Module SignPlus = 3 * fl HalfBody3 SignMinus)"
| "bom_holds FoundationFab fl =
     (fl HalfBody1 SignPlus = fl HalfBody3 SignPlus \<and> fl HalfBody1 SignPlus + fl HalfBody3 SignPlus = 2 * fl Foundation SignMinus)"
| "bom_holds FoundationFabAtSea fl =
     (fl HalfBody1 SignPlus = fl HalfBody3 SignPlus \<and> fl HalfBody1 SignPlus + fl HalfBody3 SignPlus = 2 * fl Foundation SignMinus)"
| "bom_holds TurbineAssembly fl = (fl Foundation SignPlus = fl Turbine SignMinus)"
| "bom_holds TurbineInstall fl = (fl Turbine SignPlus = fl TurbineInstalled SignMinus)"
| "bom_holds WetStorage fl = False"

definition bounded_pairs :: "task \<Rightarrow> ((product \<times> sign) \<times> int) list" where
  "bounded_pairs t = (case t of
      ModuleFab \<Rightarrow> [((Steel, SignPlus), 1), ((Module, SignMinus), 1)]
    | HalfBody1Fab \<Rightarrow> [((Module, SignPlus), 1), ((HalfBody1, SignMinus), 1)]
    | HalfBody3Fab \<Rightarrow> [((Module, SignPlus), 3), ((HalfBody3, SignMinus), 1)]
    | FoundationFab \<Rightarrow> [((HalfBody1, SignPlus), 1), ((HalfBody3, SignPlus), 1), ((Foundation, SignMinus), 1)]
    | FoundationFabAtSea \<Rightarrow> [((HalfBody1, SignPlus), 1), ((HalfBody3, SignPlus), 1), ((Foundation, SignMinus), 1)]
    | TurbineAssembly \<Rightarrow> [((Foundation, SignPlus), 1), ((Turbine, SignMinus), 1)]
    | TurbineInstall \<Rightarrow> [((Turbine, SignPlus), 1), ((TurbineInstalled, SignMinus), 1)]
    | WetStorage \<Rightarrow> [])"

definition table_bound :: "task \<Rightarrow> int \<Rightarrow> product \<Rightarrow> sign \<Rightarrow> int" where
  "table_bound t c p s = (case map_of (bounded_pairs t) (p, s) of Some k \<Rightarrow> k * c | None \<Rightarrow> 0)"

definition table_holds :: "task \<Rightarrow> int \<Rightarrow> (product \<Rightarrow> sign \<Rightarrow> int) \<Rightarrow> bool" where
  "table_holds t c fl =
     (list_all (\<lambda>p. list_all (\<lambda>s. fl p s \<le> table_bound t c p s) sign_list) num_product_list
      \<and> bom_holds t fl \<and> fl Vessel SignPlus = 0 \<and> fl Vessel SignMinus = 0)"

definition edge_code_holds :: "nat \<Rightarrow> production_edge \<Rightarrow> assignment \<Rightarrow> bool" where
  "edge_code_holds i e x =
     (list_all (\<lambda>p. list_all (\<lambda>s.
         case prod_calc_capacity (pe_function e) p s (pe_capacity e) of
           None \<Rightarrow> False | Some k \<Rightarrow> x (Flow ProductionKind i p s) \<le> k) sign_list) num_product_list
      \<and> list_all (\<lambda>s. x (Flow ProductionKind i Vessel s) = 0) sign_list
      \<and> list_all (holds x) (bom_conss i e))"

lemma edge_code_table_iff:
  assumes "\<forall>p s. 0 \<le> x (Flow ProductionKind i p s)"
  shows "edge_code_holds i e x \<longleftrightarrow> table_holds (pe_function e) (pe_capacity e) (\<lambda>p s. x (Flow ProductionKind i p s))"
proof -
  have nn: "\<And>p s. 0 \<le> x (Flow ProductionKind i p s)" using assms by blast
  note defs = edge_code_holds_def table_holds_def table_bound_def bounded_pairs_def bom_conss_def
    num_product_list_def sign_list_def Let_def
  have all: "0 \<le> x (Flow ProductionKind i p s)" for p s by (rule nn)
  show ?thesis
    using all [of Steel SignPlus] all [of Steel SignMinus] all [of Module SignPlus] all [of Module SignMinus]
      all [of HalfBody1 SignPlus] all [of HalfBody1 SignMinus] all [of HalfBody3 SignPlus] all [of HalfBody3 SignMinus]
      all [of Foundation SignPlus] all [of Foundation SignMinus] all [of Turbine SignPlus] all [of Turbine SignMinus]
      all [of TurbineInstalled SignPlus] all [of TurbineInstalled SignMinus] all [of Vessel SignPlus] all [of Vessel SignMinus]
    by (cases "pe_function e") (simp add: defs; linarith)+
qed

lemma feasible_production_edge:
  assumes bm: "build_model net = Inr m" and fe: "feasible m x" and i: "i < length (production_list net)"
  shows "edge_code_holds i (production_list net ! i) x"
proof -
  let ?e = "production_list net ! i"
  from bm obtain cap obj where cap: "capacity_conss net = Inr cap"
    and conss: "model_conss m = mirror_conss net @ cap @ vessel_conss net @ no_vessel_conss net
              @ fixed_route_conss noshiro_oki_6 net @ through_conss net
              @ fixed_route_conss noshiro_oki net @ bmatrix_conss net @ balance_conss net"
    by (rule build_model_Inr)
  have hold: "c \<in> set (model_conss m) \<Longrightarrow> holds x c" for c by (rule feasible_holds [OF fe])
  have sub: "set cap \<subseteq> set (model_conss m)" "set (no_vessel_conss net) \<subseteq> set (model_conss m)"
    "set (bmatrix_conss net) \<subseteq> set (model_conss m)" by (auto simp: conss)
  have ws: "pe_function ?e \<noteq> WetStorage" by (rule capacity_conss_production_defined [OF cap i])
  have capb: "case prod_calc_capacity (pe_function ?e) p s (pe_capacity ?e) of
                None \<Rightarrow> False | Some k \<Rightarrow> x (Flow ProductionKind i p s) \<le> k" for p s
  proof (cases "prod_calc_capacity (pe_function ?e) p s (pe_capacity ?e)")
    case None
    with ws show ?thesis by (cases "pe_function ?e") auto
  next
    case (Some k)
    from capacity_conss_production [OF cap i Some] sub(1) hold
    have "holds x (var_le (Flow ProductionKind i p s) (of_int k))" by blast
    with Some show ?thesis by simp
  qed
  have ves: "x (Flow ProductionKind i Vessel s) = 0" for s
  proof -
    have "var_eq_const (Flow ProductionKind i Vessel s) 0 \<in> set (no_vessel_conss net)"
      unfolding no_vessel_conss_def set_append
      by (rule UnI1, rule each_ip_memI [where i = i and p = Steel, OF i]) simp
    with sub(2) hold have "holds x (var_eq_const (Flow ProductionKind i Vessel s) 0)" by blast
    then show ?thesis by simp
  qed
  have bom: "c \<in> set (bom_conss i ?e) \<Longrightarrow> holds x c" for c
  proof -
    assume "c \<in> set (bom_conss i ?e)"
    then have "c \<in> set (bmatrix_conss net)"
      using enumerate_mem [OF i] unfolding bmatrix_conss_def by force
    with sub(3) hold show ?thesis by blast
  qed
  show ?thesis using capb ves bom by (simp add: edge_code_holds_def list_all_iff)
qed

section \<open>Steel equivalents\<close>

text \<open>
  Weighting every product by the steel it contains (a module or a half body 1 one unit,
  a half body 3 three, a foundation, a turbine or an installed turbine four), every
  role of the table consumes exactly the steel equivalents it produces.
\<close>

fun steel_equiv :: "product \<Rightarrow> int" where
  "steel_equiv Steel = 1" | "steel_equiv Module = 1" | "steel_equiv HalfBody1 = 1"
| "steel_equiv HalfBody3 = 3" | "steel_equiv Foundation = 4" | "steel_equiv Turbine = 4"
| "steel_equiv TurbineInstalled = 4" | "steel_equiv Vessel = 0"

lemma butlast_products: "butlast num_product_list = [Steel, Module, HalfBody1, HalfBody3, Foundation, Turbine, TurbineInstalled]"
  by (simp add: num_product_list_def)

lemma table_steel_neutral:
  assumes "table_holds t c fl" and "\<forall>p s. 0 \<le> fl p s"
  shows "(\<Sum>p\<leftarrow>butlast num_product_list. steel_equiv p * (fl p SignPlus - fl p SignMinus)) = 0"
proof -
  have all: "0 \<le> fl p s" for p s using assms(2) by blast
  show ?thesis
    using assms(1) all [of Steel SignPlus] all [of Steel SignMinus] all [of Module SignPlus] all [of Module SignMinus]
      all [of HalfBody1 SignPlus] all [of HalfBody1 SignMinus] all [of HalfBody3 SignPlus] all [of HalfBody3 SignMinus]
      all [of Foundation SignPlus] all [of Foundation SignMinus] all [of Turbine SignPlus] all [of Turbine SignMinus]
      all [of TurbineInstalled SignPlus] all [of TurbineInstalled SignMinus]
    by (cases t) (simp add: butlast_products table_holds_def table_bound_def bounded_pairs_def
        num_product_list_def sign_list_def; linarith)+
qed

lemma production_steel_neutral:
  assumes bm: "build_model net = Inr m" and fe: "feasible m x" and i: "i < length (production_list net)"
  shows "(\<Sum>p\<leftarrow>butlast num_product_list. of_int (steel_equiv p) *
            (of_int (x (Flow ProductionKind i p SignPlus)) - of_int (x (Flow ProductionKind i p SignMinus)))) = (0::rat)"
proof -
  have nn: "\<forall>p s. 0 \<le> x (Flow ProductionKind i p s)" using feasible_flow_nonneg(2) [OF bm fe i] by blast
  from feasible_production_edge [OF bm fe i] edge_code_table_iff [OF nn]
  have "table_holds (pe_function (production_list net ! i)) (pe_capacity (production_list net ! i))
          (\<lambda>p s. x (Flow ProductionKind i p s))" by simp
  from table_steel_neutral [OF this] nn
  have "(\<Sum>p\<leftarrow>butlast num_product_list. steel_equiv p *
            (x (Flow ProductionKind i p SignPlus) - x (Flow ProductionKind i p SignMinus))) = 0" by simp
  then have "(of_int (\<Sum>p\<leftarrow>butlast num_product_list. steel_equiv p *
            (x (Flow ProductionKind i p SignPlus) - x (Flow ProductionKind i p SignMinus))) :: rat) = 0" by simp
  then show ?thesis by (simp add: of_int_sum_list o_def)
qed

section \<open>Properties\<close>

text \<open>
  C2. The source's constraints of one production edge (a capacity bound on each of the
  sixteen (product, sign) pairs as the if-chain of lines 485--522 computes it, zero
  vessel flow, and the B-matrix rows of lines 617--647, five of them added whatever the
  role) are equivalent, on non-negative integer flows, to the declarative table of the
  specification: the role's bounded pairs with their multipliers, every other pair
  forbidden, the role's own conversion equalities and no vessel flow.
\<close>

theorem edge_code_table:
  assumes "\<forall>p s. 0 \<le> x (Flow ProductionKind i p s)"
  shows "edge_code_holds i e x \<longleftrightarrow> table_holds (pe_function e) (pe_capacity e) (\<lambda>p s. x (Flow ProductionKind i p s))"
  using edge_code_table_iff [OF assms] .

text \<open>
  C3. Bill of materials. In every feasible assignment, every production edge converts
  at the ratio of its role: steel in = modules out; modules in = half bodies 1 out;
  modules in = 3 times half bodies 3 out; for both foundation roles half body 1 in =
  half body 3 in and their sum = twice the foundations out; foundations in = turbines
  out; turbines in = installed turbines out.
\<close>

theorem bill_of_materials:
  assumes "build_model net = Inr m" and "feasible m x" and "i < length (production_list net)"
  shows "bom_holds (pe_function (production_list net ! i)) (\<lambda>p s. x (Flow ProductionKind i p s))"
proof -
  have nn: "\<forall>p s. 0 \<le> x (Flow ProductionKind i p s)" using feasible_flow_nonneg(2) [OF assms] by blast
  from feasible_production_edge [OF assms] edge_code_table_iff [OF nn]
  show ?thesis by (simp add: table_holds_def)
qed

end
