(* ===== verification/Conservation.thy ===== *)
theory Conservation
  imports Conversion
begin

text \<open>
  Global consequences of the mass balance: summed over the nodes of a well-formed
  network, the balance of every product cancels on transportation and storage edges
  and leaves the net production of the production edges; weighted by steel equivalents
  this is zero, so the steel supplied bounds the turbines demanded.
\<close>

lemma sum_out_terms:
  assumes "wf_network net"
  shows "(\<Sum>n\<leftarrow>node_list net. flow_sum x (out_terms net n p))
     = (\<Sum>i\<leftarrow>[0..<length (transportation_list net)]. of_int (x (Flow TransportKind i p SignPlus)))
     + (\<Sum>i\<leftarrow>[0..<length (production_list net)]. of_int (x (Flow ProductionKind i p SignPlus)))
     + (\<Sum>i\<leftarrow>[0..<length (storage_list net)]. of_int (x (Flow StorageKind i p SignPlus)))"
  using wf_networkD [OF assms]
  by (simp add: out_terms_def flow_sum_map_enum sum_list_addf sum_group_enum sum_enumerate_fst)

lemma sum_in_terms:
  assumes "wf_network net"
  shows "(\<Sum>n\<leftarrow>node_list net. flow_sum x (in_terms net n p))
     = (\<Sum>i\<leftarrow>[0..<length (transportation_list net)]. of_int (x (Flow TransportKind i p SignMinus)))
     + (\<Sum>i\<leftarrow>[0..<length (production_list net)]. of_int (x (Flow ProductionKind i p SignMinus)))
     + (\<Sum>i\<leftarrow>[0..<length (storage_list net)]. of_int (x (Flow StorageKind i p SignMinus)))"
  using wf_networkD [OF assms]
  by (simp add: in_terms_def flow_sum_map_enum sum_list_addf sum_group_enum sum_enumerate_fst)

lemma balance_summed:
  assumes wf: "wf_network net" and bm: "build_model net = Inr m" and fe: "feasible m x"
    and p: "p \<in> set (butlast num_product_list)"
  shows "(\<Sum>i\<leftarrow>[0..<length (production_list net)].
            of_int (x (Flow ProductionKind i p SignPlus)) - of_int (x (Flow ProductionKind i p SignMinus)))
         \<le> (\<Sum>n\<leftarrow>node_list net. (of_int (calc_supply_demand n p)::rat))"
proof -
  have "(\<Sum>n\<leftarrow>node_list net. flow_sum x (out_terms net n p) - flow_sum x (in_terms net n p))
        \<le> (\<Sum>n\<leftarrow>node_list net. (of_int (calc_supply_demand n p)::rat))"
    by (rule sum_list_mono) (rule feasible_balance [OF bm fe _ p])
  moreover have "(\<Sum>i\<leftarrow>[0..<length (transportation_list net)]. (of_int (x (Flow TransportKind i p SignPlus))::rat))
      = (\<Sum>i\<leftarrow>[0..<length (transportation_list net)]. of_int (x (Flow TransportKind i p SignMinus)))"
    by (rule arg_cong [where f = sum_list], rule map_cong) (auto simp: feasible_through(1) [OF bm fe])
  moreover have "(\<Sum>i\<leftarrow>[0..<length (storage_list net)]. (of_int (x (Flow StorageKind i p SignPlus))::rat))
      = (\<Sum>i\<leftarrow>[0..<length (storage_list net)]. of_int (x (Flow StorageKind i p SignMinus)))"
    by (rule arg_cong [where f = sum_list], rule map_cong) (auto simp: feasible_through(2) [OF bm fe])
  ultimately show ?thesis
    by (simp add: sum_list_subtractf sum_out_terms [OF wf] sum_in_terms [OF wf])
qed

lemma steel_balance:
  assumes wf: "wf_network net" and bm: "build_model net = Inr m" and fe: "feasible m x"
  shows "4 * (\<Sum>n\<leftarrow>node_list net. turbine n) \<le> (\<Sum>n\<leftarrow>node_list net. steel n)"
proof -
  let ?P = "butlast num_product_list" and ?I = "[0..<length (production_list net)]"
  define d where "d i p = (of_int (x (Flow ProductionKind i p SignPlus)) - of_int (x (Flow ProductionKind i p SignMinus)) :: rat)" for i p
  define sup where "sup n p = (of_int (calc_supply_demand n p) :: rat)" for n p
  have w: "0 \<le> (of_int (steel_equiv p) :: rat)" for p by (cases p) simp_all
  have "(\<Sum>p\<leftarrow>?P. of_int (steel_equiv p) * (\<Sum>i\<leftarrow>?I. d i p))
        \<le> (\<Sum>p\<leftarrow>?P. of_int (steel_equiv p) * (\<Sum>n\<leftarrow>node_list net. sup n p))"
    using balance_summed [OF wf bm fe] w unfolding d_def sup_def
    by (intro sum_list_mono mult_left_mono) auto
  also have "\<dots> = (\<Sum>n\<leftarrow>node_list net. \<Sum>p\<leftarrow>?P. of_int (steel_equiv p) * sup n p)"
    by (rule sum_list_swap_weighted)
  also have "\<dots> = (\<Sum>n\<leftarrow>node_list net. of_int (steel n) - 4 * of_int (turbine n))"
    by (simp add: sup_def butlast_products calc_supply_demand_def)
  finally have "(\<Sum>i\<leftarrow>?I. \<Sum>p\<leftarrow>?P. of_int (steel_equiv p) * d i p)
        \<le> (\<Sum>n\<leftarrow>node_list net. of_int (steel n) - 4 * (of_int (turbine n) :: rat))"
    by (simp add: sum_list_swap_weighted)
  moreover have "(\<Sum>i\<leftarrow>?I. \<Sum>p\<leftarrow>?P. of_int (steel_equiv p) * d i p) = 0"
    using production_steel_neutral [OF bm fe] unfolding d_def by (simp add: sum_list_zero_on)
  ultimately have "(0::rat) \<le> of_int ((\<Sum>n\<leftarrow>node_list net. steel n) - 4 * (\<Sum>n\<leftarrow>node_list net. turbine n))"
    by (simp add: of_int_sum_list sum_list_subtractf sum_list_const_mult o_def)
  then show ?thesis by simp
qed

text \<open>
  C1. Steel requirement. In every feasible assignment of the integer program built for a
  well-formed network, the turbines demanded at the aggregate nodes are covered by the
  steel supplied: four steel units per turbine (a foundation takes one half body 1 and one
  half body 3, i.e. one and three modules, each module one steel unit).
\<close>

theorem steel_requirement:
  assumes "wf_network net" and "build_model net = Inr m" and "feasible m x"
  shows "4 * (\<Sum>n\<leftarrow>node_list net. turbine n) \<le> (\<Sum>n\<leftarrow>node_list net. steel n)"
  using steel_balance [OF assms] .

end
