(* ===== verification/CapacityRefinement.thy ===== *)
theory CapacityRefinement
  imports Builder
begin

text \<open>
  The monthly capacities the builder gives the twelve nodes of one facility row refine
  the carry-over rule of the specification (section 4.1): for every active role but
  installation, the capacity of month \<open>k\<close> is the \<open>k\<close>-th value of \<open>carry_over\<close>
  started at 0 on twelve copies of the row's nominal cell (the same cell, column
  \<open>10 + 3 i\<close>, is read in every month), in units of four for module fabrication.
  Both add and truncate the same values in the same order; they are compared on exact
  rationals (see theory Capacity for the float rounding this leaves out). Installation is gated instead: zero before the row's starting month, the integer of
  column 28 from it on.
\<close>

text \<open>Lines 246--255: module capacity is counted in units of four, every other role in units.\<close>

definition capacity_unit :: "task \<Rightarrow> int" where
  "capacity_unit t = (if t = ModuleFab then 4 else 1)"

section \<open>One month\<close>

lemma capacity_step_self:
  assumes "capacity_step r rl (s1, c1) (i, t) = Inr (s2, c2)" and "rl t \<or> t = ModuleFab"
    and "fr_cell r (10 + 3 * i) = Some v"
  shows "\<exists>a. s1 t = Some a \<and> c2 t = capacity_unit t * py_int (a + v) \<and> s2 t = Some (a + v - of_int (py_int (a + v)))"
  using assms by (auto simp: accumulate_def capacity_unit_def Let_def bind_err_eq_Inr split: if_splits option.splits)

lemma month_capacity_self:
  assumes "month_capacity r rl idx sss = Inr (sss', cap)" and "index_of role_tasks t = Some i"
    and "rl t \<or> t = ModuleFab" and "fr_cell r (10 + 3 * i) = Some v"
  shows "\<exists>a. (if idx = 0 then init_sss rl else sss) t = Some a
           \<and> cap t = capacity_unit t * py_int (a + v) \<and> sss' t = Some (a + v - of_int (py_int (a + v)))"
proof -
  from month_capacity_at [OF assms(1,2)] obtain s1 c1 s2 c2
    where step: "capacity_step r rl (s1, c1) (i, t) = Inr (s2, c2)"
      and "s1 t = (if idx = 0 then init_sss rl else sss) t" "sss' t = s2 t" "cap t = c2 t"
    by blast
  with capacity_step_self [OF step assms(3,4)] show ?thesis by auto
qed

lemma install_capacity_other:
  "install_capacity r rl m cap = Inr cap' \<Longrightarrow> t \<noteq> TurbineInstall \<Longrightarrow> cap' t = cap t"
  by (auto simp: install_capacity_def bind_err_eq_Inr split: if_splits option.splits prod.splits)

lemma make_node_Inr:
  assumes "make_node r idx m sss = Inr (n, sss')"
  shows "\<exists>cap. month_capacity r (node_role r) idx sss = Inr (sss', cap)
           \<and> install_capacity r (node_role r) m cap = Inr (capacity n)
           \<and> node_name n = fr_name r \<and> node_month n = m \<and> role n = node_role r"
  using assms by (auto simp: make_node_def Let_def bind_err_eq_Inr split: prod.splits)

lemma month_step_Inr:
  assumes "month_step r (sss, net) (idx, m) = Inr (sss', net')"
  shows "\<exists>n. make_node r idx m sss = Inr (n, sss') \<and> node_list net' = node_list net @ [n]"
  using assms by (auto simp: Let_def bind_err_eq_Inr split: prod.splits)

section \<open>Twelve months\<close>

lemma carry_over_length [simp]: "length (fst (carry_over a vs)) = length vs"
  by (induction vs arbitrary: a) (simp_all add: Let_def split_def)

lemma fold_month_capacity:
  assumes "fold_err (month_step r) (enumerate k ms) (sss, net) = Inr (sss', net')"
    and "(if k = 0 then init_sss (node_role r) else sss) t = Some a"
    and "node_role r t" and "t \<noteq> TurbineInstall" and "index_of role_tasks t = Some i"
    and "fr_cell r (10 + 3 * i) = Some v"
  shows "\<exists>ns. node_list net' = node_list net @ ns
           \<and> map (\<lambda>n. capacity n t) ns = map (\<lambda>c. capacity_unit t * c) (fst (carry_over a (replicate (length ms) v)))"
  using assms(1,2)
proof (induction ms arbitrary: k sss net a)
  case Nil
  then show ?case by simp
next
  case (Cons m ms)
  from Cons.prems(1) obtain s1 net1 where
      step: "month_step r (sss, net) (k, m) = Inr (s1, net1)" and
      rest: "fold_err (month_step r) (enumerate (Suc k) ms) (s1, net1) = Inr (sss', net')"
    by (auto simp: bind_err_eq_Inr)
  from month_step_Inr [OF step] obtain n where
      mk: "make_node r k m sss = Inr (n, s1)" and nl: "node_list net1 = node_list net @ [n]" by blast
  from make_node_Inr [OF mk] obtain cap where
      mc: "month_capacity r (node_role r) k sss = Inr (s1, cap)" and
      ic: "install_capacity r (node_role r) m cap = Inr (capacity n)" by blast
  from month_capacity_self [OF mc assms(5)] assms(3,6) Cons.prems(2) have
      c: "cap t = capacity_unit t * py_int (a + v)" and s: "s1 t = Some (a + v - of_int (py_int (a + v)))"
    by auto
  from Cons.IH [OF rest] s obtain ns where
      "node_list net' = node_list net1 @ ns"
      "map (\<lambda>n. capacity n t) ns = map (\<lambda>c. capacity_unit t * c) (fst (carry_over (a + v - of_int (py_int (a + v))) (replicate (length ms) v)))"
    by auto
  moreover have "capacity n t = cap t" using install_capacity_other [OF ic assms(4)] .
  ultimately show ?case using nl c
    by (intro exI [of _ "n # ns"]) (simp add: Let_def split_def)
qed

lemma add_facility_row_months:
  assumes "add_facility_row net r = Inr net'" and "fr_name r \<noteq> []"
  shows "\<exists>sss' net1. fold_err (month_step r) (enumerate 0 layer_network_list) (Map.empty, net) = Inr (sss', net1)
           \<and> (\<exists>extra. node_list net' = node_list net1 @ extra)"
proof -
  from assms obtain s1 net1 where
      f: "fold_err (month_step r) (enumerate 0 layer_network_list) (Map.empty, net) = Inr (s1, net1)" and
      g: "(if fr_kind r = InstallArea then
            bind_err (aggregate_node r) (\<lambda>a. let ns = node_list net1 @ [a] in
              bind_err (sink_edges ns a) (\<lambda>tes.
                Inr (net1\<lparr>node_list := ns, transportation_list := transportation_list net1 @ tes\<rparr>)))
          else Inr net1) = Inr net'"
    unfolding add_facility_row_def by (fastforce simp: bind_err_eq_Inr split: prod.splits)
  have "\<exists>extra. node_list net' = node_list net1 @ extra"
  proof (cases "fr_kind r = InstallArea")
    case True
    with g show ?thesis by (auto simp: bind_err_eq_Inr Let_def)
  next
    case False
    with g show ?thesis by simp
  qed
  with f show ?thesis by blast
qed

lemma layer_network_list_length: "length layer_network_list = 12"
  by (simp add: layer_network_list_def)

lemma init_sss_active: "t \<in> set role_tasks \<Longrightarrow> rl t \<Longrightarrow> init_sss rl t = Some 0"
  by (simp add: init_sss_def)

lemma row_capacities:
  assumes "add_facility_row net r = Inr net'" and "fr_name r \<noteq> []"
    and "node_role r t" and "t \<noteq> TurbineInstall" and "index_of role_tasks t = Some i"
    and "fr_cell r (10 + 3 * i) = Some v"
  shows "map (\<lambda>n. capacity n t) (take 12 (drop (length (node_list net)) (node_list net')))
           = map (\<lambda>c. capacity_unit t * c) (fst (carry_over 0 (replicate 12 v)))"
proof -
  from add_facility_row_months [OF assms(1,2)] obtain sss' net1 extra where
      f: "fold_err (month_step r) (enumerate 0 layer_network_list) (Map.empty, net) = Inr (sss', net1)" and
      e: "node_list net' = node_list net1 @ extra" by blast
  have "t \<in> set role_tasks" using index_of_Some [OF assms(5)] by auto
  then have "(if (0::nat) = 0 then init_sss (node_role r) else Map.empty) t = Some 0"
    using assms(3) by (simp add: init_sss_active)
  from fold_month_capacity [OF f this assms(3-6), unfolded layer_network_list_length] obtain ns where
      n1: "node_list net1 = node_list net @ ns" and
      caps: "map (\<lambda>n. capacity n t) ns = map (\<lambda>c. capacity_unit t * c) (fst (carry_over 0 (replicate 12 v)))"
    by blast
  have "length ns = 12" using arg_cong [OF caps, of length] by (simp only: length_map carry_over_length length_replicate)
  then have "take 12 (drop (length (node_list net)) (node_list net')) = ns" using n1 e by simp
  with caps show ?thesis by (simp only:)
qed

section \<open>The installation gate\<close>

lemma install_capacity_gate:
  assumes "install_capacity r rl m cap = Inr cap'" and "rl TurbineInstall"
    and "index_of layer_network_list m = Some im"
    and "index_of (map month_digits layer_network_list) (fr_install_from r) = Some thr"
    and "(case fr_cell r 28 of None \<Rightarrow> Inr 0 | Some q \<Rightarrow> parse_int q) = Inr k"
  shows "cap' TurbineInstall = (if thr \<le> im then k else 0)"
  using assms by (auto simp: install_capacity_def bind_err_eq_Inr split: if_splits option.splits)

lemma fold_month_install:
  assumes "fold_err (month_step r) (enumerate j ms) (sss, net) = Inr (sss', net')"
    and "node_role r TurbineInstall" and "set ms \<subseteq> set layer_network_list"
    and "index_of (map month_digits layer_network_list) (fr_install_from r) = Some thr"
    and "(case fr_cell r 28 of None \<Rightarrow> Inr 0 | Some q \<Rightarrow> parse_int q) = Inr k"
  shows "\<exists>ns. node_list net' = node_list net @ ns
           \<and> map (\<lambda>n. capacity n TurbineInstall) ns
             = map (\<lambda>m. if thr \<le> the (index_of layer_network_list m) then k else 0) ms"
  using assms(1,3)
proof (induction ms arbitrary: j sss net)
  case Nil
  then show ?case by simp
next
  case (Cons m ms)
  from Cons.prems(1) obtain s1 net1 where
      step: "month_step r (sss, net) (j, m) = Inr (s1, net1)" and
      rest: "fold_err (month_step r) (enumerate (Suc j) ms) (s1, net1) = Inr (sss', net')"
    by (auto simp: bind_err_eq_Inr)
  from month_step_Inr [OF step] obtain n where
      mk: "make_node r j m sss = Inr (n, s1)" and nl: "node_list net1 = node_list net @ [n]" by blast
  from make_node_Inr [OF mk] obtain cap where
      ic: "install_capacity r (node_role r) m cap = Inr (capacity n)" by blast
  from Cons.prems(2) obtain im where im: "index_of layer_network_list m = Some im"
    by (cases "index_of layer_network_list m") auto
  have c: "capacity n TurbineInstall = (if thr \<le> im then k else 0)"
    by (rule install_capacity_gate [OF ic assms(2) im assms(4,5)])
  from Cons.IH [OF rest] Cons.prems(2) obtain ns where
      "node_list net' = node_list net1 @ ns"
      "map (\<lambda>n. capacity n TurbineInstall) ns = map (\<lambda>m. if thr \<le> the (index_of layer_network_list m) then k else 0) ms"
    by auto
  with nl c im show ?case by (intro exI [of _ "n # ns"]) simp
qed

lemma node_role_install_area: "fr_kind r = InstallArea \<Longrightarrow> node_role r TurbineInstall"
  by (simp add: node_role_def kind_role_def)

lemma layer_positions:
  "map (\<lambda>m. f (the (index_of layer_network_list m))) layer_network_list = map f [0..<12]"
  by (simp add: layer_network_list_def upt_rec)

section \<open>Properties\<close>

text \<open>
  C4. Refinement of the carry-over rule. When a facility row with a name is added to the
  network, the capacities of an active role other than installation in the twelve nodes
  created for the row are, month by month, the capacities of the specification's
  carry-over rule on the row's nominal value, multiplied by four for module fabrication.
\<close>

theorem row_capacity_carry_over:
  assumes "add_facility_row net r = Inr net'" and "fr_name r \<noteq> []"
    and "node_role r t" and "t \<noteq> TurbineInstall" and "index_of role_tasks t = Some i"
    and "fr_cell r (10 + 3 * i) = Some v"
  shows "map (\<lambda>n. capacity n t) (take 12 (drop (length (node_list net)) (node_list net')))
           = map (\<lambda>c. capacity_unit t * c) (fst (carry_over 0 (replicate 12 v)))"
  using row_capacities [OF assms] .

text \<open>
  C18. The installation gate (lines 268--275). When an installation area with a name is
  added, its twelve monthly nodes, in the order of \<open>layer_network_list\<close>, can install
  nothing before the month of column 31 and the integer of column 28 (0 when empty)
  from that month on.
\<close>

theorem row_install_gate:
  assumes "add_facility_row net r = Inr net'" and "fr_name r \<noteq> []" and "fr_kind r = InstallArea"
    and "index_of (map month_digits layer_network_list) (fr_install_from r) = Some thr"
    and "(case fr_cell r 28 of None \<Rightarrow> Inr 0 | Some q \<Rightarrow> parse_int q) = Inr k"
  shows "map (\<lambda>n. capacity n TurbineInstall) (take 12 (drop (length (node_list net)) (node_list net')))
           = map (\<lambda>j. if thr \<le> j then k else 0) [0..<12]"
proof -
  from add_facility_row_months [OF assms(1,2)] obtain sss' net1 extra where
      f: "fold_err (month_step r) (enumerate 0 layer_network_list) (Map.empty, net) = Inr (sss', net1)" and
      e: "node_list net' = node_list net1 @ extra" by blast
  from fold_month_install [OF f node_role_install_area [OF assms(3)] order_refl assms(4,5)] obtain ns where
      n1: "node_list net1 = node_list net @ ns" and
      caps: "map (\<lambda>n. capacity n TurbineInstall) ns
         = map (\<lambda>m. if thr \<le> the (index_of layer_network_list m) then k else 0) layer_network_list"
    by blast
  have "length ns = 12" using arg_cong [OF caps, of length] by (simp add: layer_network_list_length)
  then have "take 12 (drop (length (node_list net)) (node_list net')) = ns" using n1 e by simp
  with caps show ?thesis by (simp add: layer_positions [of "\<lambda>j. if thr \<le> j then k else 0"])
qed

end
