(* ===== verification/WellFormed.thy ===== *)
theory WellFormed
  imports Builder
begin

text \<open>
  The networks \<open>optimize\<close> builds are well formed (\<open>wf_network\<close>) whenever the
  non-empty facility names are distinct: every node look-up of the builder returns a
  node of the list built so far, so every edge joins two nodes of the final list; a
  facility row adds the ids (name, month) for the twelve months and, for an
  installation area, (name, month 10000), which are fresh when the name is; route rows
  add edges only. The source never checks that names are distinct.
\<close>

abbreviation node_ids :: "network \<Rightarrow> (string \<times> month) set" where
  "node_ids net \<equiv> node_id ` set (node_list net)"

definition edges_within :: "(string \<times> month) set \<Rightarrow> network \<Rightarrow> bool" where
  "edges_within ids net =
     ((\<forall>e\<in>set (transportation_list net). node_id (te_source e) \<in> ids \<and> node_id (te_target e) \<in> ids)
      \<and> (\<forall>e\<in>set (production_list net). node_id (pe_source e) \<in> ids \<and> node_id (pe_target e) \<in> ids)
      \<and> (\<forall>e\<in>set (storage_list net). node_id (se_source e) \<in> ids \<and> node_id (se_target e) \<in> ids))"

lemma wf_network_iff: "wf_network net \<longleftrightarrow> distinct (map node_id (node_list net)) \<and> edges_within (node_ids net) net"
  by (auto simp: wf_network_def edges_within_def Let_def list_all_iff)

lemma edges_within_mono: "edges_within A net \<Longrightarrow> A \<subseteq> B \<Longrightarrow> edges_within B net"
  by (auto simp: edges_within_def)

section \<open>Edges built from look-ups\<close>

lemma find_node_Inr: "find_node ns k = Inr n \<Longrightarrow> n \<in> set ns \<and> node_id n = k \<and> k \<in> node_id ` set ns"
  by (auto simp: find_node_def find_Some_iff nth_mem split: option.splits)

lemma production_edges_of_Inr:
  assumes "production_edges_of ns n = Inr pes"
  shows "\<forall>e\<in>set pes. node_id (pe_source e) \<in> node_id ` set ns \<and> node_id (pe_target e) \<in> node_id ` set ns"
  using assms unfolding production_edges_of_def
  by (rule fold_err_invariant) (auto simp: bind_err_eq_Inr dest!: find_node_Inr split: if_splits)

lemma storage_edge_of_Inr:
  assumes "storage_edge_of ns n idx m = Inr se"
  shows "node_id (se_source se) \<in> node_id ` set ns \<and> node_id (se_target se) \<in> node_id ` set ns"
  using assms by (auto simp: storage_edge_of_def bind_err_eq_Inr dest!: find_node_Inr)

lemma sink_edges_Inr:
  assumes "sink_edges ns a = Inr tes"
  shows "\<forall>e\<in>set tes. node_id (te_source e) \<in> node_id ` set ns \<and> te_target e = a"
  using assms unfolding sink_edges_def
  by (rule fold_err_invariant) (auto simp: bind_err_eq_Inr dest!: find_node_Inr)

lemma route_edge_Inr:
  assumes "route_edge ns rr m = Inr te"
  shows "node_id (te_source te) \<in> node_id ` set ns \<and> node_id (te_target te) \<in> node_id ` set ns"
  using assms by (auto simp: route_edge_def bind_err_eq_Inr dest!: find_node_Inr)

lemma make_node_id: "make_node r idx m sss = Inr (n, sss') \<Longrightarrow> node_id n = (fr_name r, m)"
  by (auto simp: make_node_def Let_def bind_err_eq_Inr node_id_def split: prod.splits)

section \<open>One facility row, one route row\<close>

lemma month_step_wf:
  assumes "month_step r (sss, net) (idx, m) = Inr (sss', net')"
    and "edges_within (node_ids net) net"
  shows "\<exists>n. node_list net' = node_list net @ [n] \<and> node_id n = (fr_name r, m)"
    and "edges_within (node_ids net') net'"
proof -
  from assms(1) obtain n s1 pes ses where
      mk: "make_node r idx m sss = Inr (n, s1)" and
      pe: "production_edges_of (node_list net @ [n]) n = Inr pes" and
      se: "(if idx \<noteq> 0 then bind_err (storage_edge_of (node_list net @ [n]) n idx m) (\<lambda>se. Inr [se]) else Inr []) = Inr ses" and
      net': "net' = net\<lparr>node_list := node_list net @ [n], production_list := production_list net @ pes,
                     storage_list := storage_list net @ ses\<rparr>"
    by (auto simp: Let_def bind_err_eq_Inr split: prod.splits)
  show "\<exists>n. node_list net' = node_list net @ [n] \<and> node_id n = (fr_name r, m)"
    using net' make_node_id [OF mk] by simp
  have ses: "\<forall>e\<in>set ses. node_id (se_source e) \<in> node_ids net' \<and> node_id (se_target e) \<in> node_ids net'"
  proof (cases "idx = 0")
    case True
    with se show ?thesis by simp
  next
    case False
    with se obtain x where x: "storage_edge_of (node_list net @ [n]) n idx m = Inr x" and s: "ses = [x]"
      by (auto simp: bind_err_eq_Inr)
    from storage_edge_of_Inr [OF x] s net' show ?thesis by simp
  qed
  have pes: "\<forall>e\<in>set pes. node_id (pe_source e) \<in> node_ids net' \<and> node_id (pe_target e) \<in> node_ids net'"
    using production_edges_of_Inr [OF pe] net' by simp
  have "edges_within (node_ids net') net"
    by (rule edges_within_mono [OF assms(2)]) (auto simp: net')
  with ses pes show "edges_within (node_ids net') net'"
    by (auto simp: edges_within_def net')
qed

lemma fold_month_step_wf:
  assumes "fold_err (month_step r) (enumerate k ms) (sss, net) = Inr (sss', net')"
    and "edges_within (node_ids net) net" and "distinct (map node_id (node_list net))"
    and "distinct ms" and "\<forall>m\<in>set ms. (fr_name r, m) \<notin> node_ids net"
  shows "edges_within (node_ids net') net' \<and> distinct (map node_id (node_list net'))
           \<and> node_ids net' = node_ids net \<union> {fr_name r} \<times> set ms"
  using assms
proof (induction ms arbitrary: k sss net)
  case Nil
  then show ?case by simp
next
  case (Cons m ms)
  from Cons.prems(1) obtain s1 net1 where
      step: "month_step r (sss, net) (k, m) = Inr (s1, net1)" and
      rest: "fold_err (month_step r) (enumerate (Suc k) ms) (s1, net1) = Inr (sss', net')"
    by (auto simp: bind_err_eq_Inr)
  from month_step_wf [OF step Cons.prems(2)] obtain n where
      nl: "node_list net1 = node_list net @ [n]" and nid: "node_id n = (fr_name r, m)" and
      ew: "edges_within (node_ids net1) net1" by blast
  have ids1: "node_ids net1 = insert (fr_name r, m) (node_ids net)" using nl nid by auto
  have d1: "distinct (map node_id (node_list net1))" using Cons.prems(3,5) nl nid by simp
  have fresh: "\<forall>m'\<in>set ms. (fr_name r, m') \<notin> node_ids net1" using Cons.prems(4,5) ids1 by auto
  from Cons.IH [OF rest ew d1 _ fresh] Cons.prems(4) ids1 show ?case by auto
qed

lemma aggregate_node_id: "aggregate_node r = Inr a \<Longrightarrow> node_id a = (fr_name r, aggregate_month)"
  by (auto simp: aggregate_node_def bind_err_eq_Inr node_id_def)

lemma aggregate_month_fresh: "aggregate_month \<notin> set layer_network_list"
  by (simp add: aggregate_month_def layer_network_list_def)

lemma distinct_layer_network_list: "distinct layer_network_list"
  by (simp add: layer_network_list_def)

lemma add_facility_row_wf:
  assumes "add_facility_row net r = Inr net'" and "wf_network net"
    and "fr_name r \<noteq> [] \<Longrightarrow> fr_name r \<notin> fst ` node_ids net"
  shows "wf_network net' \<and> fst ` node_ids net' \<subseteq> insert (fr_name r) (fst ` node_ids net)"
proof (cases "fr_name r = []")
  case True
  with assms(1,2) show ?thesis by (auto simp: add_facility_row_def)
next
  case False
  from assms(1) False obtain s1 net1 where
      f: "fold_err (month_step r) (enumerate 0 layer_network_list) (Map.empty, net) = Inr (s1, net1)" and
      g: "(if fr_kind r = InstallArea then
            bind_err (aggregate_node r) (\<lambda>a. let ns = node_list net1 @ [a] in
              bind_err (sink_edges ns a) (\<lambda>tes.
                Inr (net1\<lparr>node_list := ns, transportation_list := transportation_list net1 @ tes\<rparr>)))
          else Inr net1) = Inr net'"
    unfolding add_facility_row_def by (fastforce simp: bind_err_eq_Inr split: prod.splits)
  have nf: "fr_name r \<notin> fst ` node_ids net" using assms(3) False by blast
  have fresh: "\<forall>m\<in>set layer_network_list. (fr_name r, m) \<notin> node_ids net"
  proof
    fix m
    show "(fr_name r, m) \<notin> node_ids net"
    proof
      assume "(fr_name r, m) \<in> node_ids net"
      then have "fst (fr_name r, m) \<in> fst ` node_ids net" by (rule imageI)
      with nf show False by simp
    qed
  qed
  from fold_month_step_wf [OF f _ _ distinct_layer_network_list fresh] assms(2) have
      ew1: "edges_within (node_ids net1) net1" and d1: "distinct (map node_id (node_list net1))" and
      ids1: "node_ids net1 = node_ids net \<union> {fr_name r} \<times> set layer_network_list"
    by (auto simp: wf_network_iff)
  have names1: "fst ` node_ids net1 \<subseteq> insert (fr_name r) (fst ` node_ids net)"
    using ids1 by auto
  show ?thesis
  proof (cases "fr_kind r = InstallArea")
    case False
    with g ew1 d1 names1 show ?thesis by (simp add: wf_network_iff)
  next
    case True
    with g obtain a tes where
        a: "aggregate_node r = Inr a" and
        s: "sink_edges (node_list net1 @ [a]) a = Inr tes" and
        net': "net' = net1\<lparr>node_list := node_list net1 @ [a], transportation_list := transportation_list net1 @ tes\<rparr>"
      by (auto simp: bind_err_eq_Inr Let_def)
    have aid: "node_id a = (fr_name r, aggregate_month)" by (rule aggregate_node_id [OF a])
    have "node_id a \<notin> node_ids net1"
    proof
      assume "node_id a \<in> node_ids net1"
      then consider "(fr_name r, aggregate_month) \<in> node_ids net" | "aggregate_month \<in> set layer_network_list"
        using aid ids1 by auto
      then show False
      proof cases
        case 1
        then have "fst (fr_name r, aggregate_month) \<in> fst ` node_ids net" by (rule imageI)
        with nf show False by simp
      next
        case 2
        with aggregate_month_fresh show False by simp
      qed
    qed
    with d1 have d': "distinct (map node_id (node_list net'))" by (simp add: net')
    have "edges_within (node_ids net') net1"
      by (rule edges_within_mono [OF ew1]) (auto simp: net')
    with sink_edges_Inr [OF s] have "edges_within (node_ids net') net'"
      by (auto simp: edges_within_def net')
    with d' names1 aid show ?thesis by (auto simp: wf_network_iff net')
  qed
qed

lemma add_route_row_wf:
  assumes "add_route_row net rr = Inr net'" and "wf_network net"
  shows "wf_network net' \<and> node_list net' = node_list net"
proof (cases "rr_source rr = []")
  case True
  with assms show ?thesis by (simp add: add_route_row_def)
next
  case False
  let ?P = "\<lambda>n. wf_network n \<and> node_list n = node_list net"
  from assms(1) False have "fold_err (\<lambda>net' m. bind_err (route_edge (node_list net') rr m) (\<lambda>te.
               Inr (net'\<lparr>transportation_list := transportation_list net' @ [te]\<rparr>))) layer_network_list net = Inr net'"
    by (simp add: add_route_row_def)
  then show ?thesis
  proof (rule fold_err_invariant [where P = ?P])
    show "?P net" using assms(2) by simp
  next
    fix n m n'
    assume P: "?P n" and st: "bind_err (route_edge (node_list n) rr m) (\<lambda>te.
               Inr (n\<lparr>transportation_list := transportation_list n @ [te]\<rparr>)) = Inr n'"
    then obtain te where te: "route_edge (node_list n) rr m = Inr te"
      and n': "n' = n\<lparr>transportation_list := transportation_list n @ [te]\<rparr>"
      by (auto simp: bind_err_eq_Inr)
    from route_edge_Inr [OF te] P show "?P n'"
      by (auto simp: n' wf_network_iff edges_within_def)
  qed
qed

section \<open>The whole network\<close>

lemma fold_rows_wf:
  assumes "fold_err add_facility_row rows net = Inr net'" and "wf_network net"
    and "distinct (filter (\<lambda>s. s \<noteq> []) (map fr_name rows))"
    and "\<forall>r\<in>set rows. fr_name r \<noteq> [] \<longrightarrow> fr_name r \<notin> fst ` node_ids net"
  shows "wf_network net' \<and> fst ` node_ids net' \<subseteq> fst ` node_ids net \<union> fr_name ` set rows"
  using assms
proof (induction rows arbitrary: net)
  case Nil
  then show ?case by simp
next
  case (Cons r rows)
  from Cons.prems(1) obtain net1 where
      step: "add_facility_row net r = Inr net1" and rest: "fold_err add_facility_row rows net1 = Inr net'"
    by (auto simp: bind_err_eq_Inr)
  from add_facility_row_wf [OF step Cons.prems(2)] Cons.prems(4) have
      wf1: "wf_network net1" and n1: "fst ` node_ids net1 \<subseteq> insert (fr_name r) (fst ` node_ids net)"
    by auto
  have n1': "fst ` node_ids net1 \<subseteq> fst ` node_ids net" if "fr_name r = []"
    using step that by (simp add: add_facility_row_def)
  have fresh: "\<forall>r'\<in>set rows. fr_name r' \<noteq> [] \<longrightarrow> fr_name r' \<notin> fst ` node_ids net1"
  proof (intro ballI impI)
    fix r' assume r': "r' \<in> set rows" and ne: "fr_name r' \<noteq> []"
    have "fr_name r' \<noteq> fr_name r" if "fr_name r \<noteq> []"
      using Cons.prems(3) r' ne that by (auto simp: image_iff)
    moreover have "fr_name r' \<notin> fst ` node_ids net" using Cons.prems(4) r' ne by simp
    ultimately show "fr_name r' \<notin> fst ` node_ids net1"
      using n1 n1' by (cases "fr_name r = []") blast+
  qed
  have d: "distinct (filter (\<lambda>s. s \<noteq> []) (map fr_name rows))" using Cons.prems(3) by (simp split: if_splits)
  from Cons.IH [OF rest wf1 d fresh] have
      wf': "wf_network net'" and sub: "fst ` node_ids net' \<subseteq> fst ` node_ids net1 \<union> fr_name ` set rows"
    by auto
  have "fst ` node_ids net' \<subseteq> fst ` node_ids net \<union> fr_name ` set (r # rows)"
  proof
    fix x assume "x \<in> fst ` node_ids net'"
    with sub have "x \<in> fst ` node_ids net1 \<or> x \<in> fr_name ` set rows" by blast
    then have "x \<in> insert (fr_name r) (fst ` node_ids net) \<or> x \<in> fr_name ` set rows"
      using subsetD [OF n1] by blast
    then show "x \<in> fst ` node_ids net \<union> fr_name ` set (r # rows)"
      by (simp only: list.set(2) image_insert) blast
  qed
  with wf' show ?case by blast
qed

lemma build_network_wf_aux:
  assumes "build_network rows routes = Inr net"
    and "distinct (filter (\<lambda>s. s \<noteq> []) (map fr_name rows))"
  shows "wf_network net"
proof -
  from assms(1) obtain net1 where
      rows: "fold_err add_facility_row rows empty_network = Inr net1" and
      routes: "fold_err add_route_row routes net1 = Inr net"
    by (auto simp: build_network_def bind_err_eq_Inr)
  have "wf_network empty_network" by (simp add: wf_network_def empty_network_def)
  from fold_rows_wf [OF rows this assms(2)] have "wf_network net1" by (simp add: empty_network_def)
  from routes this show ?thesis
    by (rule fold_err_invariant) (auto dest: add_route_row_wf)
qed

section \<open>Properties\<close>

text \<open>
  C5. Every network built from a facility table whose non-empty names are distinct and
  any route table is well formed: node ids are distinct and every transportation,
  production and storage edge joins two nodes of the node list. So the conservation
  theorems apply to every such input.
\<close>

theorem built_network_wf:
  assumes "build_network rows routes = Inr net"
    and "distinct (filter (\<lambda>s. s \<noteq> []) (map fr_name rows))"
  shows "wf_network net"
  using build_network_wf_aux [OF assms] .

end
