(* ===== verification/Supply.thy ===== *)
theory Supply
  imports Builder
begin

text \<open>
  The exogenous supply and demand of a built network in terms of the input rows: every
  one of the twelve month nodes of a facility row carries the row's steel cell
  (line 279), so the network's steel is twelve times the sum of the cells; the
  turbine demand sits only on the aggregate node of each installation area (line 356).
\<close>

abbreviation total_steel :: "network \<Rightarrow> int" where
  "total_steel net \<equiv> \<Sum>n\<leftarrow>node_list net. steel n"

abbreviation total_turbine :: "network \<Rightarrow> int" where
  "total_turbine net \<equiv> \<Sum>n\<leftarrow>node_list net. turbine n"

lemma make_node_supply:
  "make_node r idx m sss = Inr (n, sss') \<Longrightarrow> steel_supply r = Inr (steel n) \<and> turbine n = 0"
  by (auto simp: make_node_def Let_def bind_err_eq_Inr split: prod.splits)

lemma fold_month_supply:
  assumes "fold_err (month_step r) (enumerate k ms) (sss, net) = Inr (sss', net')"
    and "steel_supply r = Inr s"
  shows "total_steel net' = total_steel net + int (length ms) * s \<and> total_turbine net' = total_turbine net"
  using assms(1)
proof (induction ms arbitrary: k sss net)
  case Nil
  then show ?case by simp
next
  case (Cons m ms)
  from Cons.prems obtain s1 net1 where
      step: "month_step r (sss, net) (k, m) = Inr (s1, net1)" and
      rest: "fold_err (month_step r) (enumerate (Suc k) ms) (s1, net1) = Inr (sss', net')"
    by (auto simp: bind_err_eq_Inr)
  from step obtain n where
      mk: "make_node r k m sss = Inr (n, s1)" and nl: "node_list net1 = node_list net @ [n]"
    by (auto simp: Let_def bind_err_eq_Inr split: prod.splits)
  from make_node_supply [OF mk] assms(2) have "steel n = s" "turbine n = 0" by simp_all
  with Cons.IH [OF rest] nl show ?case by (simp add: algebra_simps)
qed

lemma aggregate_node_supply:
  "aggregate_node r = Inr a \<Longrightarrow> turbine_demand r = Inr (turbine a) \<and> steel a = 0"
  by (auto simp: aggregate_node_def bind_err_eq_Inr)

lemma add_facility_row_supply:
  assumes "add_facility_row net r = Inr net'" and "fr_name r \<noteq> []" and "steel_supply r = Inr s"
    and "fr_kind r = InstallArea \<Longrightarrow> turbine_demand r = Inr d"
  shows "total_steel net' = total_steel net + 12 * s
    \<and> total_turbine net' = total_turbine net + (if fr_kind r = InstallArea then d else 0)"
proof -
  from assms(1,2) obtain s1 net1 where
      f: "fold_err (month_step r) (enumerate 0 layer_network_list) (Map.empty, net) = Inr (s1, net1)" and
      g: "(if fr_kind r = InstallArea then
            bind_err (aggregate_node r) (\<lambda>a. let ns = node_list net1 @ [a] in
              bind_err (sink_edges ns a) (\<lambda>tes.
                Inr (net1\<lparr>node_list := ns, transportation_list := transportation_list net1 @ tes\<rparr>)))
          else Inr net1) = Inr net'"
    unfolding add_facility_row_def by (fastforce simp: bind_err_eq_Inr split: prod.splits)
  from fold_month_supply [OF f assms(3)] have
      s1: "total_steel net1 = total_steel net + 12 * s" and t1: "total_turbine net1 = total_turbine net"
    by (simp_all add: layer_network_list_def)
  show ?thesis
  proof (cases "fr_kind r = InstallArea")
    case False
    with g s1 t1 show ?thesis by simp
  next
    case True
    with g obtain a tes where
        a: "aggregate_node r = Inr a" and
        net': "net' = net1\<lparr>node_list := node_list net1 @ [a], transportation_list := transportation_list net1 @ tes\<rparr>"
      by (auto simp: bind_err_eq_Inr Let_def)
    from aggregate_node_supply [OF a] assms(4) [OF True] have "turbine a = d" "steel a = 0" by simp_all
    with True net' s1 t1 show ?thesis by simp
  qed
qed

lemma add_route_row_nodes: "add_route_row net rr = Inr net' \<Longrightarrow> node_list net' = node_list net"
  unfolding add_route_row_def
  by (auto elim!: fold_err_invariant [where P = "\<lambda>n. node_list n = node_list net"] simp: bind_err_eq_Inr split: if_splits)

lemma fold_rows_supply:
  assumes "fold_err add_facility_row rows net = Inr net'"
    and "\<forall>r\<in>set rows. fr_name r \<noteq> [] \<longrightarrow> steel_supply r = Inr (s r)"
    and "\<forall>r\<in>set rows. fr_name r \<noteq> [] \<and> fr_kind r = InstallArea \<longrightarrow> turbine_demand r = Inr (d r)"
  shows "total_steel net' = total_steel net + 12 * (\<Sum>r\<leftarrow>filter (\<lambda>r. fr_name r \<noteq> []) rows. s r)
    \<and> total_turbine net' = total_turbine net
        + (\<Sum>r\<leftarrow>filter (\<lambda>r. fr_name r \<noteq> [] \<and> fr_kind r = InstallArea) rows. d r)"
  using assms
proof (induction rows arbitrary: net)
  case Nil
  then show ?case by simp
next
  case (Cons r rows)
  from Cons.prems(1) obtain net1 where
      step: "add_facility_row net r = Inr net1" and rest: "fold_err add_facility_row rows net1 = Inr net'"
    by (auto simp: bind_err_eq_Inr)
  have ih: "total_steel net' = total_steel net1 + 12 * (\<Sum>r\<leftarrow>filter (\<lambda>r. fr_name r \<noteq> []) rows. s r)
    \<and> total_turbine net' = total_turbine net1
        + (\<Sum>r\<leftarrow>filter (\<lambda>r. fr_name r \<noteq> [] \<and> fr_kind r = InstallArea) rows. d r)"
    using Cons.IH [OF rest] Cons.prems(2,3) by simp
  show ?case
  proof (cases "fr_name r = []")
    case True
    with step have "net1 = net" by (simp add: add_facility_row_def)
    with ih True show ?thesis by simp
  next
    case False
    with add_facility_row_supply [OF step False, of "s r" "d r"] Cons.prems(2,3)
    have "total_steel net1 = total_steel net + 12 * s r
      \<and> total_turbine net1 = total_turbine net + (if fr_kind r = InstallArea then d r else 0)" by simp
    with ih False show ?thesis by (simp add: algebra_simps)
  qed
qed

lemma build_network_supply_aux:
  assumes "build_network rows routes = Inr net"
    and "\<forall>r\<in>set rows. fr_name r \<noteq> [] \<longrightarrow> steel_supply r = Inr (s r)"
    and "\<forall>r\<in>set rows. fr_name r \<noteq> [] \<and> fr_kind r = InstallArea \<longrightarrow> turbine_demand r = Inr (d r)"
  shows "total_steel net = 12 * (\<Sum>r\<leftarrow>filter (\<lambda>r. fr_name r \<noteq> []) rows. s r)
    \<and> total_turbine net = (\<Sum>r\<leftarrow>filter (\<lambda>r. fr_name r \<noteq> [] \<and> fr_kind r = InstallArea) rows. d r)"
proof -
  from assms(1) obtain net1 where
      rows: "fold_err add_facility_row rows empty_network = Inr net1" and
      routes: "fold_err add_route_row routes net1 = Inr net"
    by (auto simp: build_network_def bind_err_eq_Inr)
  have "node_list net = node_list net1"
    using routes by (rule fold_err_invariant [where P = "\<lambda>n. node_list n = node_list net1"]) (auto dest: add_route_row_nodes)
  with fold_rows_supply [OF rows assms(2,3)] show ?thesis by (simp add: empty_network_def)
qed

section \<open>Properties\<close>

text \<open>
  C6. Supply and demand of a built network. If the steel cell of every named facility row
  reads \<open>s r\<close> and the demand cell of every named installation area \<open>d r\<close>, the
  network's total steel supply is twelve times the sum of the steel cells (the cell is
  repeated in every month), and its total turbine demand is the sum of the demand cells.
\<close>

theorem built_supply_totals:
  assumes "build_network rows routes = Inr net"
    and "\<forall>r\<in>set rows. fr_name r \<noteq> [] \<longrightarrow> steel_supply r = Inr (s r)"
    and "\<forall>r\<in>set rows. fr_name r \<noteq> [] \<and> fr_kind r = InstallArea \<longrightarrow> turbine_demand r = Inr (d r)"
  shows "(\<Sum>n\<leftarrow>node_list net. steel n) = 12 * (\<Sum>r\<leftarrow>filter (\<lambda>r. fr_name r \<noteq> []) rows. s r)
    \<and> (\<Sum>n\<leftarrow>node_list net. turbine n) = (\<Sum>r\<leftarrow>filter (\<lambda>r. fr_name r \<noteq> [] \<and> fr_kind r = InstallArea) rows. d r)"
  using build_network_supply_aux [OF assms] .

end
