(* ===== verification/Results.thy ===== *)
theory Results
  imports Constraints "HOL-Library.AList"
begin

text \<open>
  The end of \<open>optimize\<close> (src/calc.py, lines 693--739): the solver call, modelled as
  an arbitrary function from the model to a status and an assignment, the three flat
  result dictionaries of realised flows, and the return value, which exists only when
  the status is optimal. A dictionary is an association list: assigning an existing
  key replaces its value in place (\<open>AList.update\<close>), a new key goes to the end.
\<close>

section \<open>The solver\<close>

datatype solve_status = Optimal | NotOptimal

type_synonym solver = "ip_model \<Rightarrow> solve_status \<times> assignment"

text \<open>What the planner relies on: a reported optimum is a feasible assignment.\<close>

definition solver_feasible :: "solver \<Rightarrow> bool" where
  "solver_feasible solve \<longleftrightarrow> (\<forall>m x. solve m = (Optimal, x) \<longrightarrow> feasible m x)"

section \<open>Flat result dictionaries\<close>

text \<open>
  \<open>value >= 0.1\<close> on the value of a variable. Every variable is declared integer
  (\<open>vtype='I'\<close>), so the float \<open>getVal\<close> returns is the integer of the assignment; the
  test is taken on that integer.
\<close>

definition reported :: "int \<Rightarrow> bool" where
  "reported v \<longleftrightarrow> (1 / 10 :: rat) \<le> of_int v"

text \<open>
  The loop shared by lines 704--711, 714--720 and 723--729: for every edge, product and
  sign, the value of the flow is stored under the name of the variable when it is
  reported and the edge kind keeps that (product, sign) pair.
\<close>

definition record_results ::
  "(nat \<times> 'e) list \<Rightarrow> (nat \<Rightarrow> 'e \<Rightarrow> product \<Rightarrow> sign \<Rightarrow> 'k) \<Rightarrow> (nat \<Rightarrow> product \<Rightarrow> sign \<Rightarrow> int)
     \<Rightarrow> (product \<Rightarrow> sign \<Rightarrow> bool) \<Rightarrow> ('k \<times> int) list \<Rightarrow> ('k \<times> int) list" where
  "record_results ies key val keep acc =
     fold (\<lambda>(i, e) acc. fold (\<lambda>p acc. fold (\<lambda>s acc.
         if reported (val i p s) \<and> keep p s then AList.update (key i e p s) (val i p s) acc else acc)
       sign_list acc) num_product_list acc) ies acc"

type_synonym route_key = "(string \<times> month) \<times> (string \<times> month) \<times> product \<times> sign"

type_synonym production_key = "(string \<times> month) \<times> (string \<times> month) \<times> task \<times> product \<times> sign"

text \<open>Lines 704--711: minus flows of transportation edges, the vessel excluded.\<close>

definition transportation_results :: "network \<Rightarrow> assignment \<Rightarrow> (route_key \<times> int) list" where
  "transportation_results net x =
     record_results (enumerate 0 (transportation_list net))
       (\<lambda>i e p s. (node_id (te_source e), node_id (te_target e), p, s))
       (\<lambda>i p s. x (Flow TransportKind i p s)) (\<lambda>p s. s = SignMinus \<and> p \<noteq> Vessel) []"

text \<open>Lines 714--720: minus flows of production edges.\<close>

definition production_results :: "network \<Rightarrow> assignment \<Rightarrow> (production_key \<times> int) list" where
  "production_results net x =
     record_results (enumerate 0 (production_list net))
       (\<lambda>i e p s. (node_id (pe_source e), node_id (pe_target e), pe_function e, p, s))
       (\<lambda>i p s. x (Flow ProductionKind i p s)) (\<lambda>p s. s = SignMinus) []"

text \<open>Lines 723--729: minus flows of storage edges.\<close>

definition storage_results :: "network \<Rightarrow> assignment \<Rightarrow> (route_key \<times> int) list" where
  "storage_results net x =
     record_results (enumerate 0 (storage_list net))
       (\<lambda>i e p s. (node_id (se_source e), node_id (se_target e), p, s))
       (\<lambda>i p s. x (Flow StorageKind i p s)) (\<lambda>p s. s = SignMinus) []"

section \<open>The whole of \<open>optimize\<close>\<close>

text \<open>
  Lines 143--739: build the network, generate the model, solve it; with an optimal
  status the result dictionaries are computed and dropped, and the lists and the solved
  model are returned; otherwise the function falls off its end and returns \<open>None\<close>.
\<close>

definition optimize :: "solver \<Rightarrow> facility_row list \<Rightarrow> route_row list \<Rightarrow> error + (network \<times> ip_model \<times> assignment) option" where
  "optimize solve rows routes =
     bind_err (build_network rows routes) (\<lambda>net.
     bind_err (build_model net) (\<lambda>m.
       (case solve m of
          (Optimal, x) \<Rightarrow>
            let _ = (transportation_results net x, production_results net x, storage_results net x)
            in Inr (Some (net, m, x))
        | (NotOptimal, _) \<Rightarrow> Inr None)))"

section \<open>Lemmas\<close>

lemma record_results_distinct:
  "distinct (map fst acc) \<Longrightarrow> distinct (map fst (record_results ies key val keep acc))"
  unfolding record_results_def
  by (rule fold_invariant [where Q = "\<lambda>_. True"], simp, assumption,
      clarify, rule fold_invariant [where Q = "\<lambda>_. True"], simp, assumption,
      rule fold_invariant [where Q = "\<lambda>_. True"], simp, assumption, simp add: distinct_update)

lemma record_results_sound:
  assumes "map_of (record_results ies key val keep acc) k = Some v"
  shows "map_of acc k = Some v
    \<or> (\<exists>i e p s. (i, e) \<in> set ies \<and> key i e p s = k \<and> val i p s = v \<and> reported v \<and> keep p s)"
proof -
  let ?P = "\<lambda>al. \<forall>k v. map_of al k = Some v \<longrightarrow> map_of acc k = Some v
    \<or> (\<exists>i e p s. (i, e) \<in> set ies \<and> key i e p s = k \<and> val i p s = v \<and> reported v \<and> keep p s)"
  have "?P (record_results ies key val keep acc)"
    unfolding record_results_def
  proof (rule fold_invariant [where Q = "\<lambda>ie. ie \<in> set ies"])
    fix ie al assume ie: "ie \<in> set ies" and P: "?P al"
    obtain i e where ie': "ie = (i, e)" by (cases ie)
    show "?P ((\<lambda>(i, e) acc. fold (\<lambda>p acc. fold (\<lambda>s acc.
         if reported (val i p s) \<and> keep p s then AList.update (key i e p s) (val i p s) acc else acc)
       sign_list acc) num_product_list acc) ie al)"
      unfolding ie' split_conv
      by (rule fold_invariant [where Q = "\<lambda>_. True"], simp, fact P,
          rule fold_invariant [where Q = "\<lambda>_. True"], simp, assumption)
        (use ie ie' in \<open>auto simp: update_conv' split: if_splits\<close>)
  qed auto
  with assms show ?thesis by blast
qed

lemma record_results_keep:
  assumes "map_of (record_results ies key val keep []) k = Some v"
  shows "\<exists>i e p s. (i, e) \<in> set ies \<and> key i e p s = k \<and> val i p s = v \<and> reported v \<and> keep p s"
  using record_results_sound [OF assms] by simp

lemma optimize_Some:
  assumes "optimize solve rows routes = Inr (Some (net, m, x))"
  shows "build_network rows routes = Inr net \<and> build_model net = Inr m \<and> solve m = (Optimal, x)"
proof -
  from assms obtain net' where b: "build_network rows routes = Inr net'"
    by (cases "build_network rows routes") (auto simp: optimize_def)
  with assms obtain m' where bm: "build_model net' = Inr m'"
    by (cases "build_model net'") (auto simp: optimize_def)
  obtain st y where s: "solve m' = (st, y)" by (cases "solve m'")
  with assms b bm show ?thesis by (cases st) (auto simp: optimize_def)
qed

end
