(* ===== verification/Maps.thy ===== *)
theory Maps
  imports Constraints "HOL-Library.AList"
begin

text \<open>
  The graph part of \<open>build_maps\<close> (src/calc.py, lines 742--871): for every month a
  directed graph whose nodes are the locations of that month's nodes, with the realised
  foundation output, wet-storage stock, turbine assembly and installation of the node,
  and whose edges are the routes of that month, with the realised arrivals of every
  product summed over the routes between the same two nodes; an edge with no flow at
  all is not drawn. Node and edge dictionaries of networkx are association lists
  (adding an existing node or edge overwrites its attributes in place). The folium
  rendering (markers, tooltips, CSS, HTML) is not modelled.
\<close>

section \<open>Node attributes\<close>

text \<open>
  \<open>int(model.getVal(quicksum(flow[..., p, "minus"] for e in production_list if ...)))\<close>:
  lines 761, 765 and 767: the realised outflow of product \<open>p\<close> over the production edges at the node whose role
  is selected (the flows are integers, so \<open>int\<close> changes nothing).
\<close>

definition prod_out_sum :: "network \<Rightarrow> assignment \<Rightarrow> node \<Rightarrow> (task \<Rightarrow> bool) \<Rightarrow> product \<Rightarrow> int" where
  "prod_out_sum net x n sel p =
     (\<Sum>(i, e)\<leftarrow>filter (\<lambda>(i, e). node_id (pe_source e) = node_id n \<and> sel (pe_function e))
        (enumerate 0 (production_list net)). x (Flow ProductionKind i p SignMinus))"

text \<open>Line 763: foundations leaving the node's storage edges.\<close>

definition stor_out_sum :: "network \<Rightarrow> assignment \<Rightarrow> node \<Rightarrow> int" where
  "stor_out_sum net x n =
     (\<Sum>(i, e)\<leftarrow>filter (\<lambda>(i, e). node_id (se_source e) = node_id n) (enumerate 0 (storage_list net)).
        x (Flow StorageKind i Foundation SignMinus))"

record node_view =
  nv_pos :: "rat \<times> rat"
  nv_foundations :: int
  nv_wet :: int
  nv_assembled :: int
  nv_installed :: int

text \<open>Lines 751--767: the attributes of a node of the month's graph.\<close>

definition node_view :: "network \<Rightarrow> assignment \<Rightarrow> node \<Rightarrow> node_view" where
  "node_view net x n =
     \<lparr>nv_pos = (lat n, lon n),
      nv_foundations = prod_out_sum net x n (\<lambda>t. t = FoundationFab \<or> t = FoundationFabAtSea) Foundation,
      nv_wet = stor_out_sum net x n,
      nv_assembled = prod_out_sum net x n (\<lambda>t. t = TurbineAssembly) Turbine,
      nv_installed = prod_out_sum net x n (\<lambda>t. t = TurbineInstall) TurbineInstalled\<rparr>"

section \<open>Edge attributes\<close>

text \<open>Line 779: arrivals of a product summed over the routes with the same two end nodes.\<close>

definition edge_flow_sum :: "network \<Rightarrow> assignment \<Rightarrow> transportation_edge \<Rightarrow> product \<Rightarrow> int" where
  "edge_flow_sum net x e p =
     (\<Sum>(j, e')\<leftarrow>filter (\<lambda>(j, e'). node_id (te_source e') = node_id (te_source e) \<and> node_id (te_target e') = node_id (te_target e))
        (enumerate 0 (transportation_list net)). x (Flow TransportKind j p SignMinus))"

section \<open>The graph of one month and the maps\<close>

record month_graph =
  graph_nodes :: "(string \<times> node_view) list"
  graph_edges :: "((string \<times> string) \<times> (product \<times> int) list) list"

text \<open>Lines 748--781: nodes of the month keyed by name, routes of the month keyed by end names.\<close>

definition month_graph :: "network \<Rightarrow> assignment \<Rightarrow> month \<Rightarrow> month_graph" where
  "month_graph net x m =
     \<lparr>graph_nodes = fold (\<lambda>n g. if node_month n = m then AList.update (node_name n) (node_view net x n) g else g)
        (node_list net) [],
      graph_edges = fold (\<lambda>e g. if te_month e = Some m
           then AList.update (node_name (te_source e), node_name (te_target e))
                  (map (\<lambda>p. (p, edge_flow_sum net x e p)) num_product_list) g
           else g) (transportation_list net) []\<rparr>"

text \<open>Lines 787--790: of the edges the loop visits, those drawn: not every product's flow is 0.\<close>

definition drawn_edges :: "((string \<times> string) \<times> (product \<times> int) list) list \<Rightarrow> ((string \<times> string) \<times> (product \<times> int) list) list" where
  "drawn_edges es = filter (\<lambda>(k, attrs). \<not> list_all (\<lambda>(p, v). v = 0) attrs) es"

text \<open>Lines 744--746 and 869--871: one graph per month, in the order of \<open>layer_network_list\<close>.\<close>

definition build_maps :: "network \<Rightarrow> assignment \<Rightarrow> (month \<times> month_graph) list" where
  "build_maps net x = map (\<lambda>m. (m, month_graph net x m)) layer_network_list"

end
