(* ===== verification/MapSafety.thy ===== *)
theory MapSafety
  imports Maps WellFormed
begin

text \<open>
  The drawing loops of \<open>build_maps\<close> read \<open>G.nodes[u]["pos"]\<close> for the two ends of every
  edge (src/calc.py, line 794) and for every node of the graph (line 803). networkx
  creates the end points of \<open>G.add_edge\<close> (line 776) without attributes when they are
  not nodes yet, so these reads raise \<open>KeyError\<close> unless every end point of a month's
  route is a node of that month. This theory shows that the builder guarantees it: a
  route edge of month \<open>m\<close> joins two nodes of the list whose month is \<open>m\<close> (the edges into
  the aggregate nodes carry no month and are never drawn). It also gives the shape of
  the maps: one graph per month, unique keys, the month's locations as nodes.
\<close>

section \<open>Routes stay inside their month\<close>

definition routes_within :: "node set \<Rightarrow> transportation_edge list \<Rightarrow> bool" where
  "routes_within ns tes =
     list_all (\<lambda>e. case te_month e of None \<Rightarrow> True
        | Some m \<Rightarrow> te_source e \<in> ns \<and> te_target e \<in> ns \<and> node_month (te_source e) = m \<and> node_month (te_target e) = m) tes"

abbreviation routes_in_month :: "network \<Rightarrow> bool" where
  "routes_in_month net \<equiv> routes_within (set (node_list net)) (transportation_list net)"

lemma routes_within_mono: "routes_within A tes \<Longrightarrow> A \<subseteq> B \<Longrightarrow> routes_within B tes"
  by (auto simp: routes_within_def list_all_iff split: option.splits)

lemma routes_within_append [simp]:
  "routes_within A (xs @ ys) \<longleftrightarrow> routes_within A xs \<and> routes_within A ys"
  by (simp add: routes_within_def)

lemma routes_within_unmonthed: "\<forall>e\<in>set tes. te_month e = None \<Longrightarrow> routes_within A tes"
  by (simp add: routes_within_def list_all_iff)

lemma month_step_grows:
  assumes "month_step r (sss, net) (idx, m) = Inr (sss', net')"
  shows "transportation_list net' = transportation_list net \<and> set (node_list net) \<subseteq> set (node_list net')"
  using assms by (auto simp: bind_err_eq_Inr Let_def split: if_splits prod.splits)

lemma fold_month_step_grows:
  assumes "fold_err (month_step r) ims (sss, net) = Inr (sss', net')"
  shows "transportation_list net' = transportation_list net \<and> set (node_list net) \<subseteq> set (node_list net')"
proof -
  have "(\<lambda>(s, n). transportation_list n = transportation_list net \<and> set (node_list net) \<subseteq> set (node_list n)) (sss', net')"
    using assms(1)
  proof (rule fold_err_invariant)
    fix s :: "(task \<rightharpoonup> rat) \<times> network" and x t
    assume "(\<lambda>(s, n). transportation_list n = transportation_list net \<and> set (node_list net) \<subseteq> set (node_list n)) s"
      and "month_step r s x = Inr t"
    then show "(\<lambda>(s, n). transportation_list n = transportation_list net \<and> set (node_list net) \<subseteq> set (node_list n)) t"
    proof -
      obtain sa na where s: "s = (sa, na)" by (cases s)
      obtain idx m where x: "x = (idx, m)" by (cases x)
      obtain sb nb where t: "t = (sb, nb)" by (cases t)
      from \<open>month_step r s x = Inr t\<close> have "month_step r (sa, na) (idx, m) = Inr (sb, nb)" by (simp only: s x t)
      from month_step_grows [OF this] \<open>(\<lambda>(s, n). _) s\<close> show ?thesis by (auto simp: s t)
    qed
  qed simp
  then show ?thesis by simp
qed

lemma sink_edges_unmonthed: "sink_edges ns a = Inr tes \<Longrightarrow> \<forall>e\<in>set tes. te_month e = None"
  unfolding sink_edges_def
  by (erule fold_err_invariant) (auto simp: bind_err_eq_Inr)

lemma add_facility_row_routes:
  assumes "add_facility_row net r = Inr net'" and "routes_in_month net"
  shows "routes_in_month net'"
proof (cases "fr_name r = []")
  case True
  with assms show ?thesis by (simp add: add_facility_row_def)
next
  case False
  with assms(1) obtain sss net1 where f: "fold_err (month_step r) (enumerate 0 layer_network_list) (Map.empty, net) = Inr (sss, net1)"
    and rest: "(if fr_kind r = InstallArea then
          bind_err (aggregate_node r) (\<lambda>a.
          let ns = node_list net1 @ [a] in
          bind_err (sink_edges ns a) (\<lambda>tes.
            Inr (net1\<lparr>node_list := ns, transportation_list := transportation_list net1 @ tes\<rparr>)))
        else Inr net1) = Inr net'"
    by (auto simp: add_facility_row_def bind_err_eq_Inr)
  from fold_month_step_grows [OF f] assms(2) have r1: "routes_in_month net1"
    by (auto intro: routes_within_mono)
  show ?thesis
  proof (cases "fr_kind r = InstallArea")
    case True
    with rest obtain a tes where s: "sink_edges (node_list net1 @ [a]) a = Inr tes"
      and n': "net' = net1\<lparr>node_list := node_list net1 @ [a], transportation_list := transportation_list net1 @ tes\<rparr>"
      by (auto simp: bind_err_eq_Inr Let_def)
    from r1 have "routes_within (set (node_list net1 @ [a])) (transportation_list net1)"
      by (rule routes_within_mono) auto
    with sink_edges_unmonthed [OF s] show ?thesis by (simp add: n' routes_within_unmonthed)
  next
    case False
    with rest r1 show ?thesis by simp
  qed
qed

lemma route_edge_in_month:
  assumes "route_edge ns rr m = Inr te"
  shows "routes_within (set ns) [te]"
  using assms by (auto simp: route_edge_def routes_within_def bind_err_eq_Inr node_id_def dest!: find_node_Inr)

lemma add_route_row_routes:
  assumes "add_route_row net rr = Inr net'" and "routes_in_month net"
  shows "routes_in_month net'"
  using assms unfolding add_route_row_def
  by (auto split: if_splits elim!: fold_err_invariant simp: bind_err_eq_Inr dest!: route_edge_in_month)

lemma build_network_routes:
  assumes "build_network rows routes = Inr net"
  shows "routes_in_month net"
proof -
  from assms obtain net0 where rows: "fold_err add_facility_row rows empty_network = Inr net0"
    and rts: "fold_err add_route_row routes net0 = Inr net"
    by (auto simp: build_network_def bind_err_eq_Inr)
  have base: "routes_in_month empty_network" by (simp add: empty_network_def routes_within_def)
  have "routes_in_month net0"
    using rows base by (rule fold_err_invariant) (blast intro: add_facility_row_routes)
  from rts this show ?thesis by (rule fold_err_invariant) (blast intro: add_route_row_routes)
qed

section \<open>The keys of the month graph\<close>

lemma fold_update_keys:
  "fst ` set (fold (\<lambda>a g. if P a then AList.update (k a) (v a) g else g) xs g0)
     = fst ` set g0 \<union> k ` {a \<in> set xs. P a}"
  by (induction xs arbitrary: g0) (auto simp: dom_update)

lemma month_graph_node_keys:
  "fst ` set (graph_nodes (month_graph net x m)) = node_name ` {n \<in> set (node_list net). node_month n = m}"
  by (simp add: month_graph_def fold_update_keys [where P = "\<lambda>n. node_month n = m"])

lemma month_graph_edge_keys:
  "fst ` set (graph_edges (month_graph net x m))
     = (\<lambda>e. (node_name (te_source e), node_name (te_target e))) ` {e \<in> set (transportation_list net). te_month e = Some m}"
  by (simp add: month_graph_def fold_update_keys [where P = "\<lambda>e. te_month e = Some m"])

lemma fold_update_distinct:
  "distinct (map fst g0) \<Longrightarrow>
     distinct (map fst (fold (\<lambda>a g. if P a then AList.update (k a) (v a) g else g) xs g0))"
  by (induction xs arbitrary: g0) (auto simp: distinct_update)

text \<open>The end points of a month's edges are nodes of that month's graph.\<close>

lemma built_edge_ends:
  assumes "build_network rows routes = Inr net"
    and "(u, v) \<in> fst ` set (graph_edges (month_graph net x m))"
  shows "u \<in> fst ` set (graph_nodes (month_graph net x m)) \<and> v \<in> fst ` set (graph_nodes (month_graph net x m))"
proof -
  from assms(2) obtain e where e: "e \<in> set (transportation_list net)" "te_month e = Some m"
    and uv: "u = node_name (te_source e)" "v = node_name (te_target e)"
    unfolding month_graph_edge_keys by auto
  from build_network_routes [OF assms(1)] e
  have "te_source e \<in> set (node_list net) \<and> te_target e \<in> set (node_list net)
      \<and> node_month (te_source e) = m \<and> node_month (te_target e) = m"
    by (auto simp: routes_within_def list_all_iff)
  with uv show ?thesis unfolding month_graph_node_keys by blast
qed

section \<open>Properties\<close>

text \<open>
  C17. In every network the builder returns, each edge of a month's graph joins two
  nodes that the graph has with their positions, so the position reads of the drawing
  loops (lines 794 and 803) never raise: \<open>G.add_edge\<close> never creates an attribute-less node.
\<close>

theorem graph_edge_ends_have_positions:
  assumes "build_network rows routes = Inr net"
    and "((u, v), attrs) \<in> set (graph_edges (month_graph net x m))"
  shows "u \<in> fst ` set (graph_nodes (month_graph net x m)) \<and> v \<in> fst ` set (graph_nodes (month_graph net x m))"
proof -
  from assms(2) have "(u, v) \<in> fst ` set (graph_edges (month_graph net x m))" by force
  with assms(1) show ?thesis by (rule built_edge_ends)
qed

end
