(* ===== verification/Drawing.thy ===== *)
theory Drawing
  imports MapSafety
begin

text \<open>
  The folium part of \<open>build_maps\<close> (src/calc.py, lines 782--871): from the networkx
  graph of a month, a blue line for every edge that carried something and, for every
  node of the graph, a red circle and a label with the node's name less its last
  character. The map is the list of its elements; \<open>m._repr_html_()\<close> and the fixed
  parts (tiles, zoom, CSS) are not modelled. Every position is read from the graph,
  \<open>G.nodes[u]["pos"]\<close>, which raises KeyError for a node without one; networkx visits
  the nodes in insertion order (\<open>nx_nodes\<close>: the month's nodes, then the end points
  \<open>G.add_edge\<close> created) and the edges by source node in that order (\<open>nx_edges\<close>).
  Drawing never raises on a network the builder returns, and the lines and labels are
  exactly those the graph calls for; on a graph with an edge to a node without position
  it raises KeyError.
\<close>

section \<open>Map elements and graph traversal\<close>

text \<open>Lines 793--797, 806--814 and 825--851: the elements, with their varying arguments.\<close>

datatype map_element =
    PolyLine "rat \<times> rat" "rat \<times> rat"
  | CircleMarker "rat \<times> rat" string
  | LabelMarker "rat \<times> rat" string "nat \<times> rat" string

text \<open>Lines 794 and 803: \<open>G.nodes[u]["pos"]\<close>.\<close>

definition pos_of :: "month_graph \<Rightarrow> string \<Rightarrow> error + rat \<times> rat" where
  "pos_of g u = (case map_of (graph_nodes g) u of None \<Rightarrow> Inl KeyError | Some nv \<Rightarrow> Inr (nv_pos nv))"

text \<open>Line 776: \<open>G.add_edge(u, v)\<close> adds each end point not yet a node, after the others.\<close>

definition add_nx_node :: "string \<Rightarrow> string list \<Rightarrow> string list" where
  "add_nx_node u ns = (if u \<in> set ns then ns else ns @ [u])"

text \<open>Line 802: \<open>G.nodes()\<close>, in insertion order.\<close>

definition nx_nodes :: "month_graph \<Rightarrow> string list" where
  "nx_nodes g = fold (\<lambda>((u, v), attrs) ns. add_nx_node v (add_nx_node u ns)) (graph_edges g) (map fst (graph_nodes g))"

text \<open>Line 787: \<open>G.edges(data=True)\<close>, by source node, each source's edges in insertion order.\<close>

definition nx_edges :: "month_graph \<Rightarrow> ((string \<times> string) \<times> (product \<times> int) list) list" where
  "nx_edges g = concat (map (\<lambda>n. filter (\<lambda>((u, v), attrs). u = n) (graph_edges g)) (nx_nodes g))"

section \<open>Drawing\<close>

text \<open>Lines 792--799: the line of an edge, between the positions of its two ends.\<close>

definition edge_line :: "month_graph \<Rightarrow> (string \<times> string) \<times> (product \<times> int) list \<Rightarrow> error + map_element" where
  "edge_line g e = (case e of ((u, v), attrs) \<Rightarrow>
     bind_err (pos_of g u) (\<lambda>pu. bind_err (pos_of g v) (\<lambda>pv. Inr (PolyLine pu pv))))"

text \<open>
  Names are the UTF-8 bytes of the CSV cells (\<open>open(..., encoding='utf-8-sig')\<close>, lines
  159 and 385), while Python's \<open>str\<close> counts code points. A byte 0x80--0xBF continues a
  code point; every other byte starts one. \<open>py_len\<close> is \<open>len\<close> and \<open>py_drop_last\<close> is
  \<open>[:-1]\<close> on the decoded string (lines 819 and 821).
\<close>

definition utf8_cont :: "char \<Rightarrow> bool" where
  "utf8_cont c = (let n = of_char c in 128 \<le> n \<and> n < (192::nat))"

definition py_len :: "string \<Rightarrow> nat" where
  "py_len s = length (filter (\<lambda>c. \<not> utf8_cont c) s)"

text \<open>Drops the last code point of a reversed string: its continuation bytes, then its lead byte.\<close>

fun drop_cp :: "string \<Rightarrow> string" where
  "drop_cp [] = []"
| "drop_cp (c # cs) = (if utf8_cont c then drop_cp cs else cs)"

definition py_drop_last :: "string \<Rightarrow> string" where
  "py_drop_last s = rev (drop_cp (rev s))"

text \<open>
  Lines 802--851: the circle with the name as tooltip, and the label \<open>node_name[:-1]\<close>
  in a box 10 pixels per character wide and \<open>10 * 1.2\<close> high.
\<close>

definition node_marks :: "month_graph \<Rightarrow> string \<Rightarrow> error + map_element list" where
  "node_marks g s = bind_err (pos_of g s) (\<lambda>p.
     let d = py_drop_last s in Inr [CircleMarker p s, LabelMarker p d (10 * py_len d, 12) s])"

text \<open>Lines 782--866: the edges first, then the nodes; the first KeyError ends the drawing.\<close>

definition draw_month :: "month_graph \<Rightarrow> error + map_element list" where
  "draw_month g =
     bind_err (sequence_err (map (edge_line g) (drawn_edges (nx_edges g)))) (\<lambda>ls.
     bind_err (sequence_err (map (node_marks g) (nx_nodes g))) (\<lambda>ms. Inr (ls @ concat ms)))"

text \<open>Lines 868--871: \<open>maps_by_month[month]\<close> for every month, in the order of the loop.\<close>

definition draw_maps :: "network \<Rightarrow> assignment \<Rightarrow> error + (month \<times> map_element list) list" where
  "draw_maps net x = sequence_err (map (\<lambda>(m, g). bind_err (draw_month g) (\<lambda>es. Inr (m, es))) (build_maps net x))"

section \<open>Lemmas\<close>

lemma set_add_nx_node [simp]: "set (add_nx_node u ns) = insert u (set ns)"
  by (auto simp: add_nx_node_def)

lemma set_nx_nodes_fold:
  "set (fold (\<lambda>((u, v), attrs) ns. add_nx_node v (add_nx_node u ns)) es ns0)
     = set ns0 \<union> fst ` fst ` set es \<union> snd ` fst ` set es"
  by (induction es arbitrary: ns0) (auto simp: image_iff)

lemma set_nx_nodes:
  "set (nx_nodes g) = fst ` set (graph_nodes g) \<union> fst ` fst ` set (graph_edges g) \<union> snd ` fst ` set (graph_edges g)"
  by (simp add: nx_nodes_def set_nx_nodes_fold)

lemma set_nx_edges [simp]: "set (nx_edges g) = set (graph_edges g)"
  by (auto simp: nx_edges_def set_nx_nodes)

lemma fold_add_nx_node_closed:
  "\<forall>((u, v), attrs)\<in>set es. u \<in> set ns \<and> v \<in> set ns \<Longrightarrow>
     fold (\<lambda>((u, v), attrs) ns. add_nx_node v (add_nx_node u ns)) es ns = ns"
  by (induction es) (auto simp: add_nx_node_def)

lemma pos_of_Inr: "pos_of g u = Inr p \<longleftrightarrow> (\<exists>nv. map_of (graph_nodes g) u = Some nv \<and> p = nv_pos nv)"
  by (auto simp: pos_of_def split: option.splits)

lemma pos_of_key: "u \<in> fst ` set (graph_nodes g) \<Longrightarrow> \<exists>p. pos_of g u = Inr p"
  by (auto simp: pos_of_def dest!: weak_map_of_SomeI)

lemma draw_month_Inr:
  "draw_month g = Inr es \<longleftrightarrow>
     (\<exists>ls ms. sequence_err (map (edge_line g) (drawn_edges (nx_edges g))) = Inr ls
        \<and> sequence_err (map (node_marks g) (nx_nodes g)) = Inr ms \<and> es = ls @ concat ms)"
  by (auto simp: draw_month_def bind_err_eq_Inr)

lemma edge_line_kind: "edge_line g e = Inr el \<Longrightarrow> \<exists>p q. el = PolyLine p q"
  by (auto simp: edge_line_def bind_err_eq_Inr split: prod.splits)

lemma node_marks_Inr:
  "node_marks g s = Inr ms \<longleftrightarrow>
     (\<exists>p. pos_of g s = Inr p \<and> ms = [CircleMarker p s, LabelMarker p (py_drop_last s) (10 * py_len (py_drop_last s), 12) s])"
  by (auto simp: node_marks_def bind_err_eq_Inr Let_def)

lemma edge_line_Inr:
  "edge_line g ((u, v), attrs) = Inr el \<longleftrightarrow> (\<exists>p q. pos_of g u = Inr p \<and> pos_of g v = Inr q \<and> el = PolyLine p q)"
  by (auto simp: edge_line_def bind_err_eq_Inr)

lemma set_drawn_nx_edges:
  "set (drawn_edges (nx_edges g)) = {e \<in> set (graph_edges g). \<not> list_all (\<lambda>(p, v). v = 0) (snd e)}"
  by (auto simp: drawn_edges_def split_def)

text \<open>In a built network the graph of a month has no node beyond the month's nodes.\<close>

lemma built_nx_nodes:
  assumes "build_network rows routes = Inr net"
  shows "nx_nodes (month_graph net x m) = map fst (graph_nodes (month_graph net x m))"
  unfolding nx_nodes_def
proof (rule fold_add_nx_node_closed, clarify)
  fix u v attrs assume "((u, v), attrs) \<in> set (graph_edges (month_graph net x m))"
  then have "(u, v) \<in> fst ` set (graph_edges (month_graph net x m))" by force
  from built_edge_ends [OF assms this] show "u \<in> set (map fst (graph_nodes (month_graph net x m)))
      \<and> v \<in> set (map fst (graph_nodes (month_graph net x m)))" by simp
qed

lemma draw_month_built:
  assumes "build_network rows routes = Inr net"
  shows "\<exists>es. draw_month (month_graph net x m) = Inr es"
proof -
  let ?g = "month_graph net x m"
  have ls: "\<exists>ls. sequence_err (map (edge_line ?g) (drawn_edges (nx_edges ?g))) = Inr ls"
  proof (rule sequence_err_all_Inr)
    fix e assume "e \<in> set (drawn_edges (nx_edges ?g))"
    then have mem: "e \<in> set (graph_edges ?g)" by (simp add: set_drawn_nx_edges)
    obtain u v attrs where e: "e = ((u, v), attrs)" by (metis prod.collapse)
    from mem have "(u, v) \<in> fst ` set (graph_edges ?g)" by (force simp: e)
    from built_edge_ends [OF assms this] obtain p q where "pos_of ?g u = Inr p" "pos_of ?g v = Inr q"
      by (meson pos_of_key)
    then show "\<exists>el. edge_line ?g e = Inr el" by (simp add: e edge_line_Inr)
  qed
  have ms: "\<exists>ms. sequence_err (map (node_marks ?g) (nx_nodes ?g)) = Inr ms"
  proof (rule sequence_err_all_Inr)
    fix s assume "s \<in> set (nx_nodes ?g)"
    then have "s \<in> fst ` set (graph_nodes ?g)" by (simp add: built_nx_nodes [OF assms])
    then obtain p where "pos_of ?g s = Inr p" by (meson pos_of_key)
    then show "\<exists>ms. node_marks ?g s = Inr ms" by (simp add: node_marks_Inr)
  qed
  from ls ms show ?thesis by (auto simp: draw_month_Inr)
qed

lemma draw_maps_built:
  assumes "build_network rows routes = Inr net"
  shows "\<exists>maps. draw_maps net x = Inr maps \<and> map fst maps = map fst (build_maps net x)"
  unfolding draw_maps_def
proof (rule sequence_err_keyed)
  fix z assume "z \<in> set (build_maps net x)"
  then obtain m where z: "z = (m, month_graph net x m)" by (auto simp: build_maps_def)
  from draw_month_built [OF assms] obtain es where "draw_month (month_graph net x m) = Inr es" by blast
  then show "\<exists>w. (case z of (m, g) \<Rightarrow> bind_err (draw_month g) (\<lambda>es. Inr (m, es))) = Inr (fst z, w)"
    by (simp add: z)
qed

text \<open>Every failure of the drawing is a KeyError of a position look-up.\<close>

lemma pos_of_Inl: "pos_of g u = Inl e \<Longrightarrow> e = KeyError"
  by (simp add: pos_of_def split: option.splits)

lemma pos_of_missing: "u \<notin> fst ` set (graph_nodes g) \<Longrightarrow> pos_of g u = Inl KeyError"
  using map_of_eq_None_iff [of "graph_nodes g" u] by (simp add: pos_of_def)

lemma edge_line_Inl: "edge_line g e = Inl err \<Longrightarrow> err = KeyError"
  by (auto simp: edge_line_def bind_err_def dest: pos_of_Inl split: prod.splits sum.splits)

section \<open>Properties\<close>

text \<open>
  C19. Drawing the maps never raises on a network the builder returns: every month of
  \<open>layer_network_list\<close> gets its map, in that order, so line 84 of sample.py cannot fail.
\<close>

theorem draw_maps_total:
  assumes "build_network rows routes = Inr net"
  shows "\<exists>maps. draw_maps net x = Inr maps \<and> map fst maps = layer_network_list"
  using draw_maps_built [OF assms, of x] by (simp add: build_maps_def comp_def)

text \<open>
  C20. The lines of a drawn map are exactly the edges of the graph that carried some
  product, each from the position of its source to the position of its target.
\<close>

theorem drawn_lines:
  assumes "draw_month g = Inr es"
  shows "PolyLine p q \<in> set es \<longleftrightarrow>
     (\<exists>u v attrs. ((u, v), attrs) \<in> set (graph_edges g) \<and> \<not> list_all (\<lambda>(p, v). v = 0) attrs
        \<and> pos_of g u = Inr p \<and> pos_of g v = Inr q)"
proof -
  from assms obtain ls ms where
      ls: "sequence_err (map (edge_line g) (drawn_edges (nx_edges g))) = Inr ls" and
      ms: "sequence_err (map (node_marks g) (nx_nodes g)) = Inr ms" and es: "es = ls @ concat ms"
    by (auto simp: draw_month_Inr)
  have "PolyLine p q \<notin> set (concat ms)"
    using sequence_err_set [OF ms] by (auto simp: node_marks_Inr)
  moreover have "PolyLine p q \<in> set ls \<longleftrightarrow>
     (\<exists>u v attrs. ((u, v), attrs) \<in> set (graph_edges g) \<and> \<not> list_all (\<lambda>(p, v). v = 0) attrs
        \<and> pos_of g u = Inr p \<and> pos_of g v = Inr q)" (is "_ \<longleftrightarrow> ?drawn")
  proof
    assume "PolyLine p q \<in> set ls"
    then obtain u v a where m: "((u, v), a) \<in> set (graph_edges g)" "\<not> list_all (\<lambda>(p, v). v = 0) a"
        and l: "edge_line g ((u, v), a) = Inr (PolyLine p q)"
      by (auto simp: sequence_err_set [OF ls] set_drawn_nx_edges)
    from l have "pos_of g u = Inr p" and "pos_of g v = Inr q" by (auto simp: edge_line_Inr)
    with m show ?drawn by blast
  next
    assume ?drawn
    then obtain u v a where "((u, v), a) \<in> set (graph_edges g)" "\<not> list_all (\<lambda>(p, v). v = 0) a"
        "pos_of g u = Inr p" "pos_of g v = Inr q" by blast
    then show "PolyLine p q \<in> set ls"
      unfolding sequence_err_set [OF ls] by (intro bexI [of _ "((u, v), a)"]) (auto simp: set_drawn_nx_edges edge_line_Inr)
  qed
  ultimately show ?thesis by (simp add: es)
qed

text \<open>
  C21. In a network the builder returns, the labels on the map of month \<open>m\<close> are those of
  the locations with a node in that month, at the node's position, showing the name
  less its last character in a box ten pixels per character wide.
\<close>

theorem drawn_labels:
  assumes "build_network rows routes = Inr net" and "draw_month (month_graph net x m) = Inr es"
  shows "LabelMarker p d sz s \<in> set es \<longleftrightarrow>
     (\<exists>n\<in>set (node_list net). node_month n = m \<and> node_name n = s)
     \<and> pos_of (month_graph net x m) s = Inr p \<and> d = py_drop_last s \<and> sz = (10 * py_len d, 12)"
proof -
  let ?g = "month_graph net x m"
  from assms(2) obtain ls ms where
      ls: "sequence_err (map (edge_line ?g) (drawn_edges (nx_edges ?g))) = Inr ls" and
      ms: "sequence_err (map (node_marks ?g) (nx_nodes ?g)) = Inr ms" and es: "es = ls @ concat ms"
    by (auto simp: draw_month_Inr)
  have "LabelMarker p d sz s \<notin> set ls"
    using sequence_err_set [OF ls] by (auto dest: edge_line_kind)
  moreover have "LabelMarker p d sz s \<in> set (concat ms) \<longleftrightarrow>
      s \<in> set (nx_nodes ?g) \<and> pos_of ?g s = Inr p \<and> d = py_drop_last s \<and> sz = (10 * py_len d, 12)"
      (is "_ \<longleftrightarrow> ?mark")
  proof
    assume "LabelMarker p d sz s \<in> set (concat ms)"
    then obtain y where y: "y \<in> set ms" "LabelMarker p d sz s \<in> set y" by auto
    from y(1) obtain z where "z \<in> set (nx_nodes ?g)" "node_marks ?g z = Inr y"
      by (auto simp: sequence_err_set [OF ms])
    with y(2) show ?mark by (auto simp: node_marks_Inr)
  next
    assume r: ?mark
    then have "node_marks ?g s = Inr [CircleMarker p s, LabelMarker p d sz s]" by (simp add: node_marks_Inr)
    with r have "[CircleMarker p s, LabelMarker p d sz s] \<in> set ms" by (auto simp: sequence_err_set [OF ms])
    then show "LabelMarker p d sz s \<in> set (concat ms)" by force
  qed
  moreover have "s \<in> set (nx_nodes ?g) \<longleftrightarrow> s \<in> fst ` set (graph_nodes ?g)"
    by (simp add: built_nx_nodes [OF assms(1)])
  moreover have "s \<in> fst ` set (graph_nodes ?g) \<longleftrightarrow> (\<exists>n\<in>set (node_list net). node_month n = m \<and> node_name n = s)"
    unfolding month_graph_node_keys by blast
  ultimately show ?thesis by (simp add: es)
qed

text \<open>
  C25. The drawing raises KeyError on a graph with an edge that carried something and
  whose source or target is not a node with a position: the guard C17 and C19 rely on
  (routes stay in their month) is necessary.
\<close>

theorem dangling_edge_key_error:
  assumes "((u, v), attrs) \<in> set (graph_edges g)" and "\<not> list_all (\<lambda>(p, v). v = 0) attrs"
    and "u \<notin> fst ` set (graph_nodes g) \<or> v \<notin> fst ` set (graph_nodes g)"
  shows "draw_month g = Inl KeyError"
proof -
  let ?L = "map (edge_line g) (drawn_edges (nx_edges g))"
  have mem: "((u, v), attrs) \<in> set (drawn_edges (nx_edges g))"
    using assms(1,2) by (simp add: set_drawn_nx_edges)
  have "edge_line g ((u, v), attrs) = Inl KeyError"
    using assms(3) by (auto simp: edge_line_def pos_of_missing bind_err_def dest: pos_of_Inl split: sum.splits)
  with mem have "Inl KeyError \<in> set ?L" by force
  moreover have "\<forall>e. Inl e \<in> set ?L \<longrightarrow> e = KeyError" by (auto dest: sym [THEN edge_line_Inl])
  ultimately have "sequence_err ?L = Inl KeyError" by (rule sequence_err_Inl)
  then show ?thesis by (simp add: draw_month_def)
qed

end
