(* ===== verification/WebFrontEnd.thy ===== *)
theory WebFrontEnd
  imports Results Conversion Drawing
begin

text \<open>
  The Flask front end (src/sample.py): the POST branch of \<open>show\<close> runs \<open>optimize\<close>,
  unpacks its result, groups the realised production and wet-storage flows by
  (month, location) of the edge's source node, and stores them in the process-wide
  cache \<open>GLOBAL_CACHE\<close> together with the maps \<open>build_maps\<close> draws (which may raise)
  and the first month as the active one; the GET branch reads the cache back, the
  month of the request replacing the active month when given. The HTML of the maps and
  of the page is not modelled: the cache holds the elements each map draws. The two views the page
  shows of one plan agree: a node's production attributes on the map are the role
  totals of its group (\<open>map_matches_groups\<close>).
\<close>

section \<open>Grouping of realised flows\<close>

type_synonym group_key = "month \<times> string"

type_synonym groups = "(group_key \<times> (task \<times> int) list) list"

text \<open>\<open>d.setdefault(k, [])\<close>: a missing key is added at the end with the default.\<close>

definition py_setdefault :: "'k \<Rightarrow> 'v \<Rightarrow> ('k \<times> 'v) list \<Rightarrow> ('k \<times> 'v) list" where
  "py_setdefault k d al = (if map_of al k = None then al @ [(k, d)] else al)"

text \<open>
  The loop shared by lines 33--55 and 59--81: for each edge, the key of its source node
  is set to a list if missing, then every reported minus flow is appended to that list
  as the pair (function of the edge, value).
\<close>

definition group_flows ::
  "(nat \<times> 'e) list \<Rightarrow> ('e \<Rightarrow> group_key) \<Rightarrow> ('e \<Rightarrow> task) \<Rightarrow> (nat \<Rightarrow> product \<Rightarrow> sign \<Rightarrow> int) \<Rightarrow> groups" where
  "group_flows ies key fn val =
     fold (\<lambda>(i, e) acc.
        fold (\<lambda>p acc. fold (\<lambda>s acc.
            if s = SignMinus \<and> reported (val i p s)
            then AList.map_entry (key e) (\<lambda>l. l @ [(fn e, val i p s)]) acc else acc)
          sign_list acc) num_product_list (py_setdefault (key e) [] acc))
       ies []"

text \<open>Lines 32--55: production flows, keyed by (month, name) of the source node.\<close>

definition production_groups :: "network \<Rightarrow> assignment \<Rightarrow> groups" where
  "production_groups net x =
     group_flows (enumerate 0 (production_list net)) (\<lambda>e. (node_month (pe_source e), node_name (pe_source e)))
       pe_function (\<lambda>i p s. x (Flow ProductionKind i p s))"

text \<open>Lines 58--81: wet-storage flows; a storage edge's function is the wet-storage role.\<close>

definition storage_groups :: "network \<Rightarrow> assignment \<Rightarrow> groups" where
  "storage_groups net x =
     group_flows (enumerate 0 (storage_list net)) (\<lambda>e. (node_month (se_source e), node_name (se_source e)))
       (\<lambda>_. WetStorage) (\<lambda>i p s. x (Flow StorageKind i p s))"

text \<open>The entries one edge contributes, in the order of the loops: the reference for the grouping.\<close>

definition edge_entries :: "(nat \<Rightarrow> product \<Rightarrow> sign \<Rightarrow> int) \<Rightarrow> task \<Rightarrow> nat \<Rightarrow> (task \<times> int) list" where
  "edge_entries val f i =
     concat (map (\<lambda>p. concat (map (\<lambda>s. if s = SignMinus \<and> reported (val i p s) then [(f, val i p s)] else [])
       sign_list)) num_product_list)"

section \<open>The cache and the two branches of \<open>show\<close>\<close>

text \<open>Lines 10--16: the process-wide cache; each month's map is held as the elements it draws.\<close>

record web_cache =
  cache_maps :: "(month \<times> map_element list) list option"
  cache_node_list :: "node list option"
  cache_active :: "month option"
  cache_production :: "groups option"
  cache_storage :: "groups option"

definition empty_cache :: web_cache where
  "empty_cache = \<lparr>cache_maps = None, cache_node_list = None, cache_active = None,
     cache_production = None, cache_storage = None\<rparr>"

text \<open>
  Lines 24--90: unpacking the result of \<open>optimize\<close> raises TypeError when it is
  \<open>None\<close>; otherwise the groups and the maps are computed (line 84, where drawing
  may raise) and the cache is overwritten, the first month of the maps becoming the
  active month (line 92).
\<close>

definition show_post :: "solver \<Rightarrow> facility_row list \<Rightarrow> route_row list \<Rightarrow> web_cache \<Rightarrow> error + web_cache" where
  "show_post solve rows routes c =
     bind_err (optimize solve rows routes) (\<lambda>r.
       case r of
         None \<Rightarrow> Inl TypeError
       | Some (net, m, x) \<Rightarrow>
           (let pg = production_groups net x; sg = storage_groups net x in
            bind_err (draw_maps net x) (\<lambda>maps.
            Inr (c\<lparr>cache_maps := Some maps, cache_node_list := Some (node_list net),
                   cache_production := Some pg, cache_storage := Some sg,
                   cache_active := Some (fst (hd maps))\<rparr>))))"

datatype response =
    Redirect
  | ServerError error
  | Page "(month \<times> map_element list) list option" "node list" groups groups "month option"

text \<open>
  Flask: an exception in the handler answers with a server error and leaves the cache
  as it was (the cache is written only after every step succeeded); success redirects.
\<close>

definition handle_post :: "solver \<Rightarrow> facility_row list \<Rightarrow> route_row list \<Rightarrow> web_cache \<Rightarrow> response \<times> web_cache" where
  "handle_post solve rows routes c =
     (case show_post solve rows routes c of Inl e \<Rightarrow> (ServerError e, c) | Inr c' \<Rightarrow> (Redirect, c'))"

text \<open>
  Lines 96--110: the GET branch reads the cache, \<open>x or []\<close> for what is missing; the
  \<open>month\<close> parameter of the request, when present, is the active month.
\<close>

definition show_get :: "web_cache \<Rightarrow> month option \<Rightarrow> response" where
  "show_get c req =
     Page (cache_maps c)
          (case cache_node_list c of None \<Rightarrow> [] | Some ns \<Rightarrow> ns)
          (case cache_production c of None \<Rightarrow> [] | Some g \<Rightarrow> g)
          (case cache_storage c of None \<Rightarrow> [] | Some g \<Rightarrow> g)
          (case req of Some m \<Rightarrow> Some m | None \<Rightarrow> cache_active c)"

section \<open>Lemmas\<close>

lemma map_entry_map_entry:
  "AList.map_entry k f (AList.map_entry k g al) = AList.map_entry k (f \<circ> g) al"
  by (induction al) auto

lemma map_entry_id: "AList.map_entry k id al = al"
  by (induction al) auto

lemma fold_map_entry_append:
  "fold (\<lambda>y acc. if P y then AList.map_entry k (\<lambda>l. l @ [g y]) acc else acc) ys al
     = AList.map_entry k (\<lambda>l. l @ concat (map (\<lambda>y. if P y then [g y] else []) ys)) al"
proof (induction ys arbitrary: al)
  case Nil
  show ?case by (simp add: map_entry_id [unfolded id_def])
next
  case (Cons y ys)
  show ?case by (simp add: Cons.IH map_entry_map_entry o_def)
qed

lemma fold_nested_product:
  "fold (\<lambda>p. fold (g p) ys) xs = fold (\<lambda>(p, s). g p s) (List.product xs ys)"
  by (induction xs) (simp_all add: fold_map o_def)

lemma concat_map_product:
  "concat (map F (List.product xs ys)) = concat (map (\<lambda>x. concat (map (\<lambda>y. F (x, y)) ys)) xs)"
  by (induction xs) (simp_all add: o_def)

lemma edge_loop:
  "fold (\<lambda>p acc. fold (\<lambda>s acc.
       if s = SignMinus \<and> reported (val i p s) then AList.map_entry k (\<lambda>l. l @ [(f, val i p s)]) acc else acc)
     sign_list acc) num_product_list al
   = AList.map_entry k (\<lambda>l. l @ edge_entries val f i) al"
proof -
  have "fold (\<lambda>p acc. fold (\<lambda>s acc.
       if s = SignMinus \<and> reported (val i p s) then AList.map_entry k (\<lambda>l. l @ [(f, val i p s)]) acc else acc)
     sign_list acc) num_product_list al
    = fold (\<lambda>y acc. if snd y = SignMinus \<and> reported (val i (fst y) (snd y))
         then AList.map_entry k (\<lambda>l. l @ [(f, val i (fst y) (snd y))]) acc else acc)
       (List.product num_product_list sign_list) al"
    by (simp add: fold_nested_product split_def)
  also have "\<dots> = AList.map_entry k (\<lambda>l. l @ edge_entries val f i) al"
    by (simp add: fold_map_entry_append edge_entries_def concat_map_product cong: if_cong)
  finally show ?thesis .
qed

lemma group_flows_fold:
  "group_flows ies key fn val =
     fold (\<lambda>(i, e) acc. AList.map_entry (key e) (\<lambda>l. l @ edge_entries val (fn e) i) (py_setdefault (key e) [] acc)) ies []"
  unfolding group_flows_def by (simp only: edge_loop)

lemma map_of_py_setdefault:
  "map_of (py_setdefault k d al) = (case map_of al k of None \<Rightarrow> (map_of al)(k \<mapsto> d) | Some _ \<Rightarrow> map_of al)"
  by (auto simp: py_setdefault_def map_add_def fun_eq_iff split: option.splits)

lemma distinct_py_setdefault:
  "distinct (map fst al) \<Longrightarrow> distinct (map fst (py_setdefault k d al))"
  by (auto simp: py_setdefault_def dest: weak_map_of_SomeI)

abbreviation group_of ::
  "(nat \<times> 'e) list \<Rightarrow> ('e \<Rightarrow> group_key) \<Rightarrow> ('e \<Rightarrow> task) \<Rightarrow> (nat \<Rightarrow> product \<Rightarrow> sign \<Rightarrow> int) \<Rightarrow> group_key \<Rightarrow> (task \<times> int) list" where
  "group_of ies key fn val k \<equiv> concat (map (\<lambda>(i, e). edge_entries val (fn e) i) (filter (\<lambda>(i, e). key e = k) ies))"

lemma group_step:
  assumes "distinct (map fst acc)"
  shows "distinct (map fst (fold (\<lambda>(i, e) acc. AList.map_entry (key e) (\<lambda>l. l @ edge_entries val (fn e) i)
                    (py_setdefault (key e) [] acc)) ies acc))
    \<and> (\<forall>k. map_of (fold (\<lambda>(i, e) acc. AList.map_entry (key e) (\<lambda>l. l @ edge_entries val (fn e) i)
                    (py_setdefault (key e) [] acc)) ies acc) k
         = (case map_of acc k of
              Some l \<Rightarrow> Some (l @ group_of ies key fn val k)
            | None \<Rightarrow> if k \<in> key ` snd ` set ies then Some (group_of ies key fn val k) else None))"
  using assms
proof (induction ies arbitrary: acc)
  case Nil
  then show ?case by (simp split: option.splits)
next
  case (Cons ie ies)
  obtain i e where ie: "ie = (i, e)" by (cases ie)
  let ?acc1 = "AList.map_entry (key e) (\<lambda>l. l @ edge_entries val (fn e) i) (py_setdefault (key e) [] acc)"
  have d1: "distinct (map fst ?acc1)"
    using Cons.prems by (intro distinct_map_entry distinct_py_setdefault)
  have m1: "map_of ?acc1 k' = (if k' = key e then Some (case map_of acc k' of None \<Rightarrow> edge_entries val (fn e) i
                | Some l \<Rightarrow> l @ edge_entries val (fn e) i) else map_of acc k')" for k'
    by (simp add: map_of_map_entry map_of_py_setdefault split: option.splits)
  from Cons.IH [OF d1] m1 show ?case
    by (auto simp: ie split: option.splits if_splits)
qed

lemma map_of_group_flows:
  "map_of (group_flows ies key fn val) k
     = (if k \<in> key ` snd ` set ies then Some (group_of ies key fn val k) else None)"
proof -
  have "\<forall>k. map_of (fold (\<lambda>(i, e) acc. AList.map_entry (key e) (\<lambda>l. l @ edge_entries val (fn e) i)
                    (py_setdefault (key e) [] acc)) ies []) k
         = (case map_of [] k of
              Some l \<Rightarrow> Some (l @ group_of ies key fn val k)
            | None \<Rightarrow> if k \<in> key ` snd ` set ies then Some (group_of ies key fn val k) else None)"
    using group_step [of "[]" key val fn ies] by (rule conjunct2) simp
  then show ?thesis unfolding group_flows_fold map_of.simps option.case by (rule spec)
qed

lemma distinct_group_flows: "distinct (map fst (group_flows ies key fn val))"
  using group_step [of "[]" key val fn ies] by (simp add: group_flows_fold)

lemma reported_iff [simp]: "reported v \<longleftrightarrow> 0 < v"
proof
  assume "reported v"
  then have "(1 / 10 :: rat) \<le> of_int v" by (simp add: reported_def)
  then have "(0::rat) < of_int v" by linarith
  then show "0 < v" by simp
next
  assume "0 < v"
  then have "(1::rat) \<le> of_int v" by simp
  then show "reported v" by (simp add: reported_def)
qed

lemma table_minus_zero:
  assumes "table_holds t c fl" and "\<forall>p s. 0 \<le> fl p s"
    and "cost_mapping t = Some q" and "p \<noteq> q"
  shows "fl p SignMinus = 0"
proof -
  have "fl p SignMinus \<le> table_bound t c p SignMinus"
    using assms(1) by (simp add: table_holds_def list_all_iff num_product_list_def sign_list_def)
      (cases p; simp)
  moreover have "table_bound t c p SignMinus = 0"
    using assms(3,4) by (cases t; cases p) (simp_all add: table_bound_def bounded_pairs_def cost_mapping_def)
  ultimately show ?thesis using assms(2) by (metis order_antisym)
qed

lemma production_edge_entries:
  assumes bm: "build_model net = Inr m" and fe: "feasible m x" and i: "i < length (production_list net)"
    and q: "cost_mapping (pe_function (production_list net ! i)) = Some q"
  shows "edge_entries (\<lambda>i p s. x (Flow ProductionKind i p s)) (pe_function (production_list net ! i)) i
     = (if 0 < x (Flow ProductionKind i q SignMinus)
        then [(pe_function (production_list net ! i), x (Flow ProductionKind i q SignMinus))] else [])"
proof -
  let ?e = "production_list net ! i"
  have nn: "\<forall>p s. 0 \<le> x (Flow ProductionKind i p s)" using feasible_flow_nonneg(2) [OF bm fe i] by blast
  from feasible_production_edge [OF bm fe i] edge_code_table_iff [OF nn]
  have tab: "table_holds (pe_function ?e) (pe_capacity ?e) (\<lambda>p s. x (Flow ProductionKind i p s))" by simp
  have z: "p \<noteq> q \<Longrightarrow> x (Flow ProductionKind i p SignMinus) = 0" for p
    using table_minus_zero [OF tab _ q, of p] nn by simp
  show ?thesis
    using q z by (cases "pe_function ?e")
      (simp_all add: edge_entries_def num_product_list_def sign_list_def cost_mapping_def)
qed

lemma show_post_Some:
  assumes "optimize solve rows routes = Inr (Some (net, m, x))"
  shows "\<exists>maps. draw_maps net x = Inr maps \<and> map fst maps = layer_network_list
     \<and> show_post solve rows routes c = Inr (c\<lparr>cache_maps := Some maps,
            cache_node_list := Some (node_list net),
            cache_production := Some (production_groups net x), cache_storage := Some (storage_groups net x),
            cache_active := Some (Month 11)\<rparr>)"
proof -
  from draw_maps_built [OF conjunct1 [OF optimize_Some [OF assms]], of x] obtain maps where
      d: "draw_maps net x = Inr maps" and k: "map fst maps = layer_network_list"
    by (auto simp: build_maps_def comp_def)
  from k have "fst (hd maps) = Month 11" by (cases maps) (auto simp: layer_network_list_def)
  with d k assms show ?thesis by (simp add: show_post_def Let_def)
qed

lemma snd_set_enumerate [simp]: "snd ` set (enumerate n xs) = set xs"
  by (metis list.set_map map_snd_enumerate)

lemma edge_entries_fn: "(f', v) \<in> set (edge_entries val f i) \<Longrightarrow> f' = f"
  by (auto simp: edge_entries_def split: if_splits)

lemma selected_entries_sum:
  assumes bm: "build_model net = Inr m" and fe: "feasible m x"
    and ie: "(i, e) \<in> set (enumerate 0 (production_list net))"
    and sel: "\<And>t. sel t \<Longrightarrow> cost_mapping t = Some q"
  shows "sum_list (map snd (filter (\<lambda>(t, v). sel t)
           (edge_entries (\<lambda>i p s. x (Flow ProductionKind i p s)) (pe_function e) i)))
         = (if sel (pe_function e) then x (Flow ProductionKind i q SignMinus) else 0)"
proof -
  from ie have i: "i < length (production_list net)" and e: "production_list net ! i = e"
    by (auto simp: in_set_enumerate_eq)
  show ?thesis
  proof (cases "sel (pe_function e)")
    case True
    have nn: "0 \<le> x (Flow ProductionKind i q SignMinus)"
      using feasible_flow_nonneg(2) [OF bm fe i] by blast
    from production_edge_entries [OF bm fe i] sel [OF True] e True nn show ?thesis by auto
  next
    case False
    have "filter (\<lambda>(t, v). sel t) (edge_entries (\<lambda>i p s. x (Flow ProductionKind i p s)) (pe_function e) i) = []"
      using False by (auto simp: filter_empty_conv dest: edge_entries_fn)
    with False show ?thesis by simp
  qed
qed

lemma concat_selected_sum:
  assumes bm: "build_model net = Inr m" and fe: "feasible m x"
    and L: "set L \<subseteq> set (enumerate 0 (production_list net))"
    and sel: "\<And>t. sel t \<Longrightarrow> cost_mapping t = Some q"
  shows "sum_list (map snd (filter (\<lambda>(t, v). sel t)
           (concat (map (\<lambda>(i, e). edge_entries (\<lambda>i p s. x (Flow ProductionKind i p s)) (pe_function e) i) L))))
         = (\<Sum>(i, e)\<leftarrow>L. if sel (pe_function e) then x (Flow ProductionKind i q SignMinus) else 0)"
  using L
proof (induction L)
  case Nil
  then show ?case by simp
next
  case (Cons ie L)
  obtain i e where ie: "ie = (i, e)" by (cases ie)
  from Cons.prems have mem: "(i, e) \<in> set (enumerate 0 (production_list net))" by (simp add: ie)
  from Cons.IH Cons.prems selected_entries_sum [OF bm fe mem sel] show ?case by (simp add: ie)
qed

lemma map_matches_groups:
  assumes bm: "build_model net = Inr m" and fe: "feasible m x"
    and sel: "\<And>t. sel t \<Longrightarrow> cost_mapping t = Some q"
  shows "prod_out_sum net x n sel q
    = sum_list (map snd (filter (\<lambda>(t, v). sel t)
        (case map_of (production_groups net x) (node_month n, node_name n) of None \<Rightarrow> [] | Some l \<Rightarrow> l)))"
proof -
  let ?k = "(node_month n, node_name n)" and ?pl = "production_list net"
  let ?key = "\<lambda>e. (node_month (pe_source e), node_name (pe_source e))"
  have idk: "node_id (pe_source e) = node_id n \<longleftrightarrow> ?key e = ?k" for e by (auto simp: node_id_def)
  have "prod_out_sum net x n sel q
      = (\<Sum>(i, e)\<leftarrow>filter (\<lambda>(i, e). ?key e = ?k) (enumerate 0 ?pl).
           if sel (pe_function e) then x (Flow ProductionKind i q SignMinus) else 0)"
    unfolding prod_out_sum_def idk sum_list_map_filter'
    by (intro arg_cong [where f = sum_list] map_cong refl) (auto simp: split_def)
  also have "\<dots> = sum_list (map snd (filter (\<lambda>(t, v). sel t)
        (concat (map (\<lambda>(i, e). edge_entries (\<lambda>i p s. x (Flow ProductionKind i p s)) (pe_function e) i)
           (filter (\<lambda>(i, e). ?key e = ?k) (enumerate 0 ?pl))))))"
    by (rule concat_selected_sum [OF bm fe _ sel, symmetric]) auto
  also have "\<dots> = sum_list (map snd (filter (\<lambda>(t, v). sel t)
        (case map_of (production_groups net x) ?k of None \<Rightarrow> [] | Some l \<Rightarrow> l)))"
  proof (cases "?k \<in> ?key ` set ?pl")
    case True
    then show ?thesis by (simp add: production_groups_def map_of_group_flows)
  next
    case False
    have "filter (\<lambda>(i, e). ?key e = ?k) (enumerate 0 ?pl) = []"
    proof (rule filter_False, rule ballI)
      fix ie assume ie: "ie \<in> set (enumerate 0 ?pl)"
      obtain i e where p: "ie = (i, e)" by (cases ie)
      from ie p have "i < length ?pl" and "?pl ! i = e" by (auto simp: in_set_enumerate_eq)
      then have "e \<in> set ?pl" by (metis nth_mem)
      then have "?key e \<in> ?key ` set ?pl" by (rule imageI)
      with False show "\<not> (case ie of (i, e) \<Rightarrow> ?key e = ?k)" by (auto simp: p)
    qed
    with False show ?thesis by (simp add: production_groups_def map_of_group_flows)
  qed
  finally show ?thesis .
qed

section \<open>Properties\<close>

text \<open>
  C8. The grouping of sample.py refines a group-by: for every (month, location) key the
  cached production results hold the key exactly when some production edge starts at
  that node, and then the entries of those edges, edge after edge in the order of the
  production list, each edge's entries being its reported minus flows in product order.
\<close>

theorem production_groups_lookup:
  "map_of (production_groups net x) k =
     (if k \<in> (\<lambda>e. (node_month (pe_source e), node_name (pe_source e))) ` set (production_list net)
      then Some (concat (map (\<lambda>(i, e). edge_entries (\<lambda>i p s. x (Flow ProductionKind i p s)) (pe_function e) i)
                 (filter (\<lambda>(i, e). (node_month (pe_source e), node_name (pe_source e)) = k)
                    (enumerate 0 (production_list net)))))
      else None)"
  by (simp add: production_groups_def map_of_group_flows)

text \<open>
  C9. What the front end reports for a production edge of a feasible plan is exactly the
  edge's output: the pair (role, produced quantity) when the role's product leaves the
  edge in a positive quantity, nothing otherwise; no input and no other product appears.
\<close>

theorem reported_production:
  assumes "build_model net = Inr m" and "feasible m x" and "i < length (production_list net)"
    and "cost_mapping (pe_function (production_list net ! i)) = Some q"
  shows "edge_entries (\<lambda>i p s. x (Flow ProductionKind i p s)) (pe_function (production_list net ! i)) i
     = (if 0 < x (Flow ProductionKind i q SignMinus)
        then [(pe_function (production_list net ! i), x (Flow ProductionKind i q SignMinus))] else [])"
  using production_edge_entries [OF assms] .

text \<open>
  C10. When the solver does not report an optimum, \<open>optimize\<close> returns \<open>None\<close> and the
  POST handler fails unpacking it: the request ends in a server error (TypeError) and the
  cache keeps its previous content, instead of an infeasibility message.
\<close>

theorem post_not_optimal_type_error:
  assumes "build_network rows routes = Inr net" and "build_model net = Inr m"
    and "solve m = (NotOptimal, y)"
  shows "handle_post solve rows routes c = (ServerError TypeError, c)"
  using assms by (simp add: handle_post_def show_post_def optimize_def)

text \<open>
  C11. Round trip through the cache: after a POST whose optimisation succeeds, which
  then always redirects, a GET without a month shows the drawn maps of that plan, the
  node list, and the production and storage groups of that plan, with November, the
  first month of the horizon, active.
\<close>

theorem post_get_roundtrip:
  assumes "optimize solve rows routes = Inr (Some (net, m, x))"
  shows "\<exists>c' maps. handle_post solve rows routes c = (Redirect, c') \<and> draw_maps net x = Inr maps
     \<and> show_get c' None = Page (Some maps) (node_list net) (production_groups net x)
                                (storage_groups net x) (Some (Month 11))"
  using show_post_Some [OF assms, of c] by (auto simp: handle_post_def show_get_def)

text \<open>
  C16. The map and the results table agree: for a feasible plan, the foundation output,
  turbine assembly and turbine installation that \<open>build_maps\<close> writes on a node equal
  the totals of the same roles in the production results the front end caches under
  the node's (month, location) key, an absent key counting as no output.
\<close>

theorem map_node_matches_results:
  assumes "build_model net = Inr m" and "feasible m x"
  shows "let l = (case map_of (production_groups net x) (node_month n, node_name n) of None \<Rightarrow> [] | Some l \<Rightarrow> l) in
     nv_foundations (node_view net x n)
       = sum_list (map snd (filter (\<lambda>(t, v). t = FoundationFab \<or> t = FoundationFabAtSea) l))
     \<and> nv_assembled (node_view net x n) = sum_list (map snd (filter (\<lambda>(t, v). t = TurbineAssembly) l))
     \<and> nv_installed (node_view net x n) = sum_list (map snd (filter (\<lambda>(t, v). t = TurbineInstall) l))"
proof -
  have f: "prod_out_sum net x n (\<lambda>t. t = FoundationFab \<or> t = FoundationFabAtSea) Foundation
      = sum_list (map snd (filter (\<lambda>(t, v). t = FoundationFab \<or> t = FoundationFabAtSea)
          (case map_of (production_groups net x) (node_month n, node_name n) of None \<Rightarrow> [] | Some l \<Rightarrow> l)))"
    by (rule map_matches_groups [OF assms]) (auto simp: cost_mapping_def)
  have a: "prod_out_sum net x n (\<lambda>t. t = TurbineAssembly) Turbine
      = sum_list (map snd (filter (\<lambda>(t, v). t = TurbineAssembly)
          (case map_of (production_groups net x) (node_month n, node_name n) of None \<Rightarrow> [] | Some l \<Rightarrow> l)))"
    by (rule map_matches_groups [OF assms]) (auto simp: cost_mapping_def)
  have i: "prod_out_sum net x n (\<lambda>t. t = TurbineInstall) TurbineInstalled
      = sum_list (map snd (filter (\<lambda>(t, v). t = TurbineInstall)
          (case map_of (production_groups net x) (node_month n, node_name n) of None \<Rightarrow> [] | Some l \<Rightarrow> l)))"
    by (rule map_matches_groups [OF assms]) (auto simp: cost_mapping_def)
  from f a i show ?thesis by (simp add: node_view_def Let_def)
qed

end
