(* ===== verification/WebSession.thy ===== *)
theory WebSession
  imports WebFrontEnd
begin

text \<open>
  The Flask application of src/sample.py answering requests that do not overlap: its
  state is the process-wide cache, its events are the requests of the two routes
  (lines 18--110), each handled to the end before the next starts, as when one user
  clicks through the pages. \<open>handle\<close> is one request, \<open>serve\<close> a sequence of them with
  the replies in order. The server of line 113 runs requests in threads of their own;
  theory WebThreads models that, and shows that \<open>serve\<close> is one of its schedules.
\<close>

section \<open>Requests and replies\<close>

datatype request =
    IndexRequest
  | ShowGet "month option"
  | ShowPost "facility_row list" "route_row list"

datatype reply = IndexPage | ShowReply response

text \<open>Lines 18--20 (\<open>index\<close>) and 22--110 (\<open>show\<close>, by request method).\<close>

fun handle :: "solver \<Rightarrow> web_cache \<Rightarrow> request \<Rightarrow> reply \<times> web_cache" where
  "handle solve c IndexRequest = (IndexPage, c)"
| "handle solve c (ShowGet q) = (ShowReply (show_get c q), c)"
| "handle solve c (ShowPost rows routes) =
     (case handle_post solve rows routes c of (r, c') \<Rightarrow> (ShowReply r, c'))"

text \<open>A sequence of requests, served one after the other from a cache.\<close>

fun serve :: "solver \<Rightarrow> web_cache \<Rightarrow> request list \<Rightarrow> reply list \<times> web_cache" where
  "serve solve c [] = ([], c)"
| "serve solve c (rq # rqs) =
     (case handle solve c rq of (r, c1) \<Rightarrow> (case serve solve c1 rqs of (rs, c2) \<Rightarrow> (r # rs, c2)))"

section \<open>Properties\<close>

text \<open>
  C26. A POST whose tables the builder rejects answers with a server error carrying the
  builder's exception and leaves the cache alone, so the next GET shows the page the
  previous cache gives: the order POST, GET serves the old plan after a failed upload.
\<close>

theorem failed_post_keeps_page:
  assumes "build_network rows routes = Inl e"
  shows "serve solve c [ShowPost rows routes, ShowGet q] = ([ShowReply (ServerError e), ShowReply (show_get c q)], c)"
  using assms by (simp add: handle_post_def show_post_def optimize_def)

end
