(* ===== verification/WebThreads.thy ===== *)
theory WebThreads
  imports WebSession
begin

text \<open>
  The Flask application as it runs: \<open>app.run(debug=True, port=8000)\<close> (src/sample.py,
  line 113) serves every request in a thread of its own, and the handlers share
  \<open>GLOBAL_CACHE\<close> without a lock. A POST computes its results in local variables
  (lines 26--84, no shared state) and then stores them one dictionary assignment at a
  time (lines 87--92); a GET reads the five entries one at a time (lines 96--100) and
  renders what it read. Each assignment and each read is atomic (the interpreter lock),
  and nothing orders the steps of different threads. \<open>app_step\<close> is one such step of one
  thread, \<open>app_reach\<close> the states some interleaving produces. The sequential model of
  WebSession (\<open>serve\<close>) is one schedule of this one; under the others each field the
  cache shows comes from some upload, but different fields may come from different
  uploads.
\<close>

section \<open>Cache writes and reads\<close>

text \<open>The assignments of lines 87--92.\<close>

datatype cache_write =
    SetMaps "(month \<times> map_element list) list"
  | SetNodes "node list"
  | SetProd groups
  | SetStor groups
  | SetActive month

fun apply_write :: "cache_write \<Rightarrow> web_cache \<Rightarrow> web_cache" where
  "apply_write (SetMaps maps) c = c\<lparr>cache_maps := Some maps\<rparr>"
| "apply_write (SetNodes ns) c = c\<lparr>cache_node_list := Some ns\<rparr>"
| "apply_write (SetProd g) c = c\<lparr>cache_production := Some g\<rparr>"
| "apply_write (SetStor g) c = c\<lparr>cache_storage := Some g\<rparr>"
| "apply_write (SetActive m) c = c\<lparr>cache_active := Some m\<rparr>"

text \<open>
  Lines 24--92 of a POST: the computation of \<open>show_post\<close>, ending either in the
  exception it raises or in the five writes, in the order of lines 87--92.
\<close>

definition post_writes :: "solver \<Rightarrow> facility_row list \<Rightarrow> route_row list \<Rightarrow> error + cache_write list" where
  "post_writes solve rows routes =
     bind_err (optimize solve rows routes) (\<lambda>r.
       case r of
         None \<Rightarrow> Inl TypeError
       | Some (net, m, x) \<Rightarrow>
           (let pg = production_groups net x; sg = storage_groups net x in
            bind_err (draw_maps net x) (\<lambda>maps.
            Inr [SetMaps maps, SetNodes (node_list net), SetProd pg, SetStor sg, SetActive (fst (hd maps))])))"

text \<open>Lines 96--100: the \<open>k\<close>-th read of a GET copies one entry of the cache into its locals.\<close>

definition read_field :: "nat \<Rightarrow> web_cache \<Rightarrow> web_cache \<Rightarrow> web_cache" where
  "read_field k c snap =
     (if k = 0 then snap\<lparr>cache_maps := cache_maps c\<rparr>
      else if k = 1 then snap\<lparr>cache_node_list := cache_node_list c\<rparr>
      else if k = 2 then snap\<lparr>cache_production := cache_production c\<rparr>
      else if k = 3 then snap\<lparr>cache_storage := cache_storage c\<rparr>
      else snap\<lparr>cache_active := cache_active c\<rparr>)"

section \<open>Threads and steps\<close>

text \<open>
  A request thread: a POST with the writes it has still to do, a GET with its query,
  the number of entries read and the values read so far, or a finished thread.
\<close>

datatype thread = PostT "cache_write list" | GetT "month option" nat web_cache | Done

record app_state =
  app_cache :: web_cache
  app_threads :: "thread list"
  app_replies :: "reply list"

definition app_init :: app_state where
  "app_init = \<lparr>app_cache = empty_cache, app_threads = [], app_replies = []\<rparr>"

text \<open>
  One atomic step: a request arrives (a POST runs its computation, and answers at once
  when it raises), a POST thread does its next write or redirects, a GET thread does
  its next read or renders, the index page is served.
\<close>

inductive app_step :: "solver \<Rightarrow> app_state \<Rightarrow> app_state \<Rightarrow> bool" for solve where
  post_start: "post_writes solve rows routes = Inr ws \<Longrightarrow>
     app_step solve s (s\<lparr>app_threads := app_threads s @ [PostT ws]\<rparr>)"
| post_error: "post_writes solve rows routes = Inl e \<Longrightarrow>
     app_step solve s (s\<lparr>app_replies := app_replies s @ [ShowReply (ServerError e)]\<rparr>)"
| post_write: "i < length (app_threads s) \<Longrightarrow> app_threads s ! i = PostT (w # ws) \<Longrightarrow>
     app_step solve s (s\<lparr>app_cache := apply_write w (app_cache s), app_threads := (app_threads s)[i := PostT ws]\<rparr>)"
| post_done: "i < length (app_threads s) \<Longrightarrow> app_threads s ! i = PostT [] \<Longrightarrow>
     app_step solve s (s\<lparr>app_threads := (app_threads s)[i := Done], app_replies := app_replies s @ [ShowReply Redirect]\<rparr>)"
| get_start: "app_step solve s (s\<lparr>app_threads := app_threads s @ [GetT q 0 empty_cache]\<rparr>)"
| get_read: "i < length (app_threads s) \<Longrightarrow> app_threads s ! i = GetT q k snap \<Longrightarrow> k < 5 \<Longrightarrow>
     app_step solve s (s\<lparr>app_threads := (app_threads s)[i := GetT q (Suc k) (read_field k (app_cache s) snap)]\<rparr>)"
| get_done: "i < length (app_threads s) \<Longrightarrow> app_threads s ! i = GetT q 5 snap \<Longrightarrow>
     app_step solve s (s\<lparr>app_threads := (app_threads s)[i := Done], app_replies := app_replies s @ [ShowReply (show_get snap q)]\<rparr>)"
| index: "app_step solve s (s\<lparr>app_replies := app_replies s @ [IndexPage]\<rparr>)"

inductive app_reach :: "solver \<Rightarrow> app_state \<Rightarrow> bool" for solve where
  init: "app_reach solve app_init"
| step: "app_reach solve s \<Longrightarrow> app_step solve s s' \<Longrightarrow> app_reach solve s'"

section \<open>What a field may hold\<close>

text \<open>A value one successful upload writes: the plan \<open>optimize\<close> returned for some tables.\<close>

definition uploaded :: "solver \<Rightarrow> network \<Rightarrow> assignment \<Rightarrow> bool" where
  "uploaded solve net x \<longleftrightarrow> (\<exists>rows routes m. optimize solve rows routes = Inr (Some (net, m, x)))"

fun write_ok :: "solver \<Rightarrow> cache_write \<Rightarrow> bool" where
  "write_ok solve (SetMaps maps) = (\<exists>net x. uploaded solve net x \<and> draw_maps net x = Inr maps)"
| "write_ok solve (SetNodes ns) = (\<exists>net x. uploaded solve net x \<and> ns = node_list net)"
| "write_ok solve (SetProd g) = (\<exists>net x. uploaded solve net x \<and> g = production_groups net x)"
| "write_ok solve (SetStor g) = (\<exists>net x. uploaded solve net x \<and> g = storage_groups net x)"
| "write_ok solve (SetActive a) = (a = Month 11)"

definition fields_ok :: "solver \<Rightarrow> web_cache \<Rightarrow> bool" where
  "fields_ok solve c \<longleftrightarrow>
     (case cache_maps c of None \<Rightarrow> True | Some maps \<Rightarrow> write_ok solve (SetMaps maps))
     \<and> (case cache_node_list c of None \<Rightarrow> True | Some ns \<Rightarrow> write_ok solve (SetNodes ns))
     \<and> (case cache_production c of None \<Rightarrow> True | Some g \<Rightarrow> write_ok solve (SetProd g))
     \<and> (case cache_storage c of None \<Rightarrow> True | Some g \<Rightarrow> write_ok solve (SetStor g))
     \<and> (case cache_active c of None \<Rightarrow> True | Some a \<Rightarrow> write_ok solve (SetActive a))"




section \<open>Lemmas\<close>


lemma post_writes_Some:
  assumes "optimize solve rows routes = Inr (Some (net, m, x))"
  shows "\<exists>maps. draw_maps net x = Inr maps \<and> post_writes solve rows routes =
     Inr [SetMaps maps, SetNodes (node_list net), SetProd (production_groups net x),
          SetStor (storage_groups net x), SetActive (Month 11)]"
proof -
  from show_post_Some [OF assms, of empty_cache] obtain maps where
      d: "draw_maps net x = Inr maps" and k: "map fst maps = layer_network_list" by blast
  from k have "fst (hd maps) = Month 11" by (cases maps) (auto simp: layer_network_list_def)
  with d assms show ?thesis by (simp add: post_writes_def Let_def)
qed


lemma fields_ok_empty [simp]: "fields_ok solve empty_cache"
  by (simp add: fields_ok_def empty_cache_def)









lemma run_post:
  "app_reach solve s \<Longrightarrow> i < length (app_threads s) \<Longrightarrow> app_threads s ! i = PostT ws \<Longrightarrow>
     app_reach solve (s\<lparr>app_cache := fold apply_write ws (app_cache s), app_threads := (app_threads s)[i := PostT []]\<rparr>)"
proof (induction ws arbitrary: s)
  case Nil
  then have "(app_threads s)[i := PostT []] = app_threads s" by (metis list_update_id)
  with Nil show ?case by simp
next
  case (Cons w ws)
  let ?s1 = "s\<lparr>app_cache := apply_write w (app_cache s), app_threads := (app_threads s)[i := PostT ws]\<rparr>"
  have "app_reach solve ?s1" using Cons.prems by (blast intro: app_reach.step app_step.post_write)
  from Cons.IH [OF this] Cons.prems(2) show ?case by simp
qed

lemma read_all:
  "read_field (Suc (Suc (Suc (Suc 0)))) c (read_field (Suc (Suc (Suc 0))) c (read_field (Suc (Suc 0)) c
     (read_field (Suc 0) c (read_field 0 c empty_cache)))) = c"
  by (simp add: read_field_def empty_cache_def)

lemma run_get:
  assumes "app_reach solve s" and "i < length (app_threads s)" and "app_threads s ! i = GetT q 0 empty_cache"
  shows "app_reach solve (s\<lparr>app_threads := (app_threads s)[i := GetT q 5 (app_cache s)]\<rparr>)"
proof -
  let ?c = "app_cache s"
  let ?t = "\<lambda>k snap. s\<lparr>app_threads := (app_threads s)[i := GetT q k snap]\<rparr>"
  have r: "app_reach solve (?t (Suc k) (read_field k ?c snap))" if "app_reach solve (?t k snap)" and "k < 5" for k snap
    using app_reach.step [OF that(1) app_step.get_read [of i "?t k snap" q k snap]] that(2) assms(2) by simp
  have "(app_threads s)[i := GetT q 0 empty_cache] = app_threads s" using assms(3) by (metis list_update_id)
  with assms(1) have "app_reach solve (?t 0 empty_cache)" by simp
  from r [OF r [OF r [OF r [OF r [OF this]]]]] show ?thesis by (simp add: read_all numeral_eq_Suc)
qed



section \<open>Properties\<close>



text \<open>
  C24. The cache is not updated atomically: for any two successful uploads A and B
  there is an interleaving (A stores its five entries, B stores its maps at line 87,
  a GET reads at lines 96--100) whose page shows B's maps with A's node list, A's
  results and A's active month.
\<close>

theorem torn_page:
  assumes "optimize solve rowsA routesA = Inr (Some (netA, mA, xA))"
    and "optimize solve rowsB routesB = Inr (Some (netB, mB, xB))"
  shows "\<exists>s mapsB. app_reach solve s \<and> draw_maps netB xB = Inr mapsB
     \<and> ShowReply (Page (Some mapsB) (node_list netA) (production_groups netA xA) (storage_groups netA xA) (Some (Month 11)))
          \<in> set (app_replies s)"
proof -
  from post_writes_Some [OF assms(1)] obtain mapsA where
      pa: "post_writes solve rowsA routesA = Inr [SetMaps mapsA, SetNodes (node_list netA),
         SetProd (production_groups netA xA), SetStor (storage_groups netA xA), SetActive (Month 11)]" by blast
  from post_writes_Some [OF assms(2)] obtain mapsB wsB where d: "draw_maps netB xB = Inr mapsB" and
      pb: "post_writes solve rowsB routesB = Inr (SetMaps mapsB # wsB)" by blast
  let ?cA = "fold apply_write [SetMaps mapsA, SetNodes (node_list netA),
         SetProd (production_groups netA xA), SetStor (storage_groups netA xA), SetActive (Month 11)] empty_cache"
  txt \<open>Upload A runs to the end: all five entries are A's.\<close>
  have s1: "app_reach solve \<lparr>app_cache = empty_cache, app_threads = [PostT [SetMaps mapsA, SetNodes (node_list netA),
         SetProd (production_groups netA xA), SetStor (storage_groups netA xA), SetActive (Month 11)]], app_replies = []\<rparr>"
    using app_reach.step [OF app_reach.init app_step.post_start [OF pa]] by (simp add: app_init_def)
  from run_post [OF s1, of 0] have s2: "app_reach solve \<lparr>app_cache = ?cA, app_threads = [PostT []], app_replies = []\<rparr>"
    by simp
  txt \<open>Upload B starts and stores its maps (line 87) and is preempted.\<close>
  have s3: "app_reach solve \<lparr>app_cache = ?cA, app_threads = [PostT [], PostT (SetMaps mapsB # wsB)], app_replies = []\<rparr>"
    using app_reach.step [OF s2 app_step.post_start [OF pb]] by simp
  have s4: "app_reach solve \<lparr>app_cache = ?cA\<lparr>cache_maps := Some mapsB\<rparr>, app_threads = [PostT [], PostT wsB], app_replies = []\<rparr>"
    using app_reach.step [OF s3 app_step.post_write [of 1]] by simp
  txt \<open>A GET reads all five entries and renders them.\<close>
  let ?cB = "?cA\<lparr>cache_maps := Some mapsB\<rparr>"
  have s5: "app_reach solve \<lparr>app_cache = ?cB, app_threads = [PostT [], PostT wsB, GetT None 0 empty_cache], app_replies = []\<rparr>"
    using app_reach.step [OF s4 app_step.get_start [of _ _ None]] by simp
  from run_get [OF s5, of 2 None]
  have s6: "app_reach solve \<lparr>app_cache = ?cB, app_threads = [PostT [], PostT wsB, GetT None 5 ?cB], app_replies = []\<rparr>"
    by simp
  have s7: "app_reach solve \<lparr>app_cache = ?cB, app_threads = [PostT [], PostT wsB, Done],
      app_replies = [ShowReply (show_get ?cB None)]\<rparr>"
    using app_reach.step [OF s6 app_step.get_done [of 2]] by simp
  have "show_get ?cB None = Page (Some mapsB) (node_list netA) (production_groups netA xA) (storage_groups netA xA) (Some (Month 11))"
    by (simp add: show_get_def empty_cache_def)
  with s7 d show ?thesis by fastforce
qed

end
