(* ===== verification/ErrorPaths.thy ===== *)
theory ErrorPaths
  imports Constraints
begin

text \<open>
  Inputs on which the planner raises instead of planning, each traced to its line:
  a facility without module fabrication whose module capacity cell is filled (KeyError
  on \<open>sss\<close>, line 244), a route naming a location the facility table lacks
  (ValueError of \<open>list.index\<close>, lines 400--401), and an active role whose unit-cost
  cell is empty (the \<open>None\<close> cost meets a variable in the objective, lines 683--688).
\<close>

section \<open>Lemmas\<close>

lemma num_operand_Inl: "bind_err (num_operand q) (\<lambda>c. Inr (g c)) = Inl e \<Longrightarrow> e = NotANumber"
  by (cases q) (simp_all add: num_operand_def)

section \<open>Properties\<close>

text \<open>
  C12. A facility whose kind has no module fabrication (a base port, an installation area,
  any other kind) but whose module capacity cell is filled makes the builder raise
  KeyError in its first month: the module capacity is accumulated whether or not the role
  is active, and the remainder dictionary has no module entry.
\<close>

theorem module_without_role_key_error:
  assumes "fr_name r \<noteq> []" and "\<not> kind_role (fr_kind r) ModuleFab" and "fr_cell r 10 = Some v"
    and "wet_storage_fields r = Inr w"
  shows "add_facility_row net r = Inl KeyError"
  using assms
  by (simp add: add_facility_row_def layer_network_list_def make_node_def month_capacity_def role_tasks_def
      role_keys_def init_sss_def accumulate_def node_role_def Let_def)

text \<open>
  C13. A route whose source or target names no facility of the table makes the builder
  raise ValueError in the first month, as the specification requires of a lookup
  failure.
\<close>

theorem unknown_route_value_error:
  assumes "rr_source rr \<noteq> []"
    and "(rr_source rr, Month 11) \<notin> node_id ` set (node_list net) \<or> (rr_target rr, Month 11) \<notin> node_id ` set (node_list net)"
  shows "add_route_row net rr = Inl ValueError"
proof -
  have r: "route_edge (node_list net) rr (Month 11) = Inl ValueError"
  proof (cases "(rr_source rr, Month 11) \<in> node_id ` set (node_list net)")
    case True
    then obtain n where n: "find_node (node_list net) (rr_source rr, Month 11) = Inr n"
      using find_node_present by blast
    from True assms(2) have "find_node (node_list net) (rr_target rr, Month 11) = Inl ValueError"
      by (intro find_node_missing) blast
    with n show ?thesis by (simp add: route_edge_def)
  next
    case False
    then show ?thesis by (simp add: route_edge_def find_node_missing)
  qed
  have l: "layer_network_list = Month 11 # tl layer_network_list" by (simp add: layer_network_list_def)
  show ?thesis
    unfolding add_route_row_def if_not_P [OF assms(1)]
    by (subst l, simp only: fold_err.simps(2) r bind_err_simps(1))
qed

text \<open>
  C14. A production edge whose unit cost is missing (an empty cost cell of an active role)
  makes the model generator raise once the capacities are built: the specification's
  "missing cells are zero" does not hold for costs.
\<close>

theorem missing_cost_not_a_number:
  assumes "capacity_conss net = Inr cap" and "i < length (production_list net)"
    and "pe_cost (production_list net ! i) = None" and "pe_function (production_list net ! i) \<noteq> WetStorage"
  shows "build_model net = Inl NotANumber"
proof -
  let ?pl = "production_list net"
  define A where "A = each_ip (length (transportation_list net)) (\<lambda>i p.
             [Inr (of_int (te_cost (transportation_list net ! i) p), Flow TransportKind i p SignMinus)]
             :: (error + rat \<times> var) list)"
  define B where "B = each_ip (length ?pl) (\<lambda>i p.
             [bind_err (num_operand (prod_calc_cost (?pl ! i) p)) (\<lambda>c. Inr (c, Flow ProductionKind i p SignMinus))])"
  define C where "C = each_ip (length (storage_list net)) (\<lambda>i p.
             [bind_err (num_operand (stor_calc_cost (storage_list net ! i) p)) (\<lambda>c. Inr (c, Flow StorageKind i p SignMinus))])"
  obtain q where q: "cost_mapping (pe_function (?pl ! i)) = Some q"
    using assms(4) by (cases "pe_function (?pl ! i)") (auto simp: cost_mapping_def)
  have "Inl NotANumber \<in> set B"
    unfolding B_def using assms(2,3) q
    by (intro each_ip_memI [where i = i and p = q]) (simp_all add: prod_calc_cost_def num_operand_def)
  then have mem: "Inl NotANumber \<in> set (A @ B @ C)" by simp
  have only: "\<forall>e. Inl e \<in> set (A @ B @ C) \<longrightarrow> e = NotANumber"
    unfolding A_def B_def C_def
    by (simp only: set_append Un_iff set_each_ip) (auto dest: num_operand_Inl [OF sym])
  have "objective_terms net = sequence_err (A @ B @ C)"
    unfolding objective_terms_def A_def B_def C_def Let_def ..
  with sequence_err_Inl [OF mem only] have "objective_terms net = Inl NotANumber" by simp
  with assms(1) show ?thesis by (simp add: build_model_def)
qed

end
