(* ===== verification/Liveness.thy ===== *)
theory Liveness
  imports Constraints
begin

text \<open>
  When the planner gets to an answer. The builder returns a network for every pair of
  tables whose cells meet the conditions its code needs: integer cells where
  \<open>int()\<close> reads them, no module capacity at a facility without module fabrication,
  an installation threshold among the twelve months, and routes between named
  facilities with an integer distance (\<open>row_ok\<close>, \<open>route_ok\<close>; lemmas
  \<open>add_facility_row_ok\<close> and \<open>add_route_row_ok\<close>; every loop of the builder is a
  fold, so returning is a matter of no exception). And the model always
  admits the plan with no flow when nothing is demanded and no capacity is negative, so
  a solver that finds a feasible point whenever there is one reports an optimum.
\<close>

section \<open>Conditions on the input tables\<close>

text \<open>A cell \<open>int()\<close> accepts: empty (read as 0 by the code's \<open>if cell else 0\<close>) or integral.\<close>

definition int_cell :: "rat option \<Rightarrow> bool" where
  "int_cell c = (case c of None \<Rightarrow> True | Some q \<Rightarrow> q = of_int \<lfloor>q\<rfloor>)"

definition row_ok :: "facility_row \<Rightarrow> bool" where
  "row_ok r \<longleftrightarrow> (fr_wet r \<longrightarrow> int_cell (fr_cell r 6))
     \<and> (kind_role (fr_kind r) ModuleFab \<or> fr_cell r 10 = None)
     \<and> (fr_kind r = InstallArea \<longrightarrow> fr_install_from r \<in> set (map month_digits layer_network_list)
          \<and> int_cell (fr_cell r 28) \<and> int_cell (fr_cell r 30))
     \<and> int_cell (fr_cell r 29)"

definition route_ok :: "string list \<Rightarrow> route_row \<Rightarrow> bool" where
  "route_ok names rr \<longleftrightarrow> (rr_source rr \<noteq> [] \<longrightarrow> rr_source rr \<in> set names \<and> rr_target rr \<in> set names
     \<and> rr_distance rr \<noteq> None \<and> int_cell (rr_distance rr))"

text \<open>The constraints the plan with no flow satisfies: right-hand sides of the right sign.\<close>

definition rhs_zero_ok :: "constr \<Rightarrow> bool" where
  "rhs_zero_ok c = (case c of Constr l LeOp b \<Rightarrow> 0 \<le> b | Constr l EqOp b \<Rightarrow> b = 0 | Constr l GeOp b \<Rightarrow> b \<le> 0)"

section \<open>Lemmas: every step of the builder returns\<close>

lemma parse_int_ok: "int_cell (Some q) \<Longrightarrow> \<exists>k. parse_int q = Inr k"
  by (simp add: int_cell_def parse_int_def)

lemma cell_int_ok: "int_cell c \<Longrightarrow> \<exists>k. (case c of None \<Rightarrow> Inr 0 | Some q \<Rightarrow> parse_int q) = Inr k"
  by (cases c) (auto simp: int_cell_def parse_int_def)

abbreviation sss_ok :: "(task \<Rightarrow> bool) \<Rightarrow> (task \<rightharpoonup> rat) \<Rightarrow> bool" where
  "sss_ok rl s \<equiv> \<forall>t\<in>set role_tasks. rl t \<longrightarrow> s t \<noteq> None"

lemma capacity_step_ok:
  assumes "sss_ok rl s" and "(i, t) \<in> set (enumerate 0 role_tasks)"
    and "t = ModuleFab \<and> \<not> rl t \<longrightarrow> fr_cell r (10 + 3 * i) = None"
  shows "\<exists>s' c'. capacity_step r rl (s, c) (i, t) = Inr (s', c') \<and> sss_ok rl s'"
proof -
  have t: "t \<in> set role_tasks" using assms(2) by (auto simp: in_set_enumerate_eq)
  show ?thesis
    using assms(1,3) t by (auto simp: accumulate_def Let_def split: option.splits)
qed

lemma month_capacity_ok:
  assumes "idx \<noteq> 0 \<longrightarrow> sss_ok rl sss" and "rl ModuleFab \<or> fr_cell r 10 = None"
  shows "\<exists>s' c'. month_capacity r rl idx sss = Inr (s', c') \<and> sss_ok rl s'"
proof -
  have init: "sss_ok rl (if idx = 0 then init_sss rl else sss)"
    using assms(1) by (auto simp: init_sss_def)
  have "\<exists>st. fold_err (capacity_step r rl) (enumerate 0 role_tasks) (if idx = 0 then init_sss rl else sss, \<lambda>_. 0) = Inr st
          \<and> sss_ok rl (fst st)"
  proof (rule fold_err_Inr [where P = "\<lambda>st. sss_ok rl (fst st)"])
    show "sss_ok rl (fst (if idx = 0 then init_sss rl else sss, \<lambda>_. 0))" using init by simp
  next
    fix st :: carry_state and x assume x: "x \<in> set (enumerate 0 role_tasks)" and P: "sss_ok rl (fst st)"
    obtain i t where x': "x = (i, t)" by (cases x)
    have "t = ModuleFab \<and> \<not> rl t \<longrightarrow> fr_cell r (10 + 3 * i) = None"
    proof
      assume "t = ModuleFab \<and> \<not> rl t"
      moreover have "role_tasks ! i = t" "i < length role_tasks" using x x' by (auto simp: in_set_enumerate_eq)
      ultimately have "index_of role_tasks ModuleFab = Some i"
        using index_of_distinct [OF distinct_role_tasks, of i] by simp
      moreover have "index_of role_tasks ModuleFab = Some 0" by (simp add: role_tasks_def role_keys_def)
      ultimately have "i = 0" by simp
      with \<open>t = ModuleFab \<and> \<not> rl t\<close> assms(2) show "fr_cell r (10 + 3 * i) = None" by auto
    qed
    from capacity_step_ok [OF P x [unfolded x'] this, of "snd st"]
    show "\<exists>t'. capacity_step r rl st x = Inr t' \<and> sss_ok rl (fst t')"
      by (cases st) (auto simp: x')
  qed
  then show ?thesis by (auto simp: month_capacity_def)
qed

lemma node_role_module: "node_role r ModuleFab = kind_role (fr_kind r) ModuleFab"
  by (simp add: node_role_def)

lemma node_role_install: "node_role r TurbineInstall \<longleftrightarrow> fr_kind r = InstallArea"
  by (cases "fr_kind r") (simp_all add: node_role_def kind_role_def)

lemma wet_storage_fields_ok: "row_ok r \<Longrightarrow> \<exists>w. wet_storage_fields r = Inr w"
  by (auto simp: row_ok_def wet_storage_fields_def int_cell_def parse_int_def split: option.splits)

lemma install_capacity_ok:
  assumes "row_ok r" and "m \<in> set layer_network_list"
  shows "\<exists>cap'. install_capacity r (node_role r) m cap = Inr cap'"
proof (cases "fr_kind r = InstallArea")
  case True
  with assms(1) have f: "fr_install_from r \<in> set (map month_digits layer_network_list)" and c: "int_cell (fr_cell r 28)"
    by (auto simp: row_ok_def)
  from f obtain thr where thr: "index_of (map month_digits layer_network_list) (fr_install_from r) = Some thr"
    by (cases "index_of (map month_digits layer_network_list) (fr_install_from r)") auto
  from assms(2) obtain im where im: "index_of layer_network_list m = Some im"
    by (cases "index_of layer_network_list m") auto
  from True thr im c show ?thesis
    by (auto simp: install_capacity_def node_role_install int_cell_def parse_int_def split: option.splits)
next
  case False
  then show ?thesis by (simp add: install_capacity_def node_role_install)
qed

lemma make_node_ok:
  assumes "row_ok r" and "m \<in> set layer_network_list" and "idx \<noteq> 0 \<longrightarrow> sss_ok (node_role r) sss"
  shows "\<exists>n s'. make_node r idx m sss = Inr (n, s') \<and> sss_ok (node_role r) s' \<and> node_id n = (fr_name r, m)"
proof -
  obtain w where w: "wet_storage_fields r = Inr w" using wet_storage_fields_ok [OF assms(1)] by blast
  have mod: "node_role r ModuleFab \<or> fr_cell r 10 = None" using assms(1) by (simp add: row_ok_def node_role_module)
  obtain s' cap where mc: "month_capacity r (node_role r) idx sss = Inr (s', cap)" and ok: "sss_ok (node_role r) s'"
    using month_capacity_ok [OF assms(3) mod] by blast
  obtain cap' where ic: "install_capacity r (node_role r) m cap = Inr cap'"
    using install_capacity_ok [OF assms(1,2)] by blast
  obtain st where st: "steel_supply r = Inr st"
    using cell_int_ok [of "fr_cell r 29"] assms(1) by (auto simp: row_ok_def steel_supply_def)
  show ?thesis
    using w mc ic st ok by (auto simp: make_node_def Let_def node_id_def split: prod.splits)
qed

lemma production_edges_of_ok:
  assumes "n \<in> set ns"
  shows "\<exists>pes. production_edges_of ns n = Inr pes"
proof -
  have k: "(node_name n, node_month n) \<in> node_id ` set ns"
    using assms by (metis image_eqI node_id_def)
  have "\<exists>s'. fold_err (\<lambda>acc t.
        if role n t then
          bind_err (find_node ns (node_name n, node_month n)) (\<lambda>ny.
            Inr (acc @ [\<lparr>pe_source = ny, pe_target = ny, pe_function = t,
                         pe_cost = cost n t, pe_capacity = capacity n t\<rparr>]))
        else Inr acc) role_tasks [] = Inr s' \<and> True"
    by (rule fold_err_Inr) (use find_node_present [OF k] in auto)
  then show ?thesis by (simp add: production_edges_of_def)
qed

lemma month_step_ok:
  assumes "row_ok r" and "m \<in> set layer_network_list"
    and "idx \<noteq> 0 \<longrightarrow> sss_ok (node_role r) sss \<and> (fr_name r, layer_network_list ! (idx - 1)) \<in> node_id ` set (node_list net)"
  shows "\<exists>s' net'. month_step r (sss, net) (idx, m) = Inr (s', net') \<and> sss_ok (node_role r) s'
           \<and> node_id ` set (node_list net') = insert (fr_name r, m) (node_id ` set (node_list net))"
proof -
  obtain n s' where mk: "make_node r idx m sss = Inr (n, s')" and ok: "sss_ok (node_role r) s'"
    and nid: "node_id n = (fr_name r, m)"
    using make_node_ok [OF assms(1,2)] assms(3) by blast
  let ?ns = "node_list net @ [n]"
  obtain pes where pe: "production_edges_of ?ns n = Inr pes" using production_edges_of_ok [of n ?ns] by auto
  have nm: "node_name n = fr_name r" "node_month n = m" using nid by (simp_all add: node_id_def)
  have "\<exists>ses. (if idx \<noteq> 0 then bind_err (storage_edge_of ?ns n idx m) (\<lambda>se. Inr [se]) else Inr []) = Inr ses"
  proof (cases "idx = 0")
    case False
    with assms(3) have prev: "(node_name n, layer_network_list ! (idx - 1)) \<in> node_id ` set ?ns"
      using nm by auto
    have cur: "(node_name n, m) \<in> node_id ` set ?ns" using nid nm by (metis image_eqI in_set_conv_decomp)
    from find_node_present [OF prev] find_node_present [OF cur] False show ?thesis
      by (auto simp: storage_edge_of_def)
  qed simp
  then obtain ses where se: "(if idx \<noteq> 0 then bind_err (storage_edge_of ?ns n idx m) (\<lambda>se. Inr [se]) else Inr []) = Inr ses"
    by blast
  show ?thesis
    using mk pe se ok nid by (auto simp: Let_def)
qed

lemma drop_Cons_nth:
  assumes "drop k xs = m # ms"
  shows "xs ! k = m \<and> drop (Suc k) xs = ms \<and> m \<in> set xs"
proof -
  have k: "k < length xs" using assms by (metis drop_all list.distinct(1) not_le_imp_less)
  from Cons_nth_drop_Suc [OF k] assms have "xs ! k = m" "drop (Suc k) xs = ms" by simp_all
  moreover have "m \<in> set xs" using assms by (metis in_set_dropD list.set_intros(1))
  ultimately show ?thesis by blast
qed

lemma fold_month_step_ok:
  assumes "row_ok r" and "drop k layer_network_list = ms"
    and "k \<noteq> 0 \<longrightarrow> sss_ok (node_role r) sss \<and> (fr_name r, layer_network_list ! (k - 1)) \<in> node_id ` set (node_list net)"
  shows "\<exists>s' net'. fold_err (month_step r) (enumerate k ms) (sss, net) = Inr (s', net')
           \<and> node_id ` set (node_list net') = node_id ` set (node_list net) \<union> {fr_name r} \<times> set ms"
  using assms(2,3)
proof (induction ms arbitrary: k sss net)
  case Nil
  then show ?case by simp
next
  case (Cons m ms)
  from drop_Cons_nth [OF Cons.prems(1)] have mk: "layer_network_list ! k = m"
    and rest: "drop (Suc k) layer_network_list = ms" and m: "m \<in> set layer_network_list" by auto
  obtain s1 net1 where step: "month_step r (sss, net) (k, m) = Inr (s1, net1)"
    and ok: "sss_ok (node_role r) s1"
    and ids: "node_id ` set (node_list net1) = insert (fr_name r, m) (node_id ` set (node_list net))"
    using month_step_ok [OF assms(1) m Cons.prems(2)] by blast
  have "Suc k \<noteq> 0 \<longrightarrow> sss_ok (node_role r) s1 \<and> (fr_name r, layer_network_list ! (Suc k - 1)) \<in> node_id ` set (node_list net1)"
    using ok ids mk by simp
  from Cons.IH [OF rest this] obtain s' net' where
      f: "fold_err (month_step r) (enumerate (Suc k) ms) (s1, net1) = Inr (s', net')"
      and ids': "node_id ` set (node_list net') = node_id ` set (node_list net1) \<union> {fr_name r} \<times> set ms"
    by blast
  from step f ids ids' show ?case by auto
qed

lemma add_facility_row_ok:
  assumes "fr_name r \<noteq> [] \<longrightarrow> row_ok r"
  shows "\<exists>net'. add_facility_row net r = Inr net'
           \<and> node_id ` set (node_list net) \<subseteq> node_id ` set (node_list net')
           \<and> (fr_name r \<noteq> [] \<longrightarrow> {fr_name r} \<times> set layer_network_list \<subseteq> node_id ` set (node_list net'))"
proof (cases "fr_name r = []")
  case True
  then show ?thesis by (simp add: add_facility_row_def)
next
  case False
  with assms have ok: "row_ok r" by simp
  obtain s1 net1 where f: "fold_err (month_step r) (enumerate 0 layer_network_list) (Map.empty, net) = Inr (s1, net1)"
    and ids: "node_id ` set (node_list net1) = node_id ` set (node_list net) \<union> {fr_name r} \<times> set layer_network_list"
    using fold_month_step_ok [OF ok, of 0 layer_network_list Map.empty net] by auto
  show ?thesis
  proof (cases "fr_kind r = InstallArea")
    case True
    obtain d where d: "turbine_demand r = Inr d"
      using cell_int_ok [of "fr_cell r 30"] ok True by (auto simp: row_ok_def turbine_demand_def)
    let ?a = "\<lparr>node_name = fr_name r, node_month = aggregate_month, lat = fr_lat r, lon = fr_lon r,
            kind = fr_kind r, role = (\<lambda>t. t = TurbineInstall), cost = (\<lambda>_. None),
            capacity = (\<lambda>_. 0), wet_storage_capacity = None, wet_storage_cost = None,
            steel = 0, turbine = d\<rparr>"
    have a: "aggregate_node r = Inr ?a" using d by (simp add: aggregate_node_def)
    let ?ns = "node_list net1 @ [?a]"
    have "\<exists>tes. fold_err (\<lambda>acc m.
        bind_err (find_node ?ns (node_name ?a, m)) (\<lambda>n1.
          Inr (acc @ [\<lparr>te_source = n1, te_target = ?a, te_month = None,
                       te_cost = (\<lambda>_. 0), te_capacity = (\<lambda>_. Some 10000)\<rparr>])))
       layer_network_list [] = Inr tes \<and> True"
    proof (rule fold_err_Inr)
      fix acc m assume m: "m \<in> set layer_network_list"
      have "(node_name ?a, m) \<in> node_id ` set ?ns" using ids m by auto
      from find_node_present [OF this] show "\<exists>t. bind_err (find_node ?ns (node_name ?a, m)) (\<lambda>n1.
          Inr (acc @ [\<lparr>te_source = n1, te_target = ?a, te_month = None,
                       te_cost = (\<lambda>_. 0), te_capacity = (\<lambda>_. Some 10000)\<rparr>])) = Inr t \<and> True" by auto
    qed simp
    then obtain tes where s: "sink_edges ?ns ?a = Inr tes" by (auto simp: sink_edges_def)
    show ?thesis using f a s True False ids by (auto simp: add_facility_row_def Let_def)
  next
    case nia: False
    show ?thesis using f nia False ids by (auto simp: add_facility_row_def)
  qed
qed

lemma fold_rows_ok:
  assumes "\<forall>r\<in>set rows. fr_name r \<noteq> [] \<longrightarrow> row_ok r"
  shows "\<exists>net'. fold_err add_facility_row rows net = Inr net'
           \<and> node_id ` set (node_list net) \<subseteq> node_id ` set (node_list net')
           \<and> (\<forall>r\<in>set rows. fr_name r \<noteq> [] \<longrightarrow> {fr_name r} \<times> set layer_network_list \<subseteq> node_id ` set (node_list net'))"
  using assms
proof (induction rows arbitrary: net)
  case Nil
  then show ?case by simp
next
  case (Cons r rows)
  obtain net1 where s: "add_facility_row net r = Inr net1"
    and sub: "node_id ` set (node_list net) \<subseteq> node_id ` set (node_list net1)"
    and own: "fr_name r \<noteq> [] \<longrightarrow> {fr_name r} \<times> set layer_network_list \<subseteq> node_id ` set (node_list net1)"
    using add_facility_row_ok [of r net] Cons.prems by auto
  obtain net' where f: "fold_err add_facility_row rows net1 = Inr net'"
    and sub': "node_id ` set (node_list net1) \<subseteq> node_id ` set (node_list net')"
    and others: "\<forall>r\<in>set rows. fr_name r \<noteq> [] \<longrightarrow> {fr_name r} \<times> set layer_network_list \<subseteq> node_id ` set (node_list net')"
    using Cons.IH [of net1] Cons.prems by auto
  have "fold_err add_facility_row (r # rows) net = Inr net'" using s f by simp
  moreover have "node_id ` set (node_list net) \<subseteq> node_id ` set (node_list net')" using sub sub' by blast
  moreover have "fr_name r \<noteq> [] \<longrightarrow> {fr_name r} \<times> set layer_network_list \<subseteq> node_id ` set (node_list net')"
    using own sub' by blast
  ultimately show ?case using others by auto
qed

lemma add_route_row_ok:
  assumes "route_ok names rr"
    and "\<forall>nm\<in>set names. {nm} \<times> set layer_network_list \<subseteq> node_id ` set (node_list net)"
  shows "\<exists>net'. add_route_row net rr = Inr net' \<and> node_list net' = node_list net"
proof (cases "rr_source rr = []")
  case True
  then show ?thesis by (simp add: add_route_row_def)
next
  case False
  with assms(1) have src: "rr_source rr \<in> set names" and tgt: "rr_target rr \<in> set names"
    and d: "rr_distance rr \<noteq> None" "int_cell (rr_distance rr)" by (auto simp: route_ok_def)
  from d obtain q k where q: "rr_distance rr = Some q" and k: "parse_int q = Inr k"
    by (cases "rr_distance rr") (auto dest: parse_int_ok)
  have "\<exists>net'. fold_err (\<lambda>net' m. bind_err (route_edge (node_list net') rr m) (\<lambda>te.
               Inr (net'\<lparr>transportation_list := transportation_list net' @ [te]\<rparr>)))
             layer_network_list net = Inr net' \<and> node_list net' = node_list net"
  proof (rule fold_err_Inr)
    fix n :: network and m assume m: "m \<in> set layer_network_list" and nl: "node_list n = node_list net"
    have "(rr_source rr, m) \<in> node_id ` set (node_list n)" "(rr_target rr, m) \<in> node_id ` set (node_list n)"
      using assms(2) src tgt m nl by auto
    with find_node_present obtain a b where
        "find_node (node_list n) (rr_source rr, m) = Inr a" "find_node (node_list n) (rr_target rr, m) = Inr b"
      by metis
    with q k nl show "\<exists>t. bind_err (route_edge (node_list n) rr m) (\<lambda>te.
               Inr (n\<lparr>transportation_list := transportation_list n @ [te]\<rparr>)) = Inr t \<and> node_list t = node_list net"
      by (simp add: route_edge_def)
  qed simp
  with False show ?thesis by (simp add: add_route_row_def)
qed

section \<open>Lemmas: the plan with no flow\<close>

lemma lin_eval_zero [simp]: "lin_eval (\<lambda>_. 0) l = 0"
  by (induction l) (auto simp: lin_eval_def)

lemma holds_zero: "holds (\<lambda>_. 0) c \<longleftrightarrow> rhs_zero_ok c"
proof (cases c)
  case (Constr l op b)
  then show ?thesis by (cases op) (simp_all add: rhs_zero_ok_def)
qed

lemma rhs_zero_ok_simps [simp]:
  "rhs_zero_ok (var_le v b) \<longleftrightarrow> 0 \<le> b"
  "rhs_zero_ok (var_eq_const v b) \<longleftrightarrow> b = 0"
  "rhs_zero_ok (scaled_eq a v a' w)"
  by (simp_all add: rhs_zero_ok_def var_le_def var_eq_const_def scaled_eq_def)

lemma capacity_conss_zero_ok:
  assumes "capacity_conss net = Inr cap"
    and "\<forall>e\<in>set (transportation_list net). \<forall>p c. te_capacity e p = Some c \<longrightarrow> 0 \<le> c"
    and "\<forall>e\<in>set (production_list net). 0 \<le> pe_capacity e"
    and "\<forall>e\<in>set (storage_list net). \<forall>c. se_capacity e = Some c \<longrightarrow> 0 \<le> c"
    and "c \<in> set cap"
  shows "rhs_zero_ok c"
proof -
  from assms(1) have items: "transport_cap_items net @ production_cap_items net @ storage_cap_items net = map Inr cap"
    by (simp add: capacity_conss_def sequence_err_Inr)
  then have "Inr c \<in> set (transport_cap_items net @ production_cap_items net @ storage_cap_items net)"
    using assms(5) by simp
  then consider (t) "Inr c \<in> set (transport_cap_items net)" | (p) "Inr c \<in> set (production_cap_items net)"
    | (s) "Inr c \<in> set (storage_cap_items net)" by auto
  then show ?thesis
  proof cases
    case t
    then obtain i p s where i: "i < length (transportation_list net)"
      and it: "bind_err (num_operand (te_capacity (transportation_list net ! i) p)) (\<lambda>c. Inr (var_le (Flow TransportKind i p s) c)) = Inr c"
      by (auto simp: transport_cap_items_def Let_def)
    have "\<forall>p c. te_capacity (transportation_list net ! i) p = Some c \<longrightarrow> 0 \<le> c"
      using assms(2) nth_mem [OF i] by blast
    with it show ?thesis by (auto simp: num_operand_def split: option.splits)
  next
    case p
    then obtain i p s where i: "i < length (production_list net)"
      and it: "(case prod_calc_capacity (pe_function (production_list net ! i)) p s (pe_capacity (production_list net ! i)) of
           None \<Rightarrow> Inl KeyError | Some k \<Rightarrow> Inr (var_le (Flow ProductionKind i p s) (of_int k))) = Inr c"
      by (auto simp: production_cap_items_def Let_def)
    have "0 \<le> pe_capacity (production_list net ! i)" using assms(3) nth_mem [OF i] by blast
    with it show ?thesis
      by (cases "pe_function (production_list net ! i)") (auto split: if_splits)
  next
    case s
    then obtain i p s where i: "i < length (storage_list net)"
      and it: "bind_err (num_operand (map_option of_int (stor_calc_capacity (storage_list net ! i) p)))
                 (\<lambda>c. Inr (var_le (Flow StorageKind i p s) c)) = Inr c"
      by (auto simp: storage_cap_items_def Let_def)
    have "\<forall>c. se_capacity (storage_list net ! i) = Some c \<longrightarrow> 0 \<le> c"
      using assms(4) nth_mem [OF i] by blast
    with it show ?thesis by (auto simp: num_operand_def stor_calc_capacity_def split: option.splits if_splits)
  qed
qed

lemma fixed_conss_zero_ok: "c \<in> set (mirror_conss net @ vessel_conss net @ no_vessel_conss net
     @ fixed_route_conss nm net @ through_conss net @ fixed_route_conss nm' net @ bmatrix_conss net) \<Longrightarrow> rhs_zero_ok c"
  by (auto simp: mirror_conss_def vessel_conss_def vessel_coupling_def no_vessel_conss_def fixed_route_conss_def
      through_conss_def bmatrix_conss_def bom_conss_def Let_def rhs_zero_ok_def var_eq_const_def scaled_eq_def
      split: if_splits)

lemma balance_conss_zero_ok:
  assumes "\<forall>n\<in>set (node_list net). 0 \<le> steel n \<and> turbine n \<le> 0" and "c \<in> set (balance_conss net)"
  shows "rhs_zero_ok c"
  using assms by (auto simp: balance_conss_def balance_constr_def rhs_zero_ok_def calc_supply_demand_def)

section \<open>Properties\<close>

text \<open>
  C15. With no turbine demanded, no negative steel and no negative capacity, every model
  the generator returns admits the plan with no flow at all, so the integer program is
  feasible.
\<close>

theorem empty_plan_feasible:
  assumes bm: "build_model net = Inr m"
    and "\<forall>e\<in>set (transportation_list net). \<forall>p c. te_capacity e p = Some c \<longrightarrow> 0 \<le> c"
    and "\<forall>e\<in>set (production_list net). 0 \<le> pe_capacity e"
    and "\<forall>e\<in>set (storage_list net). \<forall>c. se_capacity e = Some c \<longrightarrow> 0 \<le> c"
    and "\<forall>n\<in>set (node_list net). 0 \<le> steel n \<and> turbine n \<le> 0"
  shows "feasible m (\<lambda>_. 0)"
proof -
  from bm obtain cap obj where cap: "capacity_conss net = Inr cap"
    and conss: "model_conss m = mirror_conss net @ cap @ vessel_conss net @ no_vessel_conss net
              @ fixed_route_conss noshiro_oki_6 net @ through_conss net
              @ fixed_route_conss noshiro_oki net @ bmatrix_conss net @ balance_conss net"
    by (rule build_model_Inr)
  have "rhs_zero_ok c" if c: "c \<in> set (model_conss m)" for c
  proof -
    from c consider "c \<in> set cap" | "c \<in> set (balance_conss net)"
      | "c \<in> set (mirror_conss net @ vessel_conss net @ no_vessel_conss net
              @ fixed_route_conss noshiro_oki_6 net @ through_conss net
              @ fixed_route_conss noshiro_oki net @ bmatrix_conss net)"
      unfolding conss by auto
    then show ?thesis
      using capacity_conss_zero_ok [OF cap assms(2-4)] balance_conss_zero_ok [OF assms(5)] fixed_conss_zero_ok
      by cases blast+
  qed
  then show ?thesis by (simp add: feasible_def list_all_iff holds_zero)
qed

end
