(* ===== verification/Examples.thy ===== *)
theory Examples
  imports Conservation CapacityRefinement WellFormed Supply WebThreads ErrorPaths Liveness MapSafety
begin

text \<open>
  A concrete network on which the theorems are applied: one large shipyard that holds
  every production role in one month, with a production self-loop per role (module,
  half body 1 and 3, foundation, assembly, installation) of capacity 4, and the
  aggregate demand node of its site with a demand of one turbine, joined by a collection
  edge. The assignment \<open>ex_flow\<close> runs one turbine through the whole chain: four steel
  units become four modules, one and three of them become a half body 1 and a half body
  3, these a foundation, a turbine, an installed turbine that reaches the aggregate node.
  The second network has only three units of steel. The facility row \<open>ex_row\<close> is a
  small shipyard with a nominal module capacity of 5/2 foundation-equivalents and a
  half-body-1 capacity of 1/3 per month and ten units of steel; \<open>ex_port\<close> a base port
  with wet storage, and \<open>ex_route2\<close> a route from the shipyard to the port;
  \<open>ex_depot\<close> a location with no role and two units of steel, whose plan with no flow
  at all is feasible. \<open>ex_solver\<close> reports the plan with no flow as the optimum when it is
  feasible and fails otherwise; \<open>ex_solver_down\<close> never reports an optimum.
\<close>

definition ex_site :: node where
  "ex_site = \<lparr>node_name = ''yard'', node_month = Month 11, lat = 0, lon = 0, kind = LargeShipyard,
     role = (\<lambda>t. t \<noteq> WetStorage), cost = (\<lambda>_. Some 0), capacity = (\<lambda>_. 4),
     wet_storage_capacity = Some 0, wet_storage_cost = Some 0, steel = 4, turbine = 0\<rparr>"

definition ex_sink :: node where
  "ex_sink = \<lparr>node_name = ''yard'', node_month = aggregate_month, lat = 0, lon = 0, kind = InstallArea,
     role = (\<lambda>t. t = TurbineInstall), cost = (\<lambda>_. None), capacity = (\<lambda>_. 0),
     wet_storage_capacity = None, wet_storage_cost = None, steel = 0, turbine = 1\<rparr>"

definition ex_prod :: "task \<Rightarrow> production_edge" where
  "ex_prod t = \<lparr>pe_source = ex_site, pe_target = ex_site, pe_function = t, pe_cost = Some 0, pe_capacity = 4\<rparr>"

definition ex_net :: network where
  "ex_net = \<lparr>node_list = [ex_site, ex_sink],
     transportation_list = [\<lparr>te_source = ex_site, te_target = ex_sink, te_month = None,
                              te_cost = (\<lambda>_. 0), te_capacity = (\<lambda>_. Some 10000)\<rparr>],
     production_list = map ex_prod [ModuleFab, HalfBody1Fab, HalfBody3Fab, FoundationFab, TurbineAssembly, TurbineInstall],
     storage_list = []\<rparr>"

definition ex_flow_table :: "(var \<times> int) list" where
  "ex_flow_table =
     [(Flow ProductionKind 0 Steel SignPlus, 4), (Flow ProductionKind 0 Module SignMinus, 4),
      (Flow ProductionKind 1 Module SignPlus, 1), (Flow ProductionKind 1 HalfBody1 SignMinus, 1),
      (Flow ProductionKind 2 Module SignPlus, 3), (Flow ProductionKind 2 HalfBody3 SignMinus, 1),
      (Flow ProductionKind 3 HalfBody1 SignPlus, 1), (Flow ProductionKind 3 HalfBody3 SignPlus, 1),
      (Flow ProductionKind 3 Foundation SignMinus, 1),
      (Flow ProductionKind 4 Foundation SignPlus, 1), (Flow ProductionKind 4 Turbine SignMinus, 1),
      (Flow ProductionKind 5 Turbine SignPlus, 1), (Flow ProductionKind 5 TurbineInstalled SignMinus, 1),
      (Flow TransportKind 0 TurbineInstalled SignPlus, 1), (Flow TransportKind 0 TurbineInstalled SignMinus, 1),
      (FlowValue TransportKind 0 TurbineInstalled SignPlus, 1), (FlowValue TransportKind 0 TurbineInstalled SignMinus, 1)]"

definition ex_flow :: assignment where
  "ex_flow v = (case map_of ex_flow_table v of Some k \<Rightarrow> k | None \<Rightarrow> 0)"

definition ex_net_short :: network where
  "ex_net_short = ex_net\<lparr>node_list := [ex_site\<lparr>steel := 3\<rparr>, ex_sink]\<rparr>"

definition ex_row :: facility_row where
  "ex_row = \<lparr>fr_name = ''Yard'', fr_lat = 40, fr_lon = 140, fr_kind = SmallShipyard, fr_wet = False,
     fr_at_sea = False, fr_cell = map_of [(9, 0), (10, 5 / 2), (12, 0), (13, 1 / 3), (29, 10)],
     fr_install_from = ''11''\<rparr>"

definition ex_port :: facility_row where
  "ex_port = \<lparr>fr_name = ''Port'', fr_lat = 40, fr_lon = 139, fr_kind = BasePort, fr_wet = True,
     fr_at_sea = False, fr_cell = map_of [(5, 1), (6, 2), (24, 0), (25, 1)], fr_install_from = ''4''\<rparr>"

definition ex_route2 :: route_row where
  "ex_route2 = \<lparr>rr_source = ''Yard'', rr_target = ''Port'', rr_distance = Some 100, rr_capacity = Some 5\<rparr>"

definition ex_area :: facility_row where
  "ex_area = \<lparr>fr_name = ''Area'', fr_lat = 41, fr_lon = 139, fr_kind = InstallArea, fr_wet = False,
     fr_at_sea = False, fr_cell = map_of [(28, 2), (30, 3)], fr_install_from = ''4''\<rparr>"

definition ex_view :: "rat \<times> rat \<Rightarrow> node_view" where
  "ex_view p = \<lparr>nv_pos = p, nv_foundations = 0, nv_wet = 0, nv_assembled = 0, nv_installed = 0\<rparr>"

definition ex_graph :: month_graph where
  "ex_graph = \<lparr>graph_nodes = [(''Yard'', ex_view (40, 140)), (''Port'', ex_view (40, 139))],
     graph_edges = [((''Yard'', ''Port''), [(Steel, 0), (Module, 2)]), ((''Port'', ''Yard''), [(Steel, 0), (Module, 0)])]\<rparr>"

definition ex_depot :: facility_row where
  "ex_depot = \<lparr>fr_name = ''Depot'', fr_lat = 40, fr_lon = 139, fr_kind = OtherKind [], fr_wet = False,
     fr_at_sea = False, fr_cell = map_of [(29, 2)], fr_install_from = ''4''\<rparr>"

definition ex_solver :: solver where
  "ex_solver m = (if feasible m (\<lambda>_. 0) then (Optimal, \<lambda>_. 0) else (NotOptimal, \<lambda>_. 0))"

definition ex_solver_down :: solver where
  "ex_solver_down m = (NotOptimal, \<lambda>_. 0)"

definition ex_port_module :: facility_row where
  "ex_port_module = ex_port\<lparr>fr_cell := (fr_cell ex_port)(10 \<mapsto> 1)\<rparr>"

definition ex_route_far :: route_row where
  "ex_route_far = \<lparr>rr_source = ''yard'', rr_target = ''Sea'', rr_distance = Some 100, rr_capacity = Some 5\<rparr>"

definition ex_net_nocost :: network where
  "ex_net_nocost = ex_net\<lparr>production_list := [(ex_prod ModuleFab)\<lparr>pe_cost := None\<rparr>]\<rparr>"

definition ex_net_idle :: network where
  "ex_net_idle = ex_net\<lparr>node_list := [ex_site, ex_sink\<lparr>turbine := 0\<rparr>]\<rparr>"

definition ex_graph_dangling :: month_graph where
  "ex_graph_dangling = ex_graph\<lparr>graph_nodes := [(''Yard'', ex_view (40, 140))]\<rparr>"

definition ex_graph_jp :: month_graph where
  "ex_graph_jp = ex_graph\<lparr>graph_nodes := [(noshiro_oki, ex_view (40, 140))]\<rparr>"

lemmas ex_unfold = build_model_def capacity_conss_def transport_cap_items_def production_cap_items_def
  storage_cap_items_def objective_terms_def each_ips_def each_ip_def num_product_list_def sign_list_def
  ex_net_def ex_prod_def num_operand_def prod_calc_cost_def cost_mapping_def Let_def

lemmas ex_feasible_unfold = feasible_def model_variables_def mirror_conss_def vessel_conss_def vessel_coupling_def
  no_vessel_conss_def fixed_route_conss_def through_conss_def bmatrix_conss_def bom_conss_def
  balance_conss_def balance_constr_def out_terms_def in_terms_def calc_supply_demand_def
  ex_flow_def ex_flow_table_def node_id_def ex_site_def ex_sink_def aggregate_month_def
  noshiro_oki_6_def noshiro_oki_def

lemma ex_wf: "wf_network ex_net"
  by (simp add: wf_network_def ex_net_def ex_prod_def node_id_def ex_site_def ex_sink_def aggregate_month_def)

lemma ex_feasible: "\<exists>m. build_model ex_net = Inr m \<and> feasible m ex_flow"
  by (simp add: ex_unfold ex_feasible_unfold)

lemma ex_flow_nonneg: "0 \<le> ex_flow v"
proof (cases "map_of ex_flow_table v")
  case None
  then show ?thesis by (simp add: ex_flow_def)
next
  case (Some k)
  then have "(v, k) \<in> set ex_flow_table" by (rule map_of_SomeD)
  then show ?thesis using Some by (auto simp: ex_flow_def ex_flow_table_def)
qed

section \<open>Witnesses\<close>

lemma ex_row_builds: "case add_facility_row empty_network ex_row of Inl _ \<Rightarrow> False | Inr _ \<Rightarrow> True"
  by code_simp

lemma ex_row_ok: "\<exists>net'. add_facility_row empty_network ex_row = Inr net'"
  using ex_row_builds by (cases "add_facility_row empty_network ex_row") auto

lemma ex_row_roles:
  "fr_name ex_row \<noteq> []" "node_role ex_row ModuleFab" "node_role ex_row HalfBody1Fab"
  "index_of role_tasks ModuleFab = Some 0" "index_of role_tasks HalfBody1Fab = Some 1"
  "fr_cell ex_row (10 + 3 * 0) = Some (5 / 2)" "fr_cell ex_row (10 + 3 * 1) = Some (1 / 3)"
  by (simp_all add: ex_row_def node_role_def kind_role_def role_tasks_def role_keys_def)

lemma ex_plan_builds: "case build_network [ex_row, ex_port] [ex_route2] of Inl _ \<Rightarrow> False | Inr _ \<Rightarrow> True"
  by code_simp

lemma ex_plan_ok: "\<exists>net. build_network [ex_row, ex_port] [ex_route2] = Inr net"
  using ex_plan_builds by (cases "build_network [ex_row, ex_port] [ex_route2]") auto

lemma ex_plan_cells:
  "steel_supply ex_row = Inr 10" "steel_supply ex_port = Inr 0"
  "fr_name ex_row = ''Yard''" "fr_name ex_port = ''Port''"
  "fr_kind ex_row = SmallShipyard" "fr_kind ex_port = BasePort"
  by (simp_all add: steel_supply_def ex_row_def ex_port_def parse_int_def)

lemma ex_depot_plan:
  "case build_network [ex_depot] [] of Inl _ \<Rightarrow> False | Inr net \<Rightarrow>
     (case build_model net of Inl _ \<Rightarrow> False | Inr m \<Rightarrow> feasible m (\<lambda>_. 0))"
  by code_simp

lemma ex_depot_feasible:
  "\<exists>net m. build_network [ex_depot] [] = Inr net \<and> build_model net = Inr m \<and> feasible m (\<lambda>_. 0)"
  using ex_depot_plan by (auto split: sum.splits)


lemma ex_depot_optimize:
  "\<exists>net m. build_network [ex_depot] [] = Inr net \<and> build_model net = Inr m
     \<and> optimize ex_solver [ex_depot] [] = Inr (Some (net, m, \<lambda>_. 0))"
proof -
  from ex_depot_feasible obtain net m where
      b: "build_network [ex_depot] [] = Inr net" and bm: "build_model net = Inr m" and fe: "feasible m (\<lambda>_. 0)"
    by blast
  then have "optimize ex_solver [ex_depot] [] = Inr (Some (net, m, \<lambda>_. 0))"
    by (simp add: optimize_def ex_solver_def)
  with b bm show ?thesis by blast
qed

lemma ex_production_groups:
  "production_groups ex_net ex_flow = [((Month 11, ''yard''),
     [(ModuleFab, 4), (HalfBody1Fab, 1), (HalfBody3Fab, 1), (FoundationFab, 1), (TurbineAssembly, 1), (TurbineInstall, 1)])]"
  by code_simp

theorem steel_requirement_witness:
  "wf_network ex_net \<and> (\<exists>m. build_model ex_net = Inr m \<and> feasible m ex_flow)
   \<and> 4 * (\<Sum>n\<leftarrow>node_list ex_net. turbine n) \<le> (\<Sum>n\<leftarrow>node_list ex_net. steel n)"
proof -
  from ex_feasible obtain m where bm: "build_model ex_net = Inr m" and fe: "feasible m ex_flow" by blast
  from steel_requirement [OF ex_wf bm fe] bm fe ex_wf show ?thesis by blast
qed

theorem edge_code_table_witness:
  "(\<forall>p s. 0 \<le> ex_flow (Flow ProductionKind 2 p s))
   \<and> edge_code_holds 2 (ex_prod HalfBody3Fab) ex_flow
   \<and> table_holds HalfBody3Fab 4 (\<lambda>p s. ex_flow (Flow ProductionKind 2 p s))"
proof -
  have nn: "\<forall>p s. 0 \<le> ex_flow (Flow ProductionKind 2 p s)" by (simp add: ex_flow_nonneg)
  have code: "edge_code_holds 2 (ex_prod HalfBody3Fab) ex_flow"
    by (simp add: edge_code_holds_def ex_prod_def bom_conss_def num_product_list_def sign_list_def Let_def
        ex_flow_def ex_flow_table_def)
  from edge_code_table [OF nn, of "ex_prod HalfBody3Fab"] code nn show ?thesis
    by (simp add: ex_prod_def)
qed

theorem bill_of_materials_witness:
  "\<exists>m. build_model ex_net = Inr m \<and> feasible m ex_flow \<and> 2 < length (production_list ex_net)
     \<and> bom_holds HalfBody3Fab (\<lambda>p s. ex_flow (Flow ProductionKind 2 p s))
     \<and> ex_flow (Flow ProductionKind 2 Module SignPlus) = 3"
proof -
  from ex_feasible obtain m where bm: "build_model ex_net = Inr m" and fe: "feasible m ex_flow" by blast
  have len: "2 < length (production_list ex_net)" by (simp add: ex_net_def)
  from bill_of_materials [OF bm fe len] bm fe len show ?thesis
    by (auto simp: ex_net_def ex_prod_def ex_flow_def ex_flow_table_def)
qed

theorem row_capacity_carry_over_witness:
  "\<exists>net'. add_facility_row empty_network ex_row = Inr net'
     \<and> map (\<lambda>n. capacity n HalfBody1Fab) (take 12 (drop (length (node_list empty_network)) (node_list net')))
         = [0, 0, 1, 0, 0, 1, 0, 0, 1, 0, 0, 1]"
proof -
  from ex_row_ok obtain net' where b: "add_facility_row empty_network ex_row = Inr net'" by blast
  have co: "map (\<lambda>c. capacity_unit HalfBody1Fab * c) (fst (carry_over 0 (replicate 12 (1 / 3))))
      = [0, 0, 1, 0, 0, 1, 0, 0, 1, 0, 0, 1]" by code_simp
  from row_capacity_carry_over [OF b ex_row_roles(1,3) _ ex_row_roles(5,7)] co b show ?thesis by auto
qed

theorem built_network_wf_witness:
  "\<exists>net. build_network [ex_row, ex_port] [ex_route2] = Inr net
     \<and> distinct (filter (\<lambda>s. s \<noteq> []) (map fr_name [ex_row, ex_port])) \<and> wf_network net"
proof -
  from ex_plan_ok obtain net where b: "build_network [ex_row, ex_port] [ex_route2] = Inr net" by blast
  have d: "distinct (filter (\<lambda>s. s \<noteq> []) (map fr_name [ex_row, ex_port]))" by (simp add: ex_plan_cells)
  from built_network_wf [OF b d] b d show ?thesis by blast
qed

theorem built_supply_totals_witness:
  "\<exists>net. build_network [ex_row, ex_port] [ex_route2] = Inr net
     \<and> (\<Sum>n\<leftarrow>node_list net. steel n) = 120 \<and> (\<Sum>n\<leftarrow>node_list net. turbine n) = 0"
proof -
  from ex_plan_ok obtain net where b: "build_network [ex_row, ex_port] [ex_route2] = Inr net" by blast
  define s where "s r = (if r = ex_row then 10 else 0 :: int)" for r
  have sx: "\<forall>r\<in>set [ex_row, ex_port]. fr_name r \<noteq> [] \<longrightarrow> steel_supply r = Inr (s r)"
    using ex_plan_cells by (auto simp: s_def)
  have dx: "\<forall>r\<in>set [ex_row, ex_port]. fr_name r \<noteq> [] \<and> fr_kind r = InstallArea \<longrightarrow> turbine_demand r = Inr 0"
    using ex_plan_cells by auto
  have ne: "ex_port \<noteq> ex_row" using ex_plan_cells by auto
  from built_supply_totals [OF b sx dx] b ne ex_plan_cells show ?thesis by (simp add: s_def)
qed

theorem reported_production_witness:
  "\<exists>m. build_model ex_net = Inr m \<and> feasible m ex_flow \<and> 2 < length (production_list ex_net)
     \<and> cost_mapping (pe_function (production_list ex_net ! 2)) = Some HalfBody3
     \<and> edge_entries (\<lambda>i p s. ex_flow (Flow ProductionKind i p s)) HalfBody3Fab 2 = [(HalfBody3Fab, 1)]"
proof -
  from ex_feasible obtain m where bm: "build_model ex_net = Inr m" and fe: "feasible m ex_flow" by blast
  have len: "2 < length (production_list ex_net)" by (simp add: ex_net_def)
  have cm: "cost_mapping (pe_function (production_list ex_net ! 2)) = Some HalfBody3"
    by (simp add: ex_net_def ex_prod_def cost_mapping_def)
  have v: "ex_flow (Flow ProductionKind 2 HalfBody3 SignMinus) = 1" by (simp add: ex_flow_def ex_flow_table_def)
  from reported_production [OF bm fe len cm] bm fe len cm v show ?thesis
    by (simp add: ex_net_def ex_prod_def)
qed

theorem post_not_optimal_type_error_witness:
  "\<exists>net m. build_network [ex_depot] [] = Inr net \<and> build_model net = Inr m
     \<and> ex_solver_down m = (NotOptimal, \<lambda>_. 0)
     \<and> handle_post ex_solver_down [ex_depot] [] empty_cache = (ServerError TypeError, empty_cache)"
proof -
  from ex_depot_feasible obtain net m where
      b: "build_network [ex_depot] [] = Inr net" and bm: "build_model net = Inr m" by blast
  have s: "ex_solver_down m = (NotOptimal, \<lambda>_. 0)" by (simp add: ex_solver_down_def)
  from post_not_optimal_type_error [where solve = ex_solver_down, OF b bm s] b bm s show ?thesis by blast
qed

theorem post_get_roundtrip_witness:
  "\<exists>net m c' maps. optimize ex_solver [ex_depot] [] = Inr (Some (net, m, \<lambda>_. 0))
     \<and> handle_post ex_solver [ex_depot] [] empty_cache = (Redirect, c') \<and> draw_maps net (\<lambda>_. 0) = Inr maps
     \<and> show_get c' None = Page (Some maps) (node_list net) (production_groups net (\<lambda>_. 0))
                                 (storage_groups net (\<lambda>_. 0)) (Some (Month 11))"
proof -
  from ex_depot_optimize obtain net m where o: "optimize ex_solver [ex_depot] [] = Inr (Some (net, m, \<lambda>_. 0))"
    by blast
  from post_get_roundtrip [OF o, of empty_cache] o show ?thesis by blast
qed

theorem module_without_role_key_error_witness:
  "fr_name ex_port_module \<noteq> [] \<and> \<not> kind_role (fr_kind ex_port_module) ModuleFab
   \<and> fr_cell ex_port_module 10 = Some 1 \<and> wet_storage_fields ex_port_module = Inr (Some 1, Some 2)
   \<and> add_facility_row empty_network ex_port_module = Inl KeyError"
proof -
  have h: "fr_name ex_port_module \<noteq> []" "\<not> kind_role (fr_kind ex_port_module) ModuleFab"
    "fr_cell ex_port_module 10 = Some 1" "wet_storage_fields ex_port_module = Inr (Some 1, Some 2)"
    by (simp_all add: ex_port_module_def ex_port_def kind_role_def wet_storage_fields_def parse_int_def)
  from module_without_role_key_error [OF h] h show ?thesis by blast
qed

theorem unknown_route_value_error_witness:
  "rr_source ex_route_far \<noteq> []
   \<and> (rr_target ex_route_far, Month 11) \<notin> node_id ` set (node_list ex_net)
   \<and> add_route_row ex_net ex_route_far = Inl ValueError"
proof -
  have s: "rr_source ex_route_far \<noteq> []" by (simp add: ex_route_far_def)
  have t: "(rr_target ex_route_far, Month 11) \<notin> node_id ` set (node_list ex_net)"
    by (simp add: ex_route_far_def ex_net_def ex_site_def ex_sink_def node_id_def)
  from unknown_route_value_error [OF s disjI2 [OF t]] s t show ?thesis by blast
qed

theorem missing_cost_not_a_number_witness:
  "\<exists>cap. capacity_conss ex_net_nocost = Inr cap \<and> 0 < length (production_list ex_net_nocost)
     \<and> pe_cost (production_list ex_net_nocost ! 0) = None
     \<and> pe_function (production_list ex_net_nocost ! 0) \<noteq> WetStorage
     \<and> build_model ex_net_nocost = Inl NotANumber"
proof -
  obtain cap where c: "capacity_conss ex_net_nocost = Inr cap"
    by (simp add: ex_unfold ex_net_nocost_def)
  have h: "0 < length (production_list ex_net_nocost)" "pe_cost (production_list ex_net_nocost ! 0) = None"
    "pe_function (production_list ex_net_nocost ! 0) \<noteq> WetStorage"
    by (simp_all add: ex_net_nocost_def ex_prod_def)
  from missing_cost_not_a_number [OF c h] c h show ?thesis by blast
qed

theorem empty_plan_feasible_witness:
  "\<exists>m. build_model ex_net_idle = Inr m \<and> feasible m (\<lambda>_. 0)"
proof -
  obtain m where bm: "build_model ex_net_idle = Inr m"
    by (simp add: ex_unfold ex_net_idle_def)
  have h: "\<forall>e\<in>set (transportation_list ex_net_idle). \<forall>p c. te_capacity e p = Some c \<longrightarrow> 0 \<le> c"
    "\<forall>e\<in>set (production_list ex_net_idle). 0 \<le> pe_capacity e"
    "\<forall>e\<in>set (storage_list ex_net_idle). \<forall>c. se_capacity e = Some c \<longrightarrow> 0 \<le> c"
    "\<forall>n\<in>set (node_list ex_net_idle). 0 \<le> steel n \<and> turbine n \<le> 0"
    by (auto simp: ex_net_idle_def ex_net_def ex_prod_def ex_site_def ex_sink_def)
  from empty_plan_feasible [OF bm h] bm show ?thesis by blast
qed

theorem map_node_matches_results_witness:
  "nv_foundations (node_view ex_net ex_flow ex_site) = 1 \<and> nv_assembled (node_view ex_net ex_flow ex_site) = 1
   \<and> nv_installed (node_view ex_net ex_flow ex_site) = 1"
proof -
  from ex_feasible obtain m where bm: "build_model ex_net = Inr m" and fe: "feasible m ex_flow" by blast
  from map_node_matches_results [OF bm fe, of ex_site] show ?thesis
    by (simp add: ex_production_groups ex_site_def Let_def)
qed

lemma ex_plan_route_month:
  "case build_network [ex_row, ex_port] [ex_route2] of Inl _ \<Rightarrow> False
     | Inr net \<Rightarrow> (\<exists>e\<in>set (transportation_list net). te_month e = Some (Month 1)
          \<and> node_name (te_source e) = ''Yard'' \<and> node_name (te_target e) = ''Port'')"
  by code_simp

theorem graph_edge_ends_have_positions_witness:
  "\<exists>net attrs. build_network [ex_row, ex_port] [ex_route2] = Inr net
     \<and> ((''Yard'', ''Port''), attrs) \<in> set (graph_edges (month_graph net (\<lambda>_. 0) (Month 1)))
     \<and> ''Yard'' \<in> fst ` set (graph_nodes (month_graph net (\<lambda>_. 0) (Month 1)))
     \<and> ''Port'' \<in> fst ` set (graph_nodes (month_graph net (\<lambda>_. 0) (Month 1)))"
proof -
  obtain net where b: "build_network [ex_row, ex_port] [ex_route2] = Inr net"
    using ex_plan_ok by blast
  from ex_plan_route_month b have "(''Yard'', ''Port'') \<in> fst ` set (graph_edges (month_graph net (\<lambda>_. 0) (Month 1)))"
    unfolding month_graph_edge_keys by force
  then obtain attrs where e: "((''Yard'', ''Port''), attrs) \<in> set (graph_edges (month_graph net (\<lambda>_. 0) (Month 1)))"
    by force
  from graph_edge_ends_have_positions [OF b e] b e show ?thesis by blast
qed

theorem row_install_gate_witness:
  "\<exists>net'. add_facility_row empty_network ex_area = Inr net'
     \<and> map (\<lambda>n. capacity n TurbineInstall) (take 12 (node_list net')) = [0, 0, 0, 0, 0, 2, 2, 2, 2, 2, 2, 2]"
proof -
  have ok: "fr_name ex_area \<noteq> [] \<longrightarrow> row_ok ex_area"
    by (simp add: row_ok_def ex_area_def kind_role_def int_cell_def layer_network_list_def month_digits_def nat_digits.simps)
  from add_facility_row_ok [OF ok] obtain net' where a: "add_facility_row empty_network ex_area = Inr net'"
    by blast
  have thr: "index_of (map month_digits layer_network_list) (fr_install_from ex_area) = Some 5"
    by (simp add: ex_area_def layer_network_list_def month_digits_def nat_digits.simps)
  have k: "(case fr_cell ex_area 28 of None \<Rightarrow> Inr 0 | Some q \<Rightarrow> parse_int q) = Inr 2"
    by (simp add: ex_area_def parse_int_def)
  have n: "fr_name ex_area \<noteq> []" and i: "fr_kind ex_area = InstallArea" by (simp_all add: ex_area_def)
  from row_install_gate [OF a n i thr k] a show ?thesis by (simp add: empty_network_def upt_rec)
qed

theorem draw_maps_total_witness:
  "\<exists>net maps. build_network [ex_row, ex_port] [ex_route2] = Inr net \<and> draw_maps net (\<lambda>_. 0) = Inr maps
     \<and> map fst maps = layer_network_list"
proof -
  from ex_plan_ok obtain net where b: "build_network [ex_row, ex_port] [ex_route2] = Inr net" by blast
  from draw_maps_total [OF b, of "\<lambda>_. 0"] b show ?thesis by blast
qed

lemma ex_graph_drawn:
  "draw_month ex_graph = Inr [PolyLine (40, 140) (40, 139),
     CircleMarker (40, 140) ''Yard'', LabelMarker (40, 140) ''Yar'' (30, 12) ''Yard'',
     CircleMarker (40, 139) ''Port'', LabelMarker (40, 139) ''Por'' (30, 12) ''Port'']"
  by (simp add: draw_month_def nx_edges_def nx_nodes_def add_nx_node_def drawn_edges_def edge_line_def
      node_marks_def py_drop_last_def py_len_def utf8_cont_def pos_of_def ex_graph_def ex_view_def)

theorem drawn_lines_witness:
  "\<exists>es. draw_month ex_graph = Inr es \<and> PolyLine (40, 140) (40, 139) \<in> set es
     \<and> PolyLine (40, 139) (40, 140) \<notin> set es"
proof -
  have p: "pos_of ex_graph ''Yard'' = Inr (40, 140)" "pos_of ex_graph ''Port'' = Inr (40, 139)"
    by (simp_all add: pos_of_def ex_graph_def ex_view_def)
  have e: "((''Yard'', ''Port''), [(Steel, 0), (Module, 2)]) \<in> set (graph_edges ex_graph)"
    by (simp add: ex_graph_def)
  have n: "\<not> list_all (\<lambda>(p, v). v = (0::int)) [(Steel, 0), (Module, 2)]" by simp
  have "PolyLine (40, 140) (40, 139) \<in> set [PolyLine (40, 140) (40, 139),
     CircleMarker (40, 140) ''Yard'', LabelMarker (40, 140) ''Yar'' (30, 12) ''Yard'',
     CircleMarker (40, 139) ''Port'', LabelMarker (40, 139) ''Por'' (30, 12) ''Port'']"
    using drawn_lines [OF ex_graph_drawn, of "(40, 140)" "(40, 139)"] e n p by blast
  moreover have "PolyLine (40, 139) (40, 140) \<notin> set [PolyLine (40, 140) (40, 139),
     CircleMarker (40, 140) ''Yard'', LabelMarker (40, 140) ''Yar'' (30, 12) ''Yard'',
     CircleMarker (40, 139) ''Port'', LabelMarker (40, 139) ''Por'' (30, 12) ''Port'']"
    by simp
  ultimately show ?thesis using ex_graph_drawn by blast
qed

lemma ex_plan_yard_month:
  "case build_network [ex_row, ex_port] [ex_route2] of Inl _ \<Rightarrow> False
     | Inr net \<Rightarrow> pos_of (month_graph net (\<lambda>_. 0) (Month 1)) ''Yard'' = Inr (40, 140)
          \<and> (\<exists>n\<in>set (node_list net). node_month n = Month 1 \<and> node_name n = ''Yard'')"
  by code_simp

theorem drawn_labels_witness:
  "\<exists>net es. build_network [ex_row, ex_port] [ex_route2] = Inr net
     \<and> draw_month (month_graph net (\<lambda>_. 0) (Month 1)) = Inr es
     \<and> LabelMarker (40, 140) ''Yar'' (30, 12) ''Yard'' \<in> set es"
proof -
  from ex_plan_ok obtain net where b: "build_network [ex_row, ex_port] [ex_route2] = Inr net" by blast
  from draw_month_built [OF b] obtain es where d: "draw_month (month_graph net (\<lambda>_. 0) (Month 1)) = Inr es"
    by blast
  from ex_plan_yard_month b have y: "pos_of (month_graph net (\<lambda>_. 0) (Month 1)) ''Yard'' = Inr (40, 140)"
    and n: "\<exists>n\<in>set (node_list net). node_month n = Month 1 \<and> node_name n = ''Yard''" by auto
  from drawn_labels [OF b d, of "(40, 140)" "''Yar''" "(30, 12)" "''Yard''"] y n
  have "LabelMarker (40, 140) ''Yar'' (30, 12) ''Yard'' \<in> set es" by (simp add: py_drop_last_def py_len_def utf8_cont_def)
  with b d show ?thesis by blast
qed

theorem dangling_edge_key_error_witness:
  "((''Yard'', ''Port''), [(Steel, 0), (Module, 2)]) \<in> set (graph_edges ex_graph_dangling)
   \<and> \<not> list_all (\<lambda>(p, v). v = (0::int)) [(Steel, 0), (Module, 2)]
   \<and> draw_month ex_graph_dangling = Inl KeyError"
proof -
  have e: "((''Yard'', ''Port''), [(Steel, 0), (Module, 2)]) \<in> set (graph_edges ex_graph_dangling)"
    by (simp add: ex_graph_dangling_def ex_graph_def)
  have n: "\<not> list_all (\<lambda>(p, v). v = (0::int)) [(Steel, 0), (Module, 2)]" by simp
  have k: "''Yard'' \<notin> fst ` set (graph_nodes ex_graph_dangling) \<or> ''Port'' \<notin> fst ` set (graph_nodes ex_graph_dangling)"
    by (simp add: ex_graph_dangling_def)
  from dangling_edge_key_error [OF e n k] e n show ?thesis by blast
qed

lemma ex_far_route_rejected: "build_network [] [ex_route_far] = Inl ValueError"
  by (simp add: build_network_def empty_network_def add_route_row_def route_edge_def find_node_def
      ex_route_far_def layer_network_list_def)

theorem failed_post_keeps_page_witness:
  "serve ex_solver empty_cache [ShowPost [] [ex_route_far], ShowGet None]
     = ([ShowReply (ServerError ValueError), ShowReply (Page None [] [] [] None)], empty_cache)"
  using failed_post_keeps_page [OF ex_far_route_rejected, of ex_solver empty_cache None]
  by (simp add: show_get_def empty_cache_def)

text \<open>The label of a three-character name (nine UTF-8 bytes) shows two characters in a box 20 pixels wide.\<close>

lemma ex_noshiro_label:
  "node_marks ex_graph_jp noshiro_oki =
     Inr [CircleMarker (40, 140) noshiro_oki, LabelMarker (40, 140) (take 6 noshiro_oki) (20, 12) noshiro_oki]"
  by (simp add: node_marks_def pos_of_def py_drop_last_def py_len_def utf8_cont_def noshiro_oki_def
      ex_graph_jp_def ex_view_def)

lemma ex_depot_nodes: "case build_network [ex_depot] [] of Inl _ \<Rightarrow> False | Inr net \<Rightarrow> node_list net \<noteq> []"
  by code_simp

lemma ex_empty_optimize: "\<exists>m. optimize ex_solver [] [] = Inr (Some (empty_network, m, \<lambda>_. 0))"
proof -
  obtain m where bm: "build_model empty_network = Inr m"
    by (simp add: ex_unfold empty_network_def)
  have "feasible m (\<lambda>_. 0)" using bm
    by (auto simp: ex_unfold ex_feasible_unfold empty_network_def)
  with bm show ?thesis
    by (simp add: optimize_def build_network_def ex_solver_def)
qed


theorem torn_page_witness:
  "\<exists>netA mA netB mB s mapsB. optimize ex_solver [ex_depot] [] = Inr (Some (netA, mA, \<lambda>_. 0))
     \<and> optimize ex_solver [] [] = Inr (Some (netB, mB, \<lambda>_. 0)) \<and> node_list netA \<noteq> node_list netB
     \<and> app_reach ex_solver s \<and> draw_maps netB (\<lambda>_. 0) = Inr mapsB
     \<and> ShowReply (Page (Some mapsB) (node_list netA) (production_groups netA (\<lambda>_. 0)) (storage_groups netA (\<lambda>_. 0))
          (Some (Month 11))) \<in> set (app_replies s)"
proof -
  from ex_depot_optimize obtain netA mA where b: "build_network [ex_depot] [] = Inr netA"
    and oa: "optimize ex_solver [ex_depot] [] = Inr (Some (netA, mA, \<lambda>_. 0))" by blast
  from ex_depot_nodes b have n: "node_list netA \<noteq> node_list empty_network" by (simp add: empty_network_def)
  from ex_empty_optimize obtain mB where ob: "optimize ex_solver [] [] = Inr (Some (empty_network, mB, \<lambda>_. 0))" by blast
  from torn_page [OF oa ob] oa ob n show ?thesis by blast
qed

end
