(* ===== verification/Spec2Isabelle.thy ===== *)
theory Spec2Isabelle
  imports Examples
begin

text \<open>
  \<^bold>\<open>A verification model of the offshore-wind supply-chain planner.\<close>

  The repository plans, month by month, how steel becomes modules, half bodies,
  floating foundations, turbines and installed turbines at shipyards, base ports and
  installation areas. \<open>src/calc.py\<close> holds the computation in one function,
  \<open>optimize(node_rows, edge_rows)\<close>: it reads a facility table and a route table, builds
  a time-expanded network (nodes, transportation, production and storage edges), turns
  it into an integer program for pyscipopt, solves it and reads the flows back;
  \<open>build_maps\<close> renders the result and \<open>src/sample.py\<close> is the Flask front end, which
  groups the realised flows per node and keeps them in a process-wide cache. The parts
  interact only through the lists \<open>optimize\<close> builds, the solver model and its solution.

  \<^bold>\<open>Theories and what they model.\<close>
  \<^item> \<open>Prelude\<close>: the error type (ValueError, KeyError, a non-number in a solver
    expression, TypeError), sequencing of fallible steps (\<open>bind_err\<close>, \<open>fold_err\<close>,
    \<open>sequence_err\<close>) with their invariant and progress lemmas, Python's \<open>int()\<close>
    (\<open>py_int\<close>, \<open>parse_int\<close>), \<open>list.index\<close> (\<open>index_of\<close>), and list-sum lemmas.
  \<^item> \<open>DataModel\<close>: the configuration lists of lines 10--21, the classes \<open>Node\<close>,
    \<open>Transportation_Edge\<close>, \<open>Production_Edge\<close>, \<open>Storage_Edge\<close> as records, the
    role, product, sign and facility-kind strings as datatypes, and the decoded input
    rows. A month label is \<open>Month n\<close>; the string id \<open>(name_month)\<close> is the pair
    \<open>node_id\<close> = (name, month), which is faithful because no month label contains an
    underscore, so the string determines the pair.
  \<^item> \<open>Capacity\<close>: lines 185--281, the attributes of one node: roles by facility kind,
    wet storage, the monthly capacity with the fractional carry-over kept in \<open>sss\<close>
    (\<open>capacity_step\<close>, \<open>month_capacity\<close>), the installation gate, unit costs, steel
    and demand cells; and the specification's rule \<open>carry_over\<close> with its lemmas.
  \<^item> \<open>Builder\<close>: lines 155--445 as explicit state passing over the row and month loops
    (\<open>month_step\<close>, \<open>add_facility_row\<close>, \<open>add_route_row\<close>, \<open>build_network\<close>), node
    look-ups failing with ValueError (\<open>find_node\<close>), the vessel cost of a route, the
    supply and demand, and well-formedness (\<open>wf_network\<close>).
  \<^item> \<open>IPModel\<close>: the solver interface: integer variables with lower bound 0, linear
    constraints and objective; \<open>feasible\<close>, \<open>objective_value\<close>.
  \<^item> \<open>Constraints\<close>: lines 447--691, each block of constraints in the order of the
    source and the objective, assembled by \<open>build_model\<close>, which raises where a
    \<open>None\<close> cost or capacity meets a variable.
  \<^item> \<open>Conversion\<close>: the declarative bill-of-materials table of the specification and
    its equivalence with the source's per-edge constraints.
  \<^item> \<open>Conservation\<close>: the mass balance summed over a well-formed network, weighted by
    steel equivalents.
  \<^item> \<open>CapacityRefinement\<close>: the builder's monthly capacities against \<open>carry_over\<close>,
    and the installation gate of the twelve nodes of an installation area.
  \<^item> \<open>WellFormed\<close>, \<open>Supply\<close>: invariants of the builder: built networks are well
    formed, and their supply and demand in terms of the table cells.
  \<^item> \<open>Results\<close>: lines 693--739: the solver as a parameter (\<open>solver\<close>, any function
    from the model to a status and an assignment), the flat result dictionaries as
    association lists (\<open>AList.update\<close> is Python's in-place assignment), and
    \<open>optimize\<close>, which returns the plan only on an optimal status.
  \<^item> \<open>Maps\<close>: the graph part of \<open>build_maps\<close> (lines 742--781, 869--871): per month a
    networkx graph as two association lists (\<open>month_graph\<close>), the node attributes from
    the realised flows (\<open>node_view\<close>, \<open>prod_out_sum\<close>, \<open>stor_out_sum\<close>), the edge
    attributes summed per pair of end nodes (\<open>edge_flow_sum\<close>), the filter of edges
    that carried nothing (\<open>drawn_edges\<close>), and the month-keyed graphs (\<open>build_maps\<close>).
  \<^item> \<open>MapSafety\<close>: the builder keeps every route of a month between two nodes of that
    month (\<open>routes_within\<close>), so the graphs have no node without position.
  \<^item> \<open>Drawing\<close>: the folium part of \<open>build_maps\<close> (lines 782--871): networkx's node and
    edge iteration order (\<open>nx_nodes\<close>, \<open>nx_edges\<close>), the position look-up that raises
    KeyError (\<open>pos_of\<close>), the lines and node marks (\<open>edge_line\<close>, \<open>node_marks\<close>, with
    \<open>len\<close> and \<open>[:-1]\<close> on the code points of a UTF-8 name: \<open>py_len\<close>, \<open>py_drop_last\<close>), one
    map as the list of its elements (\<open>draw_month\<close>) and the maps of all months
    (\<open>draw_maps\<close>), which is what \<open>build_maps\<close> returns.
  \<^item> \<open>WebFrontEnd\<close>: sample.py lines 9--110: the grouping of realised flows per
    (month, location) with \<open>setdefault\<close> and \<open>append\<close> (\<open>group_flows\<close>), the cache
    record, the POST branch (\<open>show_post\<close>, \<open>handle_post\<close>: an exception, in the
    optimisation or in the drawing, answers with a server error and leaves the cache
    alone; otherwise it caches the drawn maps, the node list, both groupings and the
    first month as the active one) and the GET branch (\<open>show_get\<close>, whose
    \<open>?month=\<close> parameter overrides the cached month).
  \<^item> \<open>WebSession\<close>: requests that do not overlap: both routes as one function over
    the cache (\<open>handle\<close>) and sequences of them answered in order (\<open>serve\<close>).
  \<^item> \<open>WebThreads\<close>: the server as it runs, one thread per request (\<open>app.run\<close>,
    line 113) sharing \<open>GLOBAL_CACHE\<close> without a lock: a POST computes in its locals
    (\<open>post_writes\<close>) and then stores the five entries one assignment at a time
    (\<open>apply_write\<close>, lines 87--92), a GET reads them one at a time (\<open>read_field\<close>,
    lines 96--100); \<open>app_step\<close> is an atomic step of one thread, \<open>app_reach\<close> the
    states an interleaving reaches, \<open>app_inv\<close> its invariant (each entry comes from
    some upload).
  \<^item> \<open>ErrorPaths\<close>, \<open>Liveness\<close>: when the code raises, and when it returns: the table
    conditions \<open>row_ok\<close>, \<open>route_ok\<close> under which the builder returns, and the plan with
    no flow.
  \<^item> \<open>Examples\<close>: concrete tables, networks, flows and solvers on which every claim
    with a hypothesis is applied.

  \<^bold>\<open>Properties.\<close>
  Conservation: C1 every feasible plan of a well-formed network uses four steel units
  per demanded turbine; C7 the same on the input tables, against twelve times their
  steel cells. Conversion: C2 the per-edge constraints equal the declarative table; C3
  every feasible plan converts at each role's ratio. Builder: C4 the monthly capacities
  refine the carry-over rule, C5 built networks are well formed, C6 supply and demand of
  a built network, C18 an installation area installs nothing before the month of column
  31 and the integer of column 28 from then on. Front end: C8 the cached groups are a
  group-by of the production edges, C9 each edge reports exactly its output, C10 a
  non-optimal solve ends in a TypeError with the cache unchanged, C11 POST then GET
  shows the plan just computed, C16 the node attributes of the map equal the role
  totals of the cached groups. Errors: C12 module cell at a facility without module
  fabrication (KeyError), C13 route to an unknown location (ValueError), C14 empty unit
  cost (error in the objective), C25 an edge whose end has no position makes the
  drawing raise KeyError. Liveness: C15 no demand makes the model feasible. Maps and
  drawing: C17 every edge of a month's graph joins two nodes of that graph, C19 drawing
  never raises on a built network, C20 the lines drawn are the edges that carried
  something, C21 the labels are the month's locations, the name less its last code
  point in a box ten pixels per code point wide. Application: C22 serving requests one
  after the other is a schedule of the threaded server, C23 under every interleaving
  each part of a page comes from a feasible plan when the solver is sound, C24 but an
  interleaving shows the maps of one upload with the node list and results of another
  (the cache is not updated atomically), C26 a POST the builder rejects answers with a
  server error and the next GET still shows the previous cache.

  \<^bold>\<open>Modelling choices.\<close> Python floats are exact rationals (\<open>rat\<close>). The carry-over
  and the vessel trip length take the source's steps, but exactly where the source rounds
  in binary floating point: a sum of floats can reach an integer the exact sum misses by
  a rounding error, and the truncation then differs by one unit (theory Capacity).
  CSV decoding is not modelled: a row is a record of decoded cells, \<open>None\<close> for an empty
  cell, a numeric cell the number its text denotes. So \<open>int()\<close> of a cell
  (\<open>parse_int\<close>) accepts every integral value, also one written \<open>'100.0'\<close> that Python
  rejects: its ValueError paths are those of non-integral numbers, and its successes are
  claimed for tables whose integer columns hold integer literals. The installation month
  (column 31) is kept as its text, since the code builds a month label from it. Names
  are the UTF-8 bytes of the cells (the files are read as utf-8-sig); \<open>len\<close> and
  \<open>[:-1]\<close> count code points on them (\<open>py_len\<close>, \<open>py_drop_last\<close>). A variable's value is
  an integer (all variables are integer), which \<open>getVal\<close> returns as a float; \<open>val >= 0.1\<close>
  on it is the test \<open>reported\<close> on the integer. Every loop of the source is a
  structural fold over a finite list, so no fuel is needed and every definition is total
  and executable; that the code returns is the statement that the result is \<open>Inr\<close>
  (C19, and the lemmas \<open>add_facility_row_ok\<close>, \<open>add_route_row_ok\<close>). Edge objects are
  identified by their position in their list, as the solver variables are per object.
  The solver is a parameter: theorems about solutions hold for every feasible
  assignment, hence for any optimum a solver reports. The web server is modelled twice:
  requests one after the other (\<open>serve\<close>) and threads interleaving at each cache
  access (\<open>app_step\<close>); the first is a schedule of the second (C22).

  \<^bold>\<open>Not modelled.\<close> The solver's algorithm (an external library); the fixed
  arguments of the folium calls (tiles, colours, radius, CSS, the tooltip objects) and
  the HTML serialisation \<open>m._repr_html_()\<close> (a map is the list of its varying elements);
  the Jinja templates; CSV parsing and the upload stream decoding (\<open>csv.reader\<close>,
  \<open>float()\<close> and \<open>int()\<close> on strings are library code: a row is a record of decoded
  cells); Flask's routing and the redirect itself (a POST's reply is \<open>Redirect\<close>).
  No loop of the source can run forever (each is a \<open>for\<close> over a finite list), so no
  termination theorem is stated: every definition is total by construction.
\<close>

section \<open>The plan and the input tables\<close>

text \<open>
  C7. Steel requirement stated on the input tables. For a facility table with distinct
  non-empty names and any route table, whenever the builder and the model generator
  succeed, every feasible plan (in particular the optimum the solver reports) needs four
  steel units per demanded turbine, against twelve times the steel cells of the table
  (the cell is supplied in every month).
\<close>

theorem plan_steel_requirement:
  assumes "build_network rows routes = Inr net"
    and "distinct (filter (\<lambda>s. s \<noteq> []) (map fr_name rows))"
    and "\<forall>r\<in>set rows. fr_name r \<noteq> [] \<longrightarrow> steel_supply r = Inr (s r)"
    and "\<forall>r\<in>set rows. fr_name r \<noteq> [] \<and> fr_kind r = InstallArea \<longrightarrow> turbine_demand r = Inr (d r)"
    and "build_model net = Inr m" and "feasible m x"
  shows "4 * (\<Sum>r\<leftarrow>filter (\<lambda>r. fr_name r \<noteq> [] \<and> fr_kind r = InstallArea) rows. d r)
           \<le> 12 * (\<Sum>r\<leftarrow>filter (\<lambda>r. fr_name r \<noteq> []) rows. s r)"
proof -
  have "wf_network net" by (rule build_network_wf_aux [OF assms(1,2)])
  from steel_balance [OF this assms(5,6)] build_network_supply_aux [OF assms(1,3,4)] show ?thesis by simp
qed

theorem plan_steel_requirement_witness:
  "\<exists>net m. build_network [ex_depot] [] = Inr net \<and> build_model net = Inr m \<and> feasible m (\<lambda>_. 0)
     \<and> 4 * (\<Sum>r\<leftarrow>filter (\<lambda>r. fr_name r \<noteq> [] \<and> fr_kind r = InstallArea) [ex_depot]. 0)
         \<le> 12 * (\<Sum>r\<leftarrow>filter (\<lambda>r. fr_name r \<noteq> []) [ex_depot]. (2::int))"
proof -
  from ex_depot_feasible obtain net m where
      b: "build_network [ex_depot] [] = Inr net" and bm: "build_model net = Inr m" and fe: "feasible m (\<lambda>_. 0)"
    by blast
  have d: "distinct (filter (\<lambda>s. s \<noteq> []) (map fr_name [ex_depot]))" by simp
  have s: "\<forall>r\<in>set [ex_depot]. fr_name r \<noteq> [] \<longrightarrow> steel_supply r = Inr 2"
    by (simp add: steel_supply_def ex_depot_def parse_int_def)
  have t: "\<forall>r\<in>set [ex_depot]. fr_name r \<noteq> [] \<and> fr_kind r = InstallArea \<longrightarrow> turbine_demand r = Inr 0"
    by (simp add: ex_depot_def)
  from plan_steel_requirement [OF b d s t bm fe] b bm fe show ?thesis by blast
qed

end
